theory Spec2Isabelle
  imports Complex_Main "HOL-Library.Sublist" "HOL-Library.Char_ord"
    "HOL-Library.List_Lexorder" "HOL-Library.Product_Lexorder"
begin

section \<open>Numeric values\<close>

text \<open>
  The pipeline computes on pandas/numpy float columns. A float is modelled as an exact
  real number or one of the three special values that float division produces: the two
  infinities and NaN. pandas treats NaN as the null of a numeric column, so \<open>NaN\<close>
  also stands for a missing number. The operations of this section are exact on finite
  values (no rounding, no overflow; the overflow of float64 and the wrap-around of int64
  are added in the section on machine numbers, for the functions whose result depends on
  them); the operations on special values follow IEEE 754,
  with every zero taken as positive (the zero denominators of this code are sums of
  the shape \<open>-x + x\<close>, which round to \<open>+0.0\<close>).
\<close>

datatype fval = Fin real | PInf | NInf | NaN

fun fneg :: "fval \<Rightarrow> fval" where
  "fneg (Fin a) = Fin (- a)"
| "fneg PInf = NInf"
| "fneg NInf = PInf"
| "fneg NaN = NaN"

fun fadd :: "fval \<Rightarrow> fval \<Rightarrow> fval" where
  "fadd (Fin a) (Fin b) = Fin (a + b)"
| "fadd NaN _ = NaN"
| "fadd _ NaN = NaN"
| "fadd PInf NInf = NaN"
| "fadd NInf PInf = NaN"
| "fadd PInf _ = PInf"
| "fadd _ PInf = PInf"
| "fadd NInf _ = NInf"
| "fadd _ NInf = NInf"

definition fsub :: "fval \<Rightarrow> fval \<Rightarrow> fval" where
  "fsub a b = fadd a (fneg b)"

fun fmul :: "fval \<Rightarrow> fval \<Rightarrow> fval" where
  "fmul (Fin a) (Fin b) = Fin (a * b)"
| "fmul NaN _ = NaN"
| "fmul _ NaN = NaN"
| "fmul (Fin a) PInf = (if a = 0 then NaN else if 0 < a then PInf else NInf)"
| "fmul (Fin a) NInf = (if a = 0 then NaN else if 0 < a then NInf else PInf)"
| "fmul PInf (Fin b) = (if b = 0 then NaN else if 0 < b then PInf else NInf)"
| "fmul NInf (Fin b) = (if b = 0 then NaN else if 0 < b then NInf else PInf)"
| "fmul PInf PInf = PInf"
| "fmul NInf NInf = PInf"
| "fmul PInf NInf = NInf"
| "fmul NInf PInf = NInf"

fun fdiv :: "fval \<Rightarrow> fval \<Rightarrow> fval" where
  "fdiv (Fin a) (Fin b) =
     (if b = 0 then (if a = 0 then NaN else if 0 < a then PInf else NInf)
      else Fin (a / b))"
| "fdiv NaN _ = NaN"
| "fdiv _ NaN = NaN"
| "fdiv (Fin a) PInf = Fin 0"
| "fdiv (Fin a) NInf = Fin 0"
| "fdiv PInf (Fin b) = (if 0 \<le> b then PInf else NInf)"
| "fdiv NInf (Fin b) = (if 0 \<le> b then NInf else PInf)"
| "fdiv PInf PInf = NaN"
| "fdiv PInf NInf = NaN"
| "fdiv NInf PInf = NaN"
| "fdiv NInf NInf = NaN"

text \<open>The order of the non-NaN values, as float comparison has it.\<close>

fun fle :: "fval \<Rightarrow> fval \<Rightarrow> bool" where
  "fle (Fin a) (Fin b) = (a \<le> b)"
| "fle NaN _ = False"
| "fle _ NaN = False"
| "fle NInf _ = True"
| "fle _ PInf = True"
| "fle _ _ = False"

definition fmin :: "fval \<Rightarrow> fval \<Rightarrow> fval" where
  "fmin a b = (if fle a b then a else b)"

definition fmax :: "fval \<Rightarrow> fval \<Rightarrow> fval" where
  "fmax a b = (if fle a b then b else a)"

text \<open>\<open>Series.fillna(v)\<close>, \<open>Series.min()\<close> and \<open>Series.max()\<close>: the last two skip
  nulls and are NaN when no value is left.\<close>

definition fillna :: "fval \<Rightarrow> fval list \<Rightarrow> fval list" where
  "fillna v xs = map (\<lambda>x. if x = NaN then v else x) xs"

definition dropna :: "fval list \<Rightarrow> fval list" where
  "dropna xs = filter (\<lambda>x. x \<noteq> NaN) xs"

definition series_min :: "fval list \<Rightarrow> fval" where
  "series_min xs = (case dropna xs of [] \<Rightarrow> NaN | y # ys \<Rightarrow> fold fmin ys y)"

definition series_max :: "fval list \<Rightarrow> fval" where
  "series_max xs = (case dropna xs of [] \<Rightarrow> NaN | y # ys \<Rightarrow> fold fmax ys y)"

definition eps :: real where
  "eps = 1 / 1000000"

section \<open>Migration risk\<close>

text \<open>
  \<open>AadhaarDataPipeline._calculate_migration_risk\<close>, on the column \<open>df['Update_Rate']\<close>:
  \<^verbatim>\<open>
  update_rate = df['Update_Rate'].fillna(0)
  risk_score = ((update_rate - update_rate.min()) /
                (update_rate.max() - update_rate.min() + 1e-6) * 100)
  return risk_score.fillna(50)
  \<close>
\<close>

definition calculate_migration_risk :: "fval list \<Rightarrow> fval list" where
  "calculate_migration_risk rates =
     (let update_rate = fillna (Fin 0) rates;
          mn = series_min update_rate;
          mx = series_max update_rate;
          risk_score = map (\<lambda>x. fmul (fdiv (fsub x mn) (fadd (fsub mx mn) (Fin eps))) (Fin 100))
                         update_rate
      in fillna (Fin 50) risk_score)"

text \<open>One row of \<open>risk_score\<close>, before the final \<open>fillna(50)\<close>.\<close>

definition risk_cell :: "fval \<Rightarrow> fval \<Rightarrow> fval \<Rightarrow> fval" where
  "risk_cell mn mx x = fmul (fdiv (fsub x mn) (fadd (fsub mx mn) (Fin eps))) (Fin 100)"

section \<open>Tables\<close>

text \<open>
  A cell of a loaded table is null (NaN, None or NaT), a text, a number or a
  timestamp (how an infinite float is written is said with the machine numbers). A
  \<open>DataFrame\<close> is its ordered column names and its rows, each row holding one cell
  per column; the row labels (the index) are not modelled, every operation below being
  positional. The dtype \<open>object\<close> of a column is read off its cells: a
  column is of object dtype when it holds a text. The numeric dtypes follow in the
  section on machine numbers.
\<close>

datatype cell = Null | Str string | Num real | Date int

record frame =
  columns :: "string list"
  rows :: "cell list list"

datatype error = ValueError | KeyError | TypeError

text \<open>The state of an \<open>AadhaarDataPipeline\<close> object: the three datasets, \<open>None\<close>
  until loaded.\<close>

record pipeline =
  enrolment_df :: "frame option"
  demographic_df :: "frame option"
  biometric_df :: "frame option"

text \<open>A derived table whose rows have a fixed shape: its column names and its rows.
  \<open>pd.DataFrame()\<close> is the table with no column and no row.\<close>

record 'r table =
  tcolumns :: "string list"
  trows :: "'r list"

definition empty_table :: "'r table" where
  "empty_table = \<lparr>tcolumns = [], trows = []\<rparr>"

fun index_of :: "'a \<Rightarrow> 'a list \<Rightarrow> nat option" where
  "index_of x [] = None"
| "index_of x (y # ys) = (if x = y then Some 0 else map_option Suc (index_of x ys))"

definition cell_at :: "cell list \<Rightarrow> nat \<Rightarrow> cell" where
  "cell_at r j = (if j < length r then r ! j else Null)"

text \<open>\<open>row[name]\<close> and \<open>df[name]\<close> for a column the caller has checked to be present.\<close>

definition field :: "frame \<Rightarrow> string \<Rightarrow> cell list \<Rightarrow> cell" where
  "field df name r = (case index_of name (columns df) of Some j \<Rightarrow> cell_at r j | None \<Rightarrow> Null)"

definition column :: "frame \<Rightarrow> string \<Rightarrow> cell list" where
  "column df name = map (field df name) (rows df)"

definition is_numeric :: "cell \<Rightarrow> bool" where
  "is_numeric c = (case c of Null \<Rightarrow> True | Num r \<Rightarrow> True | Str s \<Rightarrow> False | Date d \<Rightarrow> False)"

definition float_of :: "cell \<Rightarrow> fval" where
  "float_of c = (case c of Num r \<Rightarrow> Fin r | _ \<Rightarrow> NaN)"

text \<open>\<open>count\<close> of pandas: the number of values that are not null.\<close>

definition count_notnull :: "cell list \<Rightarrow> nat" where
  "count_notnull cs = length (filter (\<lambda>c. c \<noteq> Null) cs)"

text \<open>
  The group keys of \<open>groupby\<close>: the distinct non-null keys (\<open>dropna=True\<close>), sorted
  (\<open>sort=True\<close>). pandas sorts numbers before texts; texts compare by code point.
\<close>

definition cell_key :: "cell \<Rightarrow> nat \<times> real \<times> string" where
  "cell_key c = (case c of Num r \<Rightarrow> (0, r, []) | Date d \<Rightarrow> (1, real_of_int d, [])
                 | Str s \<Rightarrow> (2, 0, s) | Null \<Rightarrow> (3, 0, []))"

definition group_keys :: "cell list \<Rightarrow> cell list" where
  "group_keys ks = sort_key cell_key (remdups (filter (\<lambda>k. k \<noteq> Null) ks))"

section \<open>Column types and machine numbers\<close>

text \<open>
  A column of a \<open>DataFrame\<close> has a dtype, which decides the arithmetic that numpy runs
  on it. Whether a column of numbers is \<open>int64\<close> or \<open>float64\<close> cannot be read off
  its cells, so the functions whose result depends on it take the dtypes of the columns
  of their frame as an argument.
\<close>

datatype dtype = Int64 | Float64 | Datetime64 | Object

text \<open>
  Arithmetic on \<open>int64\<close> is not checked: a sum or a difference that leaves
  \<open>[-2^63, 2^63)\<close> wraps around modulo \<open>2^64\<close>. A column of dtype \<open>int64\<close> holds
  whole numbers of that range and no null.
\<close>

definition wrap64 :: "int \<Rightarrow> int" where
  "wrap64 x = (x + 2 ^ 63) mod 2 ^ 64 - 2 ^ 63"

definition int_of :: "cell \<Rightarrow> int" where
  "int_of c = (case c of Num r \<Rightarrow> \<lfloor>r\<rfloor> | _ \<Rightarrow> 0)"

definition int64_cell :: "cell \<Rightarrow> bool" where
  "int64_cell c =
     (case c of Num r \<Rightarrow> real_of_int \<lfloor>r\<rfloor> = r \<and> - (2 ^ 63) \<le> r \<and> r < 2 ^ 63 | _ \<Rightarrow> False)"

definition int64_column :: "frame \<Rightarrow> string \<Rightarrow> bool" where
  "int64_column df name = list_all int64_cell (column df name)"

definition ints :: "frame \<Rightarrow> string \<Rightarrow> int list" where
  "ints df name = map int_of (column df name)"

text \<open>
  Arithmetic on \<open>float64\<close> overflows: a result whose magnitude reaches
  \<open>2^1024 - 2^970\<close> (the largest double plus half a unit in its last place) is the
  infinity of its sign. Below that bound a result is taken exactly (rounding is outside
  the model). A \<open>float64\<close> column can hold infinities: in the functions of this
  development that take the dtypes, a number cell whose magnitude reaches the bound
  stands for the infinity of its sign, and \<open>cell64\<close> writes an infinity as the bound.
\<close>

definition f64_threshold :: real where
  "f64_threshold = 2 ^ 1024 - 2 ^ 970"

definition f64 :: "real \<Rightarrow> fval" where
  "f64 r = (if f64_threshold \<le> r then PInf else if r \<le> - f64_threshold then NInf else Fin r)"

definition overflow :: "fval \<Rightarrow> fval" where
  "overflow x = (case x of Fin r \<Rightarrow> f64 r | _ \<Rightarrow> x)"

definition add64 :: "fval \<Rightarrow> fval \<Rightarrow> fval" where
  "add64 a b = overflow (fadd a b)"

definition sub64 :: "fval \<Rightarrow> fval \<Rightarrow> fval" where
  "sub64 a b = overflow (fsub a b)"

definition mul64 :: "fval \<Rightarrow> fval \<Rightarrow> fval" where
  "mul64 a b = overflow (fmul a b)"

definition div64 :: "fval \<Rightarrow> fval \<Rightarrow> fval" where
  "div64 a b = overflow (fdiv a b)"

definition float64_of :: "cell \<Rightarrow> fval" where
  "float64_of c = (case c of Num r \<Rightarrow> f64 r | _ \<Rightarrow> NaN)"

definition cell64 :: "fval \<Rightarrow> cell" where
  "cell64 x = (case x of Fin r \<Rightarrow> Num r | PInf \<Rightarrow> Num f64_threshold
               | NInf \<Rightarrow> Num (- f64_threshold) | NaN \<Rightarrow> Null)"

definition floats64 :: "frame \<Rightarrow> string \<Rightarrow> fval list" where
  "floats64 df name = map float64_of (column df name)"

text \<open>The \<open>sum\<close> and \<open>mean\<close> of a group of float64 values and the \<open>sum\<close> of a group of
  int64 values: nulls are skipped, the sum of nothing is 0 and the mean of nothing is
  NaN. The mean of an int64 column is computed on its values as floats.\<close>

definition sum64 :: "fval list \<Rightarrow> fval" where
  "sum64 xs = foldl add64 (Fin 0) (dropna xs)"

definition mean64 :: "fval list \<Rightarrow> fval" where
  "mean64 xs = div64 (sum64 xs) (Fin (real (length (dropna xs))))"

definition sum_int64 :: "cell list \<Rightarrow> int" where
  "sum_int64 cs = wrap64 (sum_list (map int_of cs))"

section \<open>Biometric quality\<close>

text \<open>
  \<open>AadhaarDataPipeline.calculate_biometric_quality\<close>:
  \<^verbatim>\<open>
  biometric_health = df.groupby('State').agg({
      'Update_Count': ['sum', 'mean'], 'Age_Group': 'count'}).reset_index()
  biometric_health.columns = ['State', 'Total_Updates', 'Avg_Updates', 'Individuals_Updated']
  biometric_health['Biometric_Coverage'] = (
      biometric_health['Total_Updates'] /
      (biometric_health['Individuals_Updated'] + 1e-6)) * 100
  \<close>
  The grouped aggregation raises \<open>KeyError\<close> when \<open>Update_Count\<close> or \<open>Age_Group\<close> is
  missing, and \<open>TypeError\<close> when \<open>Update_Count\<close> is not a numeric column. The sum of an
  \<open>int64\<close> column is an \<open>int64\<close> and wraps around; the sum of a \<open>float64\<close> column
  and the three operations of the coverage are float operations and overflow. The guard
  \<open>'Individuals_Updated' in biometric_health.columns\<close> is true by the assignment before it.
\<close>

record biometric_health_row =
  State :: cell
  Total_Updates :: fval
  Avg_Updates :: fval
  Individuals_Updated :: nat
  Biometric_Coverage :: fval

definition total_updates :: "dtype \<Rightarrow> cell list \<Rightarrow> fval" where
  "total_updates dt cs =
     (if dt = Int64 then Fin (real_of_int (sum_int64 cs)) else sum64 (map float64_of cs))"

definition biometric_group :: "(string \<Rightarrow> dtype) \<Rightarrow> frame \<Rightarrow> cell \<Rightarrow> biometric_health_row" where
  "biometric_group dtypes df k =
     (let grp = filter (\<lambda>r. field df ''State'' r = k) (rows df);
          upd = map (field df ''Update_Count'') grp;
          total = total_updates (dtypes ''Update_Count'') upd;
          individuals = count_notnull (map (field df ''Age_Group'') grp)
      in \<lparr>State = k, Total_Updates = total, Avg_Updates = mean64 (map float64_of upd),
          Individuals_Updated = individuals,
          Biometric_Coverage =
            mul64 (div64 total (add64 (Fin (real individuals)) (Fin eps))) (Fin 100)\<rparr>)"

definition calculate_biometric_quality ::
  "(string \<Rightarrow> dtype) \<Rightarrow> pipeline \<Rightarrow> error + biometric_health_row table" where
  "calculate_biometric_quality dtypes p =
     (case biometric_df p of
        None \<Rightarrow> Inl ValueError
      | Some df \<Rightarrow>
          if ''State'' \<in> set (columns df) then
            if ''Update_Count'' \<notin> set (columns df) \<or> ''Age_Group'' \<notin> set (columns df)
            then Inl KeyError
            else if \<not> list_all is_numeric (column df ''Update_Count'') then Inl TypeError
            else Inr \<lparr>tcolumns = [''State'', ''Total_Updates'', ''Avg_Updates'',
                                  ''Individuals_Updated'', ''Biometric_Coverage''],
                      trows = map (biometric_group dtypes df) (group_keys (column df ''State''))\<rparr>
          else Inr empty_table)"

section \<open>Vulnerability score\<close>

text \<open>\<open>VulnerabilityAnalyzer._age_vulnerability_score\<close>: a dictionary lookup with the
  default 0.5, applied to the cell of the \<open>Age_Group\<close> column.\<close>

definition vulnerability_map :: "(cell \<times> real) list" where
  "vulnerability_map =
     [(Str ''Child (0-5)'', 1),
      (Str ''Child (6-17)'', 9 / 10),
      (Str ''Youth (18-25)'', 3 / 10),
      (Str ''Adult (26-40)'', 2 / 10),
      (Str ''Senior (41-60)'', 3 / 10),
      (Str ''Elderly (60+)'', 8 / 10)]"

definition age_vulnerability_score :: "cell \<Rightarrow> real" where
  "age_vulnerability_score age_group =
     (case map_of vulnerability_map age_group of Some v \<Rightarrow> v | None \<Rightarrow> 1 / 2)"

text \<open>
  The three normalised sub-scores, each on one numeric column:
  \<^verbatim>\<open>
  normalized = (enrolment.max() - enrolment) / (enrolment.max() - enrolment.min() + 1e-6)
  normalized = 1 - (biometric_updates / (biometric_updates.max() + 1e-6))
  normalized = demographic_updates / (demographic_updates.max() + 1e-6)
  return normalized.fillna(0.5).values
  \<close>
  The two differences of the first one are taken in the dtype of the column: on an
  \<open>int64\<close> column they are \<open>int64\<close> differences and wrap around, and only the sum with
  \<open>1e-6\<close> and the division are float operations. The other two sub-scores start with a
  float operation (the sum with \<open>1e-6\<close>, the division by a float), so they compute on
  the values of the column as floats whatever its numeric dtype.
\<close>

definition geographic_float64 :: "fval list \<Rightarrow> fval list" where
  "geographic_float64 enrolment =
     fillna (Fin (1 / 2))
       (map (\<lambda>x. div64 (sub64 (series_max enrolment) x)
                     (add64 (sub64 (series_max enrolment) (series_min enrolment)) (Fin eps)))
          enrolment)"

definition geographic_int64 :: "int list \<Rightarrow> fval list" where
  "geographic_int64 enrolment =
     fillna (Fin (1 / 2))
       (map (\<lambda>x. div64 (Fin (real_of_int (wrap64 (Max (set enrolment) - x))))
                     (add64 (Fin (real_of_int
                                    (wrap64 (Max (set enrolment) - Min (set enrolment)))))
                            (Fin eps)))
          enrolment)"

definition geographic_vulnerability :: "dtype \<Rightarrow> cell list \<Rightarrow> fval list" where
  "geographic_vulnerability dt enrolment =
     (if dt = Int64 then geographic_int64 (map int_of enrolment)
      else geographic_float64 (map float64_of enrolment))"

definition biometric_vulnerability :: "fval list \<Rightarrow> fval list" where
  "biometric_vulnerability biometric_updates =
     fillna (Fin (1 / 2))
       (map (\<lambda>x. sub64 (Fin 1) (div64 x (add64 (series_max biometric_updates) (Fin eps))))
          biometric_updates)"

definition migration_vulnerability :: "fval list \<Rightarrow> fval list" where
  "migration_vulnerability demographic_updates =
     fillna (Fin (1 / 2))
       (map (\<lambda>x. div64 x (add64 (series_max demographic_updates) (Fin eps)))
          demographic_updates)"

text \<open>\<open>vulnerability_scores += vuln * w\<close>, row by row, on floats.\<close>

definition add_weighted :: "fval list \<Rightarrow> fval list \<Rightarrow> real \<Rightarrow> fval list" where
  "add_weighted scores vuln w = map2 (\<lambda>s v. add64 s (mul64 v (Fin w))) scores vuln"

definition floats :: "frame \<Rightarrow> string \<Rightarrow> fval list" where
  "floats df name = map float_of (column df name)"

definition numeric_column :: "frame \<Rightarrow> string \<Rightarrow> bool" where
  "numeric_column df name = list_all is_numeric (column df name)"

text \<open>
  \<open>VulnerabilityAnalyzer.calculate_vulnerability_score\<close>. Each of the four blocks runs
  when its columns are present; arithmetic on a column that holds texts or timestamps
  raises \<open>TypeError\<close>.
\<close>

definition calculate_vulnerability_score ::
  "(string \<Rightarrow> dtype) \<Rightarrow> frame \<Rightarrow> error + fval list" where
  "calculate_vulnerability_score dtypes df =
     (let s0 = replicate (length (rows df)) (Fin 0);
          s1 = (if ''Age_Group'' \<in> set (columns df)
                then add_weighted s0
                       (map (\<lambda>c. Fin (age_vulnerability_score c)) (column df ''Age_Group''))
                       (4 / 10)
                else s0)
      in if ''State'' \<in> set (columns df) \<and> ''Enrolment_Count'' \<in> set (columns df) \<and>
            \<not> numeric_column df ''Enrolment_Count'' then Inl TypeError
         else
           let s2 = (if ''State'' \<in> set (columns df) \<and> ''Enrolment_Count'' \<in> set (columns df)
                     then add_weighted s1
                            (geographic_vulnerability (dtypes ''Enrolment_Count'')
                               (column df ''Enrolment_Count'')) (3 / 10)
                     else s1)
           in if ''Biometric_Updates'' \<in> set (columns df) \<and>
                 \<not> numeric_column df ''Biometric_Updates'' then Inl TypeError
              else
                let s3 = (if ''Biometric_Updates'' \<in> set (columns df)
                          then add_weighted s2
                                 (biometric_vulnerability (floats64 df ''Biometric_Updates''))
                                 (2 / 10)
                          else s2)
                in if ''Demographic_Updates'' \<in> set (columns df) \<and>
                      \<not> numeric_column df ''Demographic_Updates'' then Inl TypeError
                   else
                     Inr (if ''Demographic_Updates'' \<in> set (columns df)
                          then add_weighted s3
                                 (migration_vulnerability (floats64 df ''Demographic_Updates''))
                                 (1 / 10)
                          else s3))"

section \<open>Statistical anomalies\<close>

text \<open>
  \<open>scipy.stats.zscore\<close> with its defaults (\<open>ddof=0\<close>): \<open>(a - a.mean()) / a.std()\<close>, the
  mean and the standard deviation of the population; \<open>np.abs\<close>; and the float comparison
  \<open>>\<close>, false whenever NaN is involved.
\<close>

fun fsqrt :: "fval \<Rightarrow> fval" where
  "fsqrt (Fin a) = (if a < 0 then NaN else Fin (sqrt a))"
| "fsqrt PInf = PInf"
| "fsqrt NInf = NaN"
| "fsqrt NaN = NaN"

fun fabs :: "fval \<Rightarrow> fval" where
  "fabs (Fin a) = Fin \<bar>a\<bar>"
| "fabs PInf = PInf"
| "fabs NInf = PInf"
| "fabs NaN = NaN"

definition fgt :: "fval \<Rightarrow> fval \<Rightarrow> bool" where
  "fgt a b = (a \<noteq> NaN \<and> b \<noteq> NaN \<and> \<not> fle a b)"

definition np_mean :: "fval list \<Rightarrow> fval" where
  "np_mean xs = fdiv (foldl fadd (Fin 0) xs) (Fin (real (length xs)))"

definition np_std :: "fval list \<Rightarrow> fval" where
  "np_std xs = fsqrt (np_mean (map (\<lambda>x. fmul (fabs (fsub x (np_mean xs))) (fabs (fsub x (np_mean xs)))) xs))"

definition zscore :: "fval list \<Rightarrow> fval list" where
  "zscore xs = map (\<lambda>x. fdiv (fsub x (np_mean xs)) (np_std xs)) xs"

text \<open>
  \<open>AadhaarDataPipeline.identify_anomalies\<close>:
  \<^verbatim>\<open>
  z_scores = np.abs(stats.zscore(df[column].fillna(0)))
  anomalies = df[z_scores > threshold]
  \<close>
  \<open>df[column]\<close> raises \<open>KeyError\<close> for a missing column, and the standard score of a
  column of texts or timestamps raises \<open>TypeError\<close>.
\<close>

definition identify_anomalies :: "frame \<Rightarrow> string \<Rightarrow> real \<Rightarrow> error + frame" where
  "identify_anomalies df col threshold =
     (if col \<notin> set (columns df) then Inl KeyError
      else if \<not> numeric_column df col then Inl TypeError
      else
        let z_scores = map fabs (zscore (fillna (Fin 0) (floats df col)))
        in Inr \<lparr>columns = columns df,
                rows = map fst (filter (\<lambda>(r, z). fgt z (Fin threshold)) (zip (rows df) z_scores))\<rparr>)"

text \<open>The population statistics in the words of the specification, on the real values of
  the column after nulls are replaced by 0.\<close>

definition zero_filled :: "frame \<Rightarrow> string \<Rightarrow> real list" where
  "zero_filled df col = map (\<lambda>c. case c of Num r \<Rightarrow> r | _ \<Rightarrow> 0) (column df col)"

definition population_mean :: "real list \<Rightarrow> real" where
  "population_mean xs = sum_list xs / real (length xs)"

definition population_std :: "real list \<Rightarrow> real" where
  "population_std xs = sqrt (sum_list (map (\<lambda>x. (x - population_mean xs)\<^sup>2) xs) / real (length xs))"

definition exceeds :: "real list \<Rightarrow> real \<Rightarrow> real \<Rightarrow> bool" where
  "exceeds xs threshold x =
     (population_std xs \<noteq> 0 \<and> \<bar>(x - population_mean xs) / population_std xs\<bar> > threshold)"

section \<open>Adapters around the external models\<close>

text \<open>
  The scaler, the isolation forest and K-means belong to scikit-learn. Each call either
  raises or returns; what it returns is a parameter of the model. \<open>importable\<close> says
  whether the \<open>import\<close> statements at the head of each \<open>try\<close> block succeed.
\<close>

datatype 'a outcome = Raises | Returns 'a

record ('s, 'm) sklearn =
  importable :: bool
  scaler_fit_transform :: "frame \<Rightarrow> ('s \<times> real list list) outcome"
  isolation_forest_fit_predict :: "real \<Rightarrow> real list list \<Rightarrow> ('m \<times> int list) outcome"
  kmeans_fit_predict :: "nat \<Rightarrow> real list list \<Rightarrow> ('m \<times> int list) outcome"

record ('s, 'm) anomaly_detector =
  isolation_forest :: "'m option"
  lof :: "'m option"
  scaler :: "'s option"

record ('s, 'm) population_clusterer =
  n_clusters :: nat
  kmeans_model :: "'m option"
  cluster_scaler :: "'s option"

text \<open>\<open>df.fillna(v)\<close>, \<open>df[features]\<close> (which raises \<open>KeyError\<close> when a feature is not a
  column) and \<open>df[name] = values\<close> (which raises \<open>ValueError\<close> when the lengths differ).\<close>

definition fillna_frame :: "cell \<Rightarrow> frame \<Rightarrow> frame" where
  "fillna_frame v df = df\<lparr>rows := map (map (\<lambda>c. if c = Null then v else c)) (rows df)\<rparr>"

definition select_columns :: "frame \<Rightarrow> string list \<Rightarrow> frame outcome" where
  "select_columns df features =
     (if set features \<subseteq> set (columns df)
      then Returns \<lparr>columns = features,
                    rows = map (\<lambda>r. map (\<lambda>f. field df f r) features) (rows df)\<rparr>
      else Raises)"

definition set_column :: "frame \<Rightarrow> string \<Rightarrow> cell list \<Rightarrow> frame outcome" where
  "set_column df name vs =
     (if length vs \<noteq> length (rows df) then Raises
      else case index_of name (columns df) of
        Some j \<Rightarrow> Returns (df\<lparr>rows := map2 (\<lambda>r v. r[j := v]) (rows df) vs\<rparr>)
      | None \<Rightarrow> Returns \<lparr>columns = columns df @ [name],
                           rows = map2 (\<lambda>r v. r @ [v]) (rows df) vs\<rparr>)"

text \<open>
  \<open>AnomalyDetector.detect_isolation_forest\<close>: the whole body is inside
  \<open>try ... except Exception\<close>, whose handler returns \<open>np.ones(len(X))\<close>; the fitted
  objects are stored on the detector only after both calls have returned.
\<close>

definition detect_isolation_forest ::
  "('s, 'm) sklearn \<Rightarrow> ('s, 'm) anomaly_detector \<Rightarrow> frame \<Rightarrow> real
     \<Rightarrow> int list \<times> ('s, 'm) anomaly_detector" where
  "detect_isolation_forest sk self X contamination =
     (if \<not> importable sk then (replicate (length (rows X)) 1, self)
      else case scaler_fit_transform sk (fillna_frame (Num 0) X) of
        Raises \<Rightarrow> (replicate (length (rows X)) 1, self)
      | Returns (sc, X_scaled) \<Rightarrow>
          (case isolation_forest_fit_predict sk contamination X_scaled of
             Raises \<Rightarrow> (replicate (length (rows X)) 1, self)
           | Returns (iso_forest, predictions) \<Rightarrow>
               (predictions, self\<lparr>isolation_forest := Some iso_forest, scaler := Some sc\<rparr>)))"

text \<open>
  \<open>PopulationClusterer.cluster_regions\<close>: again one \<open>try\<close> block; its handler returns
  the frame it was given. The fitted objects are stored before the \<open>Cluster\<close> column
  is written.
\<close>

definition cluster_regions ::
  "('s, 'm) sklearn \<Rightarrow> ('s, 'm) population_clusterer \<Rightarrow> frame \<Rightarrow> string list
     \<Rightarrow> frame \<times> ('s, 'm) population_clusterer" where
  "cluster_regions sk self df features =
     (if \<not> importable sk then (df, self)
      else case select_columns df features of
        Raises \<Rightarrow> (df, self)
      | Returns sel \<Rightarrow>
          (case scaler_fit_transform sk (fillna_frame (Num 0) sel) of
             Raises \<Rightarrow> (df, self)
           | Returns (sc, X_scaled) \<Rightarrow>
               (case kmeans_fit_predict sk (n_clusters self) X_scaled of
                  Raises \<Rightarrow> (df, self)
                | Returns (kmeans, clusters) \<Rightarrow>
                    (let self' = self\<lparr>kmeans_model := Some kmeans, cluster_scaler := Some sc\<rparr>
                     in case set_column df ''Cluster'' (map (\<lambda>c. Num (real_of_int c)) clusters) of
                          Raises \<Rightarrow> (df, self')
                        | Returns df_result \<Rightarrow> (df_result, self')))))"

text \<open>The external model fails: an import, the scaler or the model itself raises.\<close>

definition isolation_forest_fails :: "('s, 'm) sklearn \<Rightarrow> frame \<Rightarrow> real \<Rightarrow> bool" where
  "isolation_forest_fails sk X contamination =
     (\<not> importable sk \<or>
      (case scaler_fit_transform sk (fillna_frame (Num 0) X) of
         Raises \<Rightarrow> True
       | Returns (sc, X_scaled) \<Rightarrow> isolation_forest_fit_predict sk contamination X_scaled = Raises))"

definition kmeans_fails :: "('s, 'm) sklearn \<Rightarrow> nat \<Rightarrow> frame \<Rightarrow> bool" where
  "kmeans_fails sk k sel =
     (\<not> importable sk \<or>
      (case scaler_fit_transform sk (fillna_frame (Num 0) sel) of
         Raises \<Rightarrow> True
       | Returns (sc, X_scaled) \<Rightarrow> kmeans_fit_predict sk k X_scaled = Raises))"

text \<open>A scikit-learn all of whose calls raise, for the examples.\<close>

definition failing_sklearn :: "(unit, unit) sklearn" where
  "failing_sklearn =
     \<lparr>importable = True, scaler_fit_transform = (\<lambda>X. Raises),
      isolation_forest_fit_predict = (\<lambda>c X. Raises), kmeans_fit_predict = (\<lambda>k X. Raises)\<rparr>"

section \<open>Aggregation by state and district\<close>

text \<open>
  \<open>AadhaarDataPipeline.aggregate_by_state_district\<close>:
  \<^verbatim>\<open>
  if 'State' not in df.columns or 'District' not in df.columns:
      logger.warning("State or District column not found")
      return df
  agg_df = df.groupby(['State', 'District'])[value_col].sum().reset_index()
  agg_df.columns = ['State', 'District', value_col]
  return agg_df
  \<close>
  Selecting a missing \<open>value_col\<close> from the groups raises \<open>KeyError\<close>; \<open>reset_index\<close>
  raises \<open>ValueError\<close> when \<open>value_col\<close> is one of the two keys. The groups are the
  distinct pairs of non-null keys, in sorted order, and the sum of a group skips nulls.

  The sum depends on the dtype of \<open>value_col\<close>. On \<open>int64\<close> it is an \<open>int64\<close> sum and
  wraps around. On \<open>float64\<close> it is a float sum and overflows to an infinity. On
  \<open>datetime64\<close> it raises \<open>TypeError\<close>. On \<open>object\<close> it is Python's \<open>+\<close> over the
  values of the group that are not null, from the first one on: texts are concatenated,
  numbers are added (Python numbers, taken exactly), and \<open>+\<close> between a text and a
  number, or with a timestamp, raises \<open>TypeError\<close>; the sum of nothing is 0.
\<close>

definition pair_keys :: "(cell \<times> cell) list \<Rightarrow> (cell \<times> cell) list" where
  "pair_keys ks =
     sort_key (\<lambda>(s, d). (cell_key s, cell_key d))
       (remdups (filter (\<lambda>(s, d). s \<noteq> Null \<and> d \<noteq> Null) ks))"

fun object_add :: "cell \<Rightarrow> cell \<Rightarrow> error + cell" where
  "object_add (Str a) (Str b) = Inr (Str (a @ b))"
| "object_add (Num a) (Num b) = Inr (Num (a + b))"
| "object_add _ _ = Inl TypeError"

fun object_fold :: "cell \<Rightarrow> cell list \<Rightarrow> error + cell" where
  "object_fold acc [] = Inr acc"
| "object_fold acc (c # cs) =
     (case object_add acc c of Inl e \<Rightarrow> Inl e | Inr t \<Rightarrow> object_fold t cs)"

definition object_sum :: "cell list \<Rightarrow> error + cell" where
  "object_sum cs =
     (case filter (\<lambda>c. c \<noteq> Null) cs of [] \<Rightarrow> Inr (Num 0) | c # rest \<Rightarrow> object_fold c rest)"

definition sum_cells :: "dtype \<Rightarrow> cell list \<Rightarrow> error + cell" where
  "sum_cells dt cs =
     (case dt of
        Int64 \<Rightarrow> Inr (Num (real_of_int (sum_int64 cs)))
      | Float64 \<Rightarrow> Inr (cell64 (sum64 (map float64_of cs)))
      | Datetime64 \<Rightarrow> Inl TypeError
      | Object \<Rightarrow> object_sum cs)"

definition group_rows :: "frame \<Rightarrow> cell \<times> cell \<Rightarrow> cell list list" where
  "group_rows df k =
     filter (\<lambda>r. (field df ''State'' r, field df ''District'' r) = k) (rows df)"

text \<open>The sums of all groups: the first error, or all the sums.\<close>

fun collect :: "(error + 'a) list \<Rightarrow> error + 'a list" where
  "collect [] = Inr []"
| "collect (x # xs) =
     (case x of
        Inl e \<Rightarrow> Inl e
      | Inr v \<Rightarrow> (case collect xs of Inl e \<Rightarrow> Inl e | Inr vs \<Rightarrow> Inr (v # vs)))"

definition aggregate_by_state_district ::
  "(string \<Rightarrow> dtype) \<Rightarrow> frame \<Rightarrow> string \<Rightarrow> error + frame" where
  "aggregate_by_state_district dtypes df value_col =
     (if ''State'' \<notin> set (columns df) \<or> ''District'' \<notin> set (columns df) then Inr df
      else if value_col \<notin> set (columns df) then Inl KeyError
      else if dtypes value_col = Datetime64 then Inl TypeError
      else
        let keys = pair_keys (map (\<lambda>r. (field df ''State'' r, field df ''District'' r))
                                (rows df))
        in (case collect (map (\<lambda>k. sum_cells (dtypes value_col)
                                      (map (field df value_col) (group_rows df k))) keys) of
              Inl e \<Rightarrow> Inl e
            | Inr totals \<Rightarrow>
                (if value_col = ''State'' \<or> value_col = ''District'' then Inl ValueError
                 else Inr \<lparr>columns = [''State'', ''District'', value_col],
                           rows = map2 (\<lambda>k s. [fst k, snd k, s]) keys totals\<rparr>)))"

section \<open>Migration indicators\<close>

text \<open>
  \<open>pd.merge(left, right, on=keys, how='left', suffixes=(ls, rs))\<close>. A key missing on
  either side raises \<open>KeyError\<close>. The columns of the result are those of the left frame
  followed by the non-key columns of the right frame; a non-key name that occurs on
  both sides gets the suffix of its side. Every left row yields, in order, one row per
  right row with equal keys (null keys are equal to each other), and a single row
  padded with nulls when there is none.
\<close>

definition key_of :: "frame \<Rightarrow> string list \<Rightarrow> cell list \<Rightarrow> cell list" where
  "key_of df keys r = map (\<lambda>k. field df k r) keys"

definition overlap :: "frame \<Rightarrow> frame \<Rightarrow> string list \<Rightarrow> string set" where
  "overlap left right keys = (set (columns left) \<inter> set (columns right)) - set keys"

definition right_columns :: "frame \<Rightarrow> string list \<Rightarrow> string list" where
  "right_columns right keys = filter (\<lambda>c. c \<notin> set keys) (columns right)"

definition merged_columns :: "frame \<Rightarrow> frame \<Rightarrow> string list \<Rightarrow> string \<Rightarrow> string \<Rightarrow> string list" where
  "merged_columns left right keys ls rs =
     map (\<lambda>c. if c \<in> overlap left right keys then c @ ls else c) (columns left) @
     map (\<lambda>c. if c \<in> overlap left right keys then c @ rs else c) (right_columns right keys)"

definition merge_row :: "frame \<Rightarrow> frame \<Rightarrow> string list \<Rightarrow> cell list \<Rightarrow> cell list list" where
  "merge_row left right keys l =
     (let matches = filter (\<lambda>r. key_of right keys r = key_of left keys l) (rows right);
          lpart = map (\<lambda>c. field left c l) (columns left)
      in if matches = [] then [lpart @ replicate (length (right_columns right keys)) Null]
         else map (\<lambda>r. lpart @ map (\<lambda>c. field right c r) (right_columns right keys)) matches)"

definition merge_left :: "frame \<Rightarrow> frame \<Rightarrow> string list \<Rightarrow> string \<Rightarrow> string \<Rightarrow> error + frame" where
  "merge_left left right keys ls rs =
     (if \<not> (set keys \<subseteq> set (columns left) \<and> set keys \<subseteq> set (columns right)) then Inl KeyError
      else Inr \<lparr>columns = merged_columns left right keys ls rs,
                rows = concat (map (merge_row left right keys) (rows left))\<rparr>)"

text \<open>
  \<open>AadhaarDataPipeline.calculate_migration_indicators\<close>. The result starts as
  \<open>pd.DataFrame()\<close> and gets its six columns only inside the \<open>if\<close>. The two arithmetic
  columns are floats, so the result is a table of typed rows. Arithmetic on an
  \<open>Enrolment\<close> or \<open>Updates\<close> column that holds texts or timestamps raises \<open>TypeError\<close>.
\<close>

record migration_row =
  mig_State :: cell
  mig_District :: cell
  Enrolment :: cell
  Updates :: cell
  Update_Rate :: fval
  Migration_Risk :: fval

definition update_rate :: "frame \<Rightarrow> cell list \<Rightarrow> fval" where
  "update_rate merged r =
     fmul (fdiv (float_of (field merged ''Update_count'' r))
                (fadd (float_of (field merged ''Aadhaar Generated_enrol'' r)) (Fin 1)))
          (Fin 100)"

definition migration_row_of :: "frame \<Rightarrow> cell list \<Rightarrow> fval \<Rightarrow> migration_row" where
  "migration_row_of merged r risk =
     \<lparr>mig_State = field merged ''State'' r,
      mig_District = field merged ''District'' r,
      Enrolment = field merged ''Aadhaar Generated_enrol'' r,
      Updates = field merged ''Update_count'' r,
      Update_Rate = update_rate merged r,
      Migration_Risk = risk\<rparr>"

definition merge_keys :: "string list" where
  "merge_keys = [''State'', ''District'', ''Pin Code'']"

definition calculate_migration_indicators :: "pipeline \<Rightarrow> error + migration_row table" where
  "calculate_migration_indicators p =
     (case (enrolment_df p, demographic_df p) of
        (Some enrol, Some demo) \<Rightarrow>
          (case merge_left enrol demo merge_keys ''_enrol'' ''_demo'' of
             Inl e \<Rightarrow> Inl e
           | Inr merged \<Rightarrow>
               if ''Aadhaar Generated_enrol'' \<in> set (columns merged) \<and>
                  ''Update_count'' \<in> set (columns merged)
               then
                 if \<not> (numeric_column merged ''Aadhaar Generated_enrol'' \<and>
                        numeric_column merged ''Update_count'') then Inl TypeError
                 else Inr \<lparr>tcolumns = [''State'', ''District'', ''Enrolment'', ''Updates'',
                                       ''Update_Rate'', ''Migration_Risk''],
                           trows = map2 (migration_row_of merged) (rows merged)
                                     (calculate_migration_risk (map (update_rate merged) (rows merged)))\<rparr>
               else Inr empty_table)
      | _ \<Rightarrow> Inl ValueError)"

section \<open>Cleaning\<close>

text \<open>
  What pandas answers when it parses one value: \<open>pd.to_datetime\<close> on a text and on a
  number, \<open>pd.to_numeric\<close> on a text; \<open>None\<close> when the value does not parse. The
  parsers belong to the library and are parameters of the model.
\<close>

record pandas =
  to_datetime_text :: "string \<Rightarrow> int option"
  to_datetime_number :: "real \<Rightarrow> int option"
  to_numeric_text :: "string \<Rightarrow> real option"

text \<open>\<open>df.fillna(method='ffill')\<close>: in every column a null takes the last value above it;
  \<open>prev\<close> is the filled row above, empty before the first row. \<open>bfill\<close> is the same
  from the bottom.\<close>

fun fill_from :: "cell list \<Rightarrow> cell list \<Rightarrow> cell list" where
  "fill_from prev [] = []"
| "fill_from [] (c # cs) = c # cs"
| "fill_from (p # ps) (c # cs) = (if c = Null then p else c) # fill_from ps cs"

fun ffill_rows :: "cell list \<Rightarrow> cell list list \<Rightarrow> cell list list" where
  "ffill_rows prev [] = []"
| "ffill_rows prev (r # rs) = fill_from prev r # ffill_rows (fill_from prev r) rs"

definition ffill :: "frame \<Rightarrow> frame" where
  "ffill df = df\<lparr>rows := ffill_rows [] (rows df)\<rparr>"

definition bfill :: "frame \<Rightarrow> frame" where
  "bfill df = df\<lparr>rows := rev (ffill_rows [] (rev (rows df)))\<rparr>"

text \<open>The date columns: \<open>'date' in col.lower() or 'month' in col.lower()\<close>, on ASCII
  names.\<close>

definition lower :: "char \<Rightarrow> char" where
  "lower c = (if CHR ''A'' \<le> c \<and> c \<le> CHR ''Z'' then char_of (of_char c + (32 :: nat)) else c)"

definition is_date_col :: "string \<Rightarrow> bool" where
  "is_date_col col = (sublist ''date'' (map lower col) \<or> sublist ''month'' (map lower col))"

text \<open>\<open>pd.to_datetime(..., errors='coerce')\<close> and \<open>pd.to_numeric(..., errors='coerce')\<close>
  on one cell: a value that does not parse becomes null. A timestamp inside a column
  of object dtype does not occur in data read from a file; it is coerced to null here.\<close>

definition to_datetime_cell :: "pandas \<Rightarrow> cell \<Rightarrow> cell" where
  "to_datetime_cell pd c =
     (case c of
        Null \<Rightarrow> Null
      | Date d \<Rightarrow> Date d
      | Str s \<Rightarrow> (case to_datetime_text pd s of Some d \<Rightarrow> Date d | None \<Rightarrow> Null)
      | Num r \<Rightarrow> (case to_datetime_number pd r of Some d \<Rightarrow> Date d | None \<Rightarrow> Null))"

definition to_numeric_cell :: "pandas \<Rightarrow> cell \<Rightarrow> cell" where
  "to_numeric_cell pd c =
     (case c of
        Null \<Rightarrow> Null
      | Num r \<Rightarrow> Num r
      | Str s \<Rightarrow> (case to_numeric_text pd s of Some v \<Rightarrow> Num v | None \<Rightarrow> Null)
      | Date d \<Rightarrow> Null)"

text \<open>Assigning converted columns: the cells of the flagged columns are converted, the
  others kept.\<close>

definition apply_flags :: "(cell \<Rightarrow> cell) \<Rightarrow> bool list \<Rightarrow> cell list \<Rightarrow> cell list" where
  "apply_flags f flags r = map2 (\<lambda>b c. if b then f c else c) flags r"

definition to_datetime_columns :: "pandas \<Rightarrow> frame \<Rightarrow> frame" where
  "to_datetime_columns pd df =
     df\<lparr>rows := map (apply_flags (to_datetime_cell pd) (map is_date_col (columns df))) (rows df)\<rparr>"

text \<open>\<open>df.drop_duplicates()\<close>: the first occurrence of every row is kept.\<close>

fun dedup :: "'a list \<Rightarrow> 'a list \<Rightarrow> 'a list" where
  "dedup seen [] = []"
| "dedup seen (r # rs) = (if r \<in> set seen then dedup seen rs else r # dedup (r # seen) rs)"

definition drop_duplicates :: "frame \<Rightarrow> frame" where
  "drop_duplicates df = df\<lparr>rows := dedup [] (rows df)\<rparr>"

text \<open>\<open>df.select_dtypes(include=['object'])\<close>: the columns that hold a text.\<close>

definition is_text :: "cell \<Rightarrow> bool" where
  "is_text c = (case c of Str s \<Rightarrow> True | _ \<Rightarrow> False)"

definition is_object :: "frame \<Rightarrow> nat \<Rightarrow> bool" where
  "is_object df j = list_ex (\<lambda>r. is_text (cell_at r j)) (rows df)"

definition to_numeric_columns :: "pandas \<Rightarrow> frame \<Rightarrow> frame" where
  "to_numeric_columns pd df =
     df\<lparr>rows := map (apply_flags (to_numeric_cell pd)
                        (map (is_object df) [0 ..< length (columns df)])) (rows df)\<rparr>"

text \<open>
  \<open>AadhaarDataPipeline.clean_enrolment_data\<close> and \<open>clean_demographic_data\<close>: each
  raises \<open>ValueError\<close> when its dataset is not loaded, and otherwise stores the cleaned
  frame on the pipeline and returns it. Only the enrolment cleaner converts the object
  columns to numbers.
\<close>

definition clean_enrolment_data :: "pandas \<Rightarrow> pipeline \<Rightarrow> error + frame \<times> pipeline" where
  "clean_enrolment_data pd self =
     (case enrolment_df self of
        None \<Rightarrow> Inl ValueError
      | Some df0 \<Rightarrow>
          let df = bfill (ffill df0);
              df = to_datetime_columns pd df;
              df = drop_duplicates df;
              df = to_numeric_columns pd df
          in Inr (df, self\<lparr>enrolment_df := Some df\<rparr>))"

definition clean_demographic_data :: "pandas \<Rightarrow> pipeline \<Rightarrow> error + frame \<times> pipeline" where
  "clean_demographic_data pd self =
     (case demographic_df self of
        None \<Rightarrow> Inl ValueError
      | Some df0 \<Rightarrow>
          let df = bfill (ffill df0);
              df = to_datetime_columns pd df;
              df = drop_duplicates df
          in Inr (df, self\<lparr>demographic_df := Some df\<rparr>))"

text \<open>
  For the examples, the answers of pandas on the texts that occur in them:
  \<open>2020-01-01\<close> is day 18262 after the epoch, \<open>1\<close> and \<open>3\<close> are numbers, and \<open>abc\<close> is
  neither a date nor a number, like every other text (the names of states among them).
\<close>

definition example_pandas :: pandas where
  "example_pandas =
     \<lparr>to_datetime_text = map_of [(''2020-01-01'', 18262)],
      to_datetime_number = (\<lambda>r. Some \<lfloor>r\<rfloor>),
      to_numeric_text = map_of [(''1'', 1), (''3'', 3)]\<rparr>"

text \<open>A frame is well formed when every row has one cell per column. It has no gap when
  a column that is null in one row is null in every row.\<close>

definition wf_frame :: "frame \<Rightarrow> bool" where
  "wf_frame df = (\<forall>r \<in> set (rows df). length r = length (columns df))"

definition gap_free :: "frame \<Rightarrow> bool" where
  "gap_free df =
     (\<forall>r \<in> set (rows df). \<forall>j < length r. r ! j = Null \<longrightarrow>
        (\<forall>r' \<in> set (rows df). cell_at r' j = Null))"

text \<open>Auxiliary notions for the claims: a column all of whose values are finite or
  null; a column with no negative value; the spread of a column of whole numbers; the
  weight of a sub-score, 0 when one of its source columns is absent; one guarded \<open>+=\<close>
  of the score.\<close>

definition fin_na :: "fval list \<Rightarrow> bool" where
  "fin_na xs = (\<forall>x \<in> set xs. x = NaN \<or> (\<exists>r. x = Fin r))"

definition nonneg :: "fval list \<Rightarrow> bool" where
  "nonneg xs = (NInf \<notin> set xs \<and> (\<forall>r. Fin r \<in> set xs \<longrightarrow> 0 \<le> r))"

definition spread :: "int list \<Rightarrow> int" where
  "spread xs = (if xs = [] then 0 else Max (set xs) - Min (set xs))"

definition present_weight :: "frame \<Rightarrow> string list \<Rightarrow> real \<Rightarrow> real" where
  "present_weight df names w = (if set names \<subseteq> set (columns df) then w else 0)"

definition accumulate :: "bool \<Rightarrow> fval list \<Rightarrow> fval list \<Rightarrow> real \<Rightarrow> fval list" where
  "accumulate present s v w = (if present then add_weighted s v w else s)"

text \<open>For the claims about aggregation: the numbers and the texts among the values of
  a group.\<close>

definition numbers :: "cell list \<Rightarrow> real list" where
  "numbers cs = concat (map (\<lambda>c. case c of Num r \<Rightarrow> [r] | _ \<Rightarrow> []) cs)"

definition text_of :: "cell \<Rightarrow> string" where
  "text_of c = (case c of Str s \<Rightarrow> s | _ \<Rightarrow> [])"



text \<open>Example data: one enrolment row, and demographic data with no row for its keys.\<close>

definition example_enrolment :: frame where
  "example_enrolment =
     \<lparr>columns = [''State'', ''District'', ''Pin Code'', ''Aadhaar Generated''],
      rows = [[Str ''A'', Str ''X'', Num 1, Num 100]]\<rparr>"



text \<open>Two more properties of a frame: its date columns hold only timestamps and nulls;
  it holds no text.\<close>

definition date_settled :: "frame \<Rightarrow> bool" where
  "date_settled df =
     (\<forall>r \<in> set (rows df). \<forall>j < length r. is_date_col (columns df ! j) \<longrightarrow>
        r ! j = Null \<or> (\<exists>d. r ! j = Date d))"

definition no_text :: "frame \<Rightarrow> bool" where
  "no_text df = (\<forall>r \<in> set (rows df). \<forall>j < length r. \<not> is_text (r ! j))"

text \<open>The frame that each cleaner computes from the loaded one; for the enrolment
  cleaner, \<open>cleaned_demographic\<close> is the frame just before the numeric coercion.\<close>

definition cleaned_demographic :: "pandas \<Rightarrow> frame \<Rightarrow> frame" where
  "cleaned_demographic pd df0 = drop_duplicates (to_datetime_columns pd (bfill (ffill df0)))"

definition cleaned_enrolment :: "pandas \<Rightarrow> frame \<Rightarrow> frame" where
  "cleaned_enrolment pd df0 = to_numeric_columns pd (cleaned_demographic pd df0)"

text \<open>Example pipelines around one frame, loaded as the enrolment and as the demographic
  dataset.\<close>

definition loaded :: "frame \<Rightarrow> pipeline" where
  "loaded df = \<lparr>enrolment_df = Some df, demographic_df = Some df, biometric_df = None\<rparr>"

section \<open>Properties of the numeric values\<close>

lemma fle_refl: "x \<noteq> NaN \<Longrightarrow> fle x x"
  by (cases x) auto

lemma fle_trans: "fle x y \<Longrightarrow> fle y z \<Longrightarrow> fle x z"
  by (cases x; cases y; cases z) auto

lemma fle_total: "x \<noteq> NaN \<Longrightarrow> y \<noteq> NaN \<Longrightarrow> fle x y \<or> fle y x"
  by (cases x; cases y) auto

lemma fle_not_NaN: "fle x y \<Longrightarrow> x \<noteq> NaN \<and> y \<noteq> NaN"
  by (cases x; cases y) auto

lemma fold_fmin_le:
  "x \<noteq> NaN \<Longrightarrow> NaN \<notin> set ys \<Longrightarrow> z \<in> set (x # ys) \<Longrightarrow> fle (fold fmin ys x) z"
proof (induction ys arbitrary: x z)
  case Nil
  then show ?case by (simp add: fle_refl)
next
  case (Cons y ys)
  have ny: "y \<noteq> NaN" and nys: "NaN \<notin> set ys" using Cons.prems(2) by auto
  have nm: "fmin y x \<noteq> NaN" using ny Cons.prems(1) by (simp add: fmin_def)
  have step: "fold fmin (y # ys) x = fold fmin ys (fmin y x)" by simp
  have lo: "fle (fold fmin ys (fmin y x)) (fmin y x)"
    using Cons.IH [OF nm nys, of "fmin y x"] by simp
  have mx: "fle (fmin y x) x" and my: "fle (fmin y x) y"
    using fle_total [OF ny Cons.prems(1)] ny Cons.prems(1) by (auto simp: fmin_def fle_refl)
  from Cons.prems(3) consider "z = x" | "z = y" | "z \<in> set ys" by auto
  then show ?case
  proof cases
    case 1 then show ?thesis using lo mx step fle_trans by metis
  next
    case 2 then show ?thesis using lo my step fle_trans by metis
  next
    case 3 then show ?thesis using Cons.IH [OF nm nys, of z] step by simp
  qed
qed

lemma fold_fmax_ge:
  "x \<noteq> NaN \<Longrightarrow> NaN \<notin> set ys \<Longrightarrow> z \<in> set (x # ys) \<Longrightarrow> fle z (fold fmax ys x)"
proof (induction ys arbitrary: x z)
  case Nil
  then show ?case by (simp add: fle_refl)
next
  case (Cons y ys)
  have ny: "y \<noteq> NaN" and nys: "NaN \<notin> set ys" using Cons.prems(2) by auto
  have nm: "fmax y x \<noteq> NaN" using ny Cons.prems(1) by (simp add: fmax_def)
  have step: "fold fmax (y # ys) x = fold fmax ys (fmax y x)" by simp
  have hi: "fle (fmax y x) (fold fmax ys (fmax y x))"
    using Cons.IH [OF nm nys, of "fmax y x"] by simp
  have mx: "fle x (fmax y x)" and my: "fle y (fmax y x)"
    using fle_total [OF ny Cons.prems(1)] ny Cons.prems(1) by (auto simp: fmax_def fle_refl)
  from Cons.prems(3) consider "z = x" | "z = y" | "z \<in> set ys" by auto
  then show ?case
  proof cases
    case 1 then show ?thesis using hi mx step fle_trans by metis
  next
    case 2 then show ?thesis using hi my step fle_trans by metis
  next
    case 3 then show ?thesis using Cons.IH [OF nm nys, of z] step by simp
  qed
qed

lemma dropna_id: "NaN \<notin> set xs \<Longrightarrow> dropna xs = xs"
  by (induction xs) (auto simp: dropna_def)

lemma series_min_le: "NaN \<notin> set xs \<Longrightarrow> z \<in> set xs \<Longrightarrow> fle (series_min xs) z"
  using fold_fmin_le [of "hd xs" "tl xs" z]
  by (cases xs) (auto simp: series_min_def dropna_id)

lemma series_max_ge: "NaN \<notin> set xs \<Longrightarrow> z \<in> set xs \<Longrightarrow> fle z (series_max xs)"
  using fold_fmax_ge [of "hd xs" "tl xs" z]
  by (cases xs) (auto simp: series_max_def dropna_id)

lemma fillna_no_NaN: "v \<noteq> NaN \<Longrightarrow> NaN \<notin> set (fillna v xs)"
  by (auto simp: fillna_def)


lemma ratio_bounds:
  fixes a b c :: real
  assumes "a \<le> b" "b \<le> c"
  shows "0 \<le> (b - a) / (c - a + eps) * 100" "(b - a) / (c - a + eps) * 100 \<le> 100"
proof -
  have d: "0 < c - a + eps" using assms by (simp add: eps_def add_nonneg_pos)
  show "0 \<le> (b - a) / (c - a + eps) * 100" using assms d by simp
  have "(b - a) / (c - a + eps) \<le> 1" using assms d by (simp add: eps_def)
  then have "(b - a) / (c - a + eps) * 100 \<le> 1 * 100" by (rule mult_right_mono) simp
  then show "(b - a) / (c - a + eps) * 100 \<le> 100" by (simp del: times_divide_eq_left)
qed

lemma risk_cell_range:
  assumes "fle mn x" "fle x mx"
  shows "\<exists>v. (if risk_cell mn mx x = NaN then Fin 50 else risk_cell mn mx x) = Fin v \<and> 0 \<le> v \<and> v \<le> 100"
  using assms ratio_bounds
  by (cases mn; cases x; cases mx) (auto simp: risk_cell_def fsub_def eps_def)

lemma calculate_migration_risk_map:
  "calculate_migration_risk rates =
     map (\<lambda>x. if risk_cell (series_min (fillna (Fin 0) rates)) (series_max (fillna (Fin 0) rates)) x = NaN
               then Fin 50
               else risk_cell (series_min (fillna (Fin 0) rates)) (series_max (fillna (Fin 0) rates)) x)
         (fillna (Fin 0) rates)"
  by (simp add: calculate_migration_risk_def Let_def risk_cell_def fillna_def)

lemma fle_antisym_Fin: "fle (Fin c) x \<Longrightarrow> fle x (Fin c) \<Longrightarrow> x = Fin c"
  by (cases x) auto

section \<open>Claims about migration risk\<close>

text \<open>
  C1 (as amended). For every batch of update rates, \<open>_calculate_migration_risk\<close> returns
  one score per row and every score is a finite number in \<open>[0, 100]\<close>. When the batch
  has zero variance (the maximum of the null-filled rates equals their minimum, a finite
  number), every row receives exactly 0: the \<open>1e-6\<close> in the denominator makes the
  quotient \<open>0 / 1e-6\<close>, which is not NaN, so the final \<open>fillna(50)\<close> changes nothing.
\<close>

theorem migration_risk_range:
  "length (calculate_migration_risk rates) = length rates \<and>
   (\<forall>r \<in> set (calculate_migration_risk rates). \<exists>v. r = Fin v \<and> 0 \<le> v \<and> v \<le> 100) \<and>
   (series_max (fillna (Fin 0) rates) = series_min (fillna (Fin 0) rates) \<and>
    series_min (fillna (Fin 0) rates) = Fin c \<longrightarrow>
      (\<forall>r \<in> set (calculate_migration_risk rates). r = Fin 0))"
proof (intro conjI impI ballI)
  show "length (calculate_migration_risk rates) = length rates"
    by (simp add: calculate_migration_risk_map fillna_def)
next
  fix r assume "r \<in> set (calculate_migration_risk rates)"
  then obtain x where x: "x \<in> set (fillna (Fin 0) rates)"
    and r: "r = (if risk_cell (series_min (fillna (Fin 0) rates)) (series_max (fillna (Fin 0) rates)) x = NaN
                 then Fin 50
                 else risk_cell (series_min (fillna (Fin 0) rates)) (series_max (fillna (Fin 0) rates)) x)"
    unfolding calculate_migration_risk_map by auto
  have nn: "NaN \<notin> set (fillna (Fin 0) rates)" by (rule fillna_no_NaN) simp
  show "\<exists>v. r = Fin v \<and> 0 \<le> v \<and> v \<le> 100"
    unfolding r by (rule risk_cell_range [OF series_min_le [OF nn x] series_max_ge [OF nn x]])
next
  fix r
  assume flat: "series_max (fillna (Fin 0) rates) = series_min (fillna (Fin 0) rates) \<and>
    series_min (fillna (Fin 0) rates) = Fin c"
  assume "r \<in> set (calculate_migration_risk rates)"
  then obtain x where x: "x \<in> set (fillna (Fin 0) rates)"
    and r: "r = (if risk_cell (series_min (fillna (Fin 0) rates)) (series_max (fillna (Fin 0) rates)) x = NaN
                 then Fin 50
                 else risk_cell (series_min (fillna (Fin 0) rates)) (series_max (fillna (Fin 0) rates)) x)"
    unfolding calculate_migration_risk_map by auto
  have nn: "NaN \<notin> set (fillna (Fin 0) rates)" by (rule fillna_no_NaN) simp
  have "x = Fin c"
    using series_min_le [OF nn x] series_max_ge [OF nn x] flat by (simp add: fle_antisym_Fin)
  then show "r = Fin 0"
    unfolding r using flat by (simp add: risk_cell_def fsub_def eps_def)
qed

theorem migration_risk_range_witness:
  "series_max (fillna (Fin 0) [Fin 5, Fin 5]) = series_min (fillna (Fin 0) [Fin 5, Fin 5]) \<and>
   series_min (fillna (Fin 0) [Fin 5, Fin 5]) = Fin 5 \<and>
   hd (calculate_migration_risk [Fin 5, Fin 5]) = Fin 0 \<and>
   hd (calculate_migration_risk [Fin 5, Fin 5]) \<in> set (calculate_migration_risk [Fin 5, Fin 5])"
  using migration_risk_range [of "[Fin 5, Fin 5]" 5]
  by (simp add: calculate_migration_risk_def series_max_def series_min_def fillna_def dropna_def
      fmin_def fmax_def fsub_def eps_def)

text \<open>
  C1 as stated fails: on the batch \<open>[5, 5]\<close> (a single distinct update rate, so
  \<open>max = min\<close>) every row receives 0, not 50.
\<close>

theorem migration_risk_flat_counterexample:
  "series_max (fillna (Fin 0) [Fin 5, Fin 5]) = series_min (fillna (Fin 0) [Fin 5, Fin 5]) \<and>
   calculate_migration_risk [Fin 5, Fin 5] = [Fin 0, Fin 0] \<and>
   calculate_migration_risk [Fin 5, Fin 5] \<noteq> [Fin 50, Fin 50]"
  by (simp add: calculate_migration_risk_def series_max_def series_min_def fillna_def dropna_def
      fmin_def fmax_def fsub_def eps_def)

section \<open>Properties of the machine numbers\<close>

lemma f64_in_range: "\<bar>r\<bar> < f64_threshold \<Longrightarrow> f64 r = Fin r"
  by (auto simp: f64_def)

lemma threshold_big: "(10 :: real) ^ 308 < f64_threshold"
  by (simp add: f64_threshold_def)

lemma threshold_pos: "1 < f64_threshold"
  by (simp add: f64_threshold_def)

lemma eps_pos: "0 < real n + eps"
  using add_nonneg_pos [of "real n" eps] by (simp add: eps_def)

lemma wrap64_range: "- (2 ^ 63) \<le> wrap64 x \<and> wrap64 x < 2 ^ 63"
proof -
  define m where "m = (x + 2 ^ 63) mod (2 ^ 64 :: int)"
  have "0 \<le> m" "m < 2 ^ 64" by (simp_all add: m_def)
  moreover have "(2 ^ 64 :: int) = 2 ^ 63 + 2 ^ 63" by simp
  ultimately have "- (2 ^ 63) \<le> m - 2 ^ 63 \<and> m - 2 ^ 63 < 2 ^ 63" by linarith
  then show ?thesis by (simp add: wrap64_def m_def)
qed

lemma wrap64_id: "- (2 ^ 63) \<le> x \<Longrightarrow> x < 2 ^ 63 \<Longrightarrow> wrap64 x = x"
  by (simp add: wrap64_def)

lemma wrap64_bound: "\<bar>real_of_int (wrap64 x)\<bar> \<le> 10 ^ 300"
proof -
  have "\<bar>wrap64 x\<bar> \<le> 2 ^ 63" using wrap64_range [of x] by linarith
  then have "\<bar>real_of_int (wrap64 x)\<bar> \<le> 2 ^ 63"
    by (metis of_int_abs of_int_le_iff of_int_numeral of_int_power)
  also have "\<dots> \<le> (10 :: real) ^ 300" by simp
  finally show ?thesis .
qed

section \<open>Claims about biometric coverage\<close>

lemma denominator_not_zero: "add64 (Fin (real n)) (Fin eps) \<noteq> Fin 0"
  using eps_pos [of n] by (auto simp: add64_def overflow_def f64_def)

lemma quotient_bound:
  assumes "\<bar>u\<bar> \<le> 10 ^ 300"
  shows "\<bar>u / (real n + eps)\<bar> \<le> 10 ^ 306"
proof -
  have e: "eps \<le> real n + eps" by simp
  have p: "0 < eps" by (simp add: eps_def)
  have "\<bar>u / (real n + eps)\<bar> = \<bar>u\<bar> / (real n + eps)"
    using eps_pos [of n] by simp
  also have "\<dots> \<le> \<bar>u\<bar> / eps"
    using e p by (intro divide_left_mono) (auto intro: mult_pos_pos eps_pos)
  also have "\<dots> \<le> 10 ^ 300 / eps"
    using assms p by (intro divide_right_mono) auto
  also have "\<dots> = 10 ^ 306" by (simp add: eps_def)
  finally show ?thesis .
qed

lemma coverage_of_total:
  assumes "\<bar>u\<bar> \<le> 10 ^ 300"
  shows "\<exists>v. mul64 (div64 (Fin u) (add64 (Fin (real n)) (Fin eps))) (Fin 100) = Fin v \<and>
             (real n + eps < f64_threshold \<longrightarrow> v = u / (real n + eps) * 100)"
proof (cases "real n + eps < f64_threshold")
  case True
  have a: "add64 (Fin (real n)) (Fin eps) = Fin (real n + eps)"
    using True eps_pos [of n] by (simp add: add64_def overflow_def f64_in_range)
  let ?q = "u / (real n + eps)"
  have q: "\<bar>?q\<bar> \<le> 10 ^ 306" by (rule quotient_bound [OF assms])
  have "\<bar>?q\<bar> \<le> 10 ^ 306" by (rule q)
  also have "\<dots> \<le> (10 :: real) ^ 308" by simp
  also have "\<dots> < f64_threshold" by (rule threshold_big)
  finally have "\<bar>?q\<bar> < f64_threshold" .
  then have d: "div64 (Fin u) (Fin (real n + eps)) = Fin ?q"
    using eps_pos [of n] by (simp add: div64_def overflow_def f64_in_range)
  have "\<bar>?q * 100\<bar> = \<bar>?q\<bar> * 100" by (simp add: abs_mult)
  also have "\<dots> \<le> 10 ^ 306 * 100" using q by (intro mult_right_mono) simp_all
  also have "\<dots> = 10 ^ 308" by simp
  also have "\<dots> < f64_threshold" by (rule threshold_big)
  finally have "\<bar>?q * 100\<bar> < f64_threshold" .
  then have "mul64 (Fin ?q) (Fin 100) = Fin (?q * 100)"
    by (simp add: mul64_def overflow_def f64_in_range)
  then show ?thesis using a d True by simp
next
  case False
  then have a: "add64 (Fin (real n)) (Fin eps) = PInf"
    by (simp add: add64_def overflow_def f64_def)
  have z: "f64 0 = Fin 0" by (simp add: f64_def f64_threshold_def)
  show ?thesis using a False z by (simp add: div64_def mul64_def overflow_def)
qed

lemma biometric_group_fields:
  "Biometric_Coverage (biometric_group dtypes df k) =
     mul64 (div64 (Total_Updates (biometric_group dtypes df k))
                  (add64 (Fin (real (Individuals_Updated (biometric_group dtypes df k))))
                         (Fin eps)))
           (Fin 100)"
  "dtypes ''Update_Count'' = Int64 \<Longrightarrow>
     \<exists>x. Total_Updates (biometric_group dtypes df k) = Fin (real_of_int (wrap64 x))"
  by (auto simp: biometric_group_def Let_def total_updates_def sum_int64_def)

lemma biometric_row:
  "(\<forall>u. Total_Updates (biometric_group dtypes df k) = Fin u \<and> \<bar>u\<bar> \<le> 10 ^ 300 \<longrightarrow>
      (\<exists>v. Biometric_Coverage (biometric_group dtypes df k) = Fin v \<and>
           (real (Individuals_Updated (biometric_group dtypes df k)) + eps < f64_threshold \<longrightarrow>
            v = u / (real (Individuals_Updated (biometric_group dtypes df k)) + eps) * 100))) \<and>
   (dtypes ''Update_Count'' = Int64 \<longrightarrow>
      (\<exists>u v. Total_Updates (biometric_group dtypes df k) = Fin u \<and>
             Biometric_Coverage (biometric_group dtypes df k) = Fin v))"
proof (intro conjI allI impI)
  fix u
  assume "Total_Updates (biometric_group dtypes df k) = Fin u \<and> \<bar>u\<bar> \<le> 10 ^ 300"
  then show "\<exists>v. Biometric_Coverage (biometric_group dtypes df k) = Fin v \<and>
           (real (Individuals_Updated (biometric_group dtypes df k)) + eps < f64_threshold \<longrightarrow>
            v = u / (real (Individuals_Updated (biometric_group dtypes df k)) + eps) * 100)"
    using coverage_of_total [of u "Individuals_Updated (biometric_group dtypes df k)"]
    by (simp add: biometric_group_fields(1))
next
  assume "dtypes ''Update_Count'' = Int64"
  then obtain x where x: "Total_Updates (biometric_group dtypes df k) = Fin (real_of_int (wrap64 x))"
    using biometric_group_fields(2) by blast
  obtain v where "mul64 (div64 (Fin (real_of_int (wrap64 x)))
        (add64 (Fin (real (Individuals_Updated (biometric_group dtypes df k)))) (Fin eps)))
        (Fin 100) = Fin v"
    using coverage_of_total [OF wrap64_bound] by blast
  then show "\<exists>u v. Total_Updates (biometric_group dtypes df k) = Fin u \<and>
             Biometric_Coverage (biometric_group dtypes df k) = Fin v"
    using x by (simp add: biometric_group_fields(1))
qed

text \<open>
  C7 (as amended). When the biometric dataset is loaded with the columns \<open>State\<close>,
  \<open>Update_Count\<close> (numeric) and \<open>Age_Group\<close>, \<open>calculate_biometric_quality\<close> returns one
  row per state, and in every row: the denominator \<open>Individuals_Updated + 1e-6\<close> is never
  zero, also when the count is 0; if \<open>Total_Updates\<close> is a finite number of magnitude at
  most \<open>1e300\<close>, then \<open>Biometric_Coverage\<close> is a finite number, namely
  \<open>Total_Updates / (Individuals_Updated + 1e-6) * 100\<close>; and if \<open>Update_Count\<close> is an
  \<open>int64\<close> column, \<open>Total_Updates\<close> (the sum modulo \<open>2^64\<close>) and
  \<open>Biometric_Coverage\<close> are finite. The bound
  \<open>1e300\<close> leaves the quotient, at most \<open>1e306\<close>, and its hundredfold below the largest
  double with a margin that rounding does not use up.
\<close>

theorem biometric_coverage_finite:
  assumes "biometric_df p = Some df"
    and "''State'' \<in> set (columns df)"
    and "''Update_Count'' \<in> set (columns df)"
    and "''Age_Group'' \<in> set (columns df)"
    and "list_all is_numeric (column df ''Update_Count'')"
  shows "\<exists>t. calculate_biometric_quality dtypes p = Inr t \<and>
     length (trows t) = length (group_keys (column df ''State'')) \<and>
     (\<forall>row \<in> set (trows t).
        add64 (Fin (real (Individuals_Updated row))) (Fin eps) \<noteq> Fin 0 \<and>
        (\<forall>u. Total_Updates row = Fin u \<and> \<bar>u\<bar> \<le> 10 ^ 300 \<longrightarrow>
           (\<exists>v. Biometric_Coverage row = Fin v \<and>
                (real (Individuals_Updated row) + eps < f64_threshold \<longrightarrow>
                 v = u / (real (Individuals_Updated row) + eps) * 100))) \<and>
        (dtypes ''Update_Count'' = Int64 \<and> int64_column df ''Update_Count'' \<longrightarrow>
           (\<exists>u v. Total_Updates row = Fin u \<and> Biometric_Coverage row = Fin v)))"
proof -
  let ?t = "\<lparr>tcolumns = [''State'', ''Total_Updates'', ''Avg_Updates'',
                         ''Individuals_Updated'', ''Biometric_Coverage''],
             trows = map (biometric_group dtypes df) (group_keys (column df ''State''))\<rparr>"
  have run: "calculate_biometric_quality dtypes p = Inr ?t"
    using assms by (simp add: calculate_biometric_quality_def)
  have rows: "\<forall>row \<in> set (trows ?t).
        add64 (Fin (real (Individuals_Updated row))) (Fin eps) \<noteq> Fin 0 \<and>
        (\<forall>u. Total_Updates row = Fin u \<and> \<bar>u\<bar> \<le> 10 ^ 300 \<longrightarrow>
           (\<exists>v. Biometric_Coverage row = Fin v \<and>
                (real (Individuals_Updated row) + eps < f64_threshold \<longrightarrow>
                 v = u / (real (Individuals_Updated row) + eps) * 100))) \<and>
        (dtypes ''Update_Count'' = Int64 \<and> int64_column df ''Update_Count'' \<longrightarrow>
           (\<exists>u v. Total_Updates row = Fin u \<and> Biometric_Coverage row = Fin v))"
  proof
    fix row assume "row \<in> set (trows ?t)"
    then obtain k where r: "row = biometric_group dtypes df k" by auto
    show "add64 (Fin (real (Individuals_Updated row))) (Fin eps) \<noteq> Fin 0 \<and>
        (\<forall>u. Total_Updates row = Fin u \<and> \<bar>u\<bar> \<le> 10 ^ 300 \<longrightarrow>
           (\<exists>v. Biometric_Coverage row = Fin v \<and>
                (real (Individuals_Updated row) + eps < f64_threshold \<longrightarrow>
                 v = u / (real (Individuals_Updated row) + eps) * 100))) \<and>
        (dtypes ''Update_Count'' = Int64 \<and> int64_column df ''Update_Count'' \<longrightarrow>
           (\<exists>u v. Total_Updates row = Fin u \<and> Biometric_Coverage row = Fin v))"
      unfolding r using biometric_row [of dtypes df k] denominator_not_zero by blast
  qed
  show ?thesis
    by (rule exI [of _ ?t]) (use run rows in simp)
qed

text \<open>The scenario of C7: one state with 50 updates in total and no individual
  counted (\<open>Age_Group\<close> missing in its only row) gets the coverage \<open>50 / 1e-6 * 100\<close>.\<close>

theorem biometric_coverage_finite_witness:
  "calculate_biometric_quality (\<lambda>c. Float64)
     \<lparr>enrolment_df = None, demographic_df = None,
      biometric_df = Some \<lparr>columns = [''State'', ''Update_Count'', ''Age_Group''],
                            rows = [[Str ''A'', Num 50, Null]]\<rparr>\<rparr>
   = Inr \<lparr>tcolumns = [''State'', ''Total_Updates'', ''Avg_Updates'',
                      ''Individuals_Updated'', ''Biometric_Coverage''],
          trows = [\<lparr>State = Str ''A'', Total_Updates = Fin 50, Avg_Updates = Fin 50,
                    Individuals_Updated = 0, Biometric_Coverage = Fin 5000000000\<rparr>]\<rparr> \<and>
   (\<exists>v. Fin 5000000000 = Fin v \<and> v = 50 / (real (0::nat) + eps) * 100)"
proof -
  let ?df = "\<lparr>columns = [''State'', ''Update_Count'', ''Age_Group''],
              rows = [[Str ''A'', Num 50, Null]]\<rparr>"
  let ?p = "\<lparr>enrolment_df = None, demographic_df = None, biometric_df = Some ?df\<rparr>"
  let ?row = "\<lparr>State = Str ''A'', Total_Updates = Fin 50, Avg_Updates = Fin 50,
               Individuals_Updated = 0, Biometric_Coverage = Fin 5000000000\<rparr>"
  let ?t = "\<lparr>tcolumns = [''State'', ''Total_Updates'', ''Avg_Updates'',
                         ''Individuals_Updated'', ''Biometric_Coverage''],
             trows = [?row]\<rparr>"
  have run: "calculate_biometric_quality (\<lambda>c. Float64) ?p = Inr ?t"
    by (simp add: calculate_biometric_quality_def column_def field_def cell_at_def
        is_numeric_def group_keys_def biometric_group_def total_updates_def float64_of_def
        sum64_def mean64_def add64_def mul64_def div64_def overflow_def f64_def
        f64_threshold_def dropna_def count_notnull_def eps_def Let_def)
  have num: "list_all is_numeric (column ?df ''Update_Count'')"
    by (simp add: column_def field_def cell_at_def is_numeric_def)
  have small: "real (0::nat) + eps < f64_threshold"
    by (simp add: eps_def f64_threshold_def)
  from biometric_coverage_finite [of ?p ?df "\<lambda>c. Float64"] num
  have "\<forall>row \<in> set (trows ?t).
        \<forall>u. Total_Updates row = Fin u \<and> \<bar>u\<bar> \<le> 10 ^ 300 \<longrightarrow>
           (\<exists>v. Biometric_Coverage row = Fin v \<and>
                (real (Individuals_Updated row) + eps < f64_threshold \<longrightarrow>
                 v = u / (real (Individuals_Updated row) + eps) * 100))"
    unfolding run by simp
  then have "\<exists>v. Fin 5000000000 = Fin v \<and>
      (real (0::nat) + eps < f64_threshold \<longrightarrow> v = 50 / (real (0::nat) + eps) * 100)"
    by simp
  then show ?thesis using run small by blast
qed

text \<open>
  C7 as stated fails: the coverage is not finite for every input. A float total of
  \<open>1e305\<close> with no individual counted overflows in the division by \<open>1e-6\<close>, and an
  infinite \<open>Update_Count\<close> gives an infinite total and coverage.
\<close>

theorem biometric_coverage_overflow_counterexample:
  "calculate_biometric_quality (\<lambda>c. Float64)
     \<lparr>enrolment_df = None, demographic_df = None,
      biometric_df = Some \<lparr>columns = [''State'', ''Update_Count'', ''Age_Group''],
                            rows = [[Str ''A'', Num (10 ^ 305), Null]]\<rparr>\<rparr>
   = Inr \<lparr>tcolumns = [''State'', ''Total_Updates'', ''Avg_Updates'',
                      ''Individuals_Updated'', ''Biometric_Coverage''],
          trows = [\<lparr>State = Str ''A'', Total_Updates = Fin (10 ^ 305),
                    Avg_Updates = Fin (10 ^ 305),
                    Individuals_Updated = 0, Biometric_Coverage = PInf\<rparr>]\<rparr> \<and>
   calculate_biometric_quality (\<lambda>c. Float64)
     \<lparr>enrolment_df = None, demographic_df = None,
      biometric_df = Some \<lparr>columns = [''State'', ''Update_Count'', ''Age_Group''],
                            rows = [[Str ''A'', Num (2 ^ 1024), Str ''Adult (26-40)'']]\<rparr>\<rparr>
   = Inr \<lparr>tcolumns = [''State'', ''Total_Updates'', ''Avg_Updates'',
                      ''Individuals_Updated'', ''Biometric_Coverage''],
          trows = [\<lparr>State = Str ''A'', Total_Updates = PInf, Avg_Updates = PInf,
                    Individuals_Updated = 1, Biometric_Coverage = PInf\<rparr>]\<rparr>"
  by (simp add: calculate_biometric_quality_def column_def field_def cell_at_def
      is_numeric_def group_keys_def biometric_group_def total_updates_def float64_of_def
      sum64_def mean64_def add64_def mul64_def div64_def overflow_def f64_def
      f64_threshold_def dropna_def count_notnull_def eps_def Let_def)

section \<open>Claims about the vulnerability score\<close>

lemma fold_fmin_in: "fold fmin ys y \<in> set (y # ys)"
  by (induction ys arbitrary: y) (auto simp: fmin_def)

lemma fold_fmax_in: "fold fmax ys y \<in> set (y # ys)"
  by (induction ys arbitrary: y) (auto simp: fmax_def)

lemma dropna_no_NaN: "NaN \<notin> set (dropna xs)"
  by (simp add: dropna_def)

lemma series_min_le_any: "z \<in> set xs \<Longrightarrow> z \<noteq> NaN \<Longrightarrow> fle (series_min xs) z"
proof -
  assume z: "z \<in> set xs" "z \<noteq> NaN"
  then have zin: "z \<in> set (dropna xs)" by (simp add: dropna_def)
  then obtain y ys where d: "dropna xs = y # ys" by (cases "dropna xs") auto
  have "y \<noteq> NaN" "NaN \<notin> set ys" using dropna_no_NaN [of xs] d by auto
  then have "fle (fold fmin ys y) z" using zin d by (intro fold_fmin_le) auto
  then show ?thesis by (simp add: series_min_def d)
qed

lemma series_max_ge_any: "z \<in> set xs \<Longrightarrow> z \<noteq> NaN \<Longrightarrow> fle z (series_max xs)"
proof -
  assume z: "z \<in> set xs" "z \<noteq> NaN"
  then have zin: "z \<in> set (dropna xs)" by (simp add: dropna_def)
  then obtain y ys where d: "dropna xs = y # ys" by (cases "dropna xs") auto
  have "y \<noteq> NaN" "NaN \<notin> set ys" using dropna_no_NaN [of xs] d by auto
  then have "fle z (fold fmax ys y)" using zin d by (intro fold_fmax_ge) auto
  then show ?thesis by (simp add: series_max_def d)
qed

lemma threshold_gt: "(2 :: real) ^ 64 < f64_threshold"
  by (simp add: f64_threshold_def)

lemma f64_small: "\<bar>r\<bar> \<le> 2 ^ 64 \<Longrightarrow> f64 r = Fin r"
  using threshold_gt by (intro f64_in_range) linarith

lemma f64_le11: "\<bar>r\<bar> \<le> 11 \<Longrightarrow> f64 r = Fin r"
proof -
  assume "\<bar>r\<bar> \<le> 11"
  moreover have "(11 :: real) \<le> 2 ^ 64" by simp
  ultimately have "\<bar>r\<bar> \<le> 2 ^ 64" by linarith
  then show ?thesis by (rule f64_small)
qed

lemma f64_zero: "f64 0 = Fin 0"
  by (rule f64_le11) simp

lemma f64_nonneg: "0 \<le> r \<Longrightarrow> f64 r = Fin r \<or> (f64 r = PInf \<and> f64_threshold \<le> r)"
  using threshold_pos by (auto simp: f64_def)

lemma sub64_NaN: "sub64 a NaN = NaN"
  by (cases a) (simp_all add: sub64_def fsub_def overflow_def)

lemma div64_NaN: "div64 NaN b = NaN"
  by (simp add: div64_def overflow_def)

text \<open>The quotient of the geographic sub-score on floats: NaN or a number in \<open>[0, 1]\<close>,
  whatever the values, infinite ones included.\<close>

lemma geographic_ratio_finite:
  assumes "lo \<le> r" "r \<le> hi"
  shows "div64 (sub64 (Fin hi) (Fin r)) (add64 (sub64 (Fin hi) (Fin lo)) (Fin eps)) = NaN \<or>
         (\<exists>g. div64 (sub64 (Fin hi) (Fin r)) (add64 (sub64 (Fin hi) (Fin lo)) (Fin eps)) = Fin g \<and>
              0 \<le> g \<and> g \<le> 1)"
proof -
  let ?a = "hi - r" and ?d = "hi - lo"
  have a0: "0 \<le> ?a" and ad: "?a \<le> ?d" using assms by simp_all
  have e: "0 < eps" by (simp add: eps_def)
  have num: "sub64 (Fin hi) (Fin r) = f64 ?a" by (simp add: sub64_def fsub_def overflow_def)
  have den: "sub64 (Fin hi) (Fin lo) = f64 ?d" by (simp add: sub64_def fsub_def overflow_def)
  show ?thesis
  proof (cases "?d + eps < f64_threshold")
    case True
    have fd: "f64 ?d = Fin ?d" using True a0 ad e by (intro f64_in_range) linarith
    have fa: "f64 ?a = Fin ?a" using True a0 ad e by (intro f64_in_range) linarith
    have fs: "f64 (?d + eps) = Fin (?d + eps)" using True a0 ad e by (intro f64_in_range) linarith
    have pos: "0 < ?d + eps" using a0 ad e by linarith
    have q0: "0 \<le> ?a / (?d + eps)" using a0 pos by simp
    have q1: "?a / (?d + eps) \<le> 1" using ad e pos by simp
    have fq: "f64 (?a / (?d + eps)) = Fin (?a / (?d + eps))"
      using q0 q1 by (intro f64_le11) linarith
    have "div64 (sub64 (Fin hi) (Fin r)) (add64 (sub64 (Fin hi) (Fin lo)) (Fin eps))
        = Fin (?a / (?d + eps))"
      using pos by (simp add: num den fd fa add64_def div64_def overflow_def fs fq)
    then show ?thesis using q0 q1 by blast
  next
    case False
    have inf: "add64 (sub64 (Fin hi) (Fin lo)) (Fin eps) = PInf"
    proof (cases "?d < f64_threshold")
      case True
      then have "f64 ?d = Fin ?d" using a0 ad by (intro f64_in_range) linarith
      then show ?thesis using False by (simp add: den add64_def overflow_def f64_def)
    next
      case False
      then have "f64 ?d = PInf" by (simp add: f64_def)
      then show ?thesis by (simp add: den add64_def overflow_def)
    qed
    from f64_nonneg [OF a0] show ?thesis
      by (auto simp: num inf div64_def overflow_def f64_zero)
  qed
qed

lemma geographic_ratio:
  assumes "x \<noteq> NaN" "fle mn x" "fle x mx"
  shows "div64 (sub64 mx x) (add64 (sub64 mx mn) (Fin eps)) = NaN \<or>
         (\<exists>g. div64 (sub64 mx x) (add64 (sub64 mx mn) (Fin eps)) = Fin g \<and> 0 \<le> g \<and> g \<le> 1)"
proof (cases x)
  case (Fin r)
  note x = this
  show ?thesis
  proof (cases mn)
    case (Fin lo)
    note mn = this
    show ?thesis
    proof (cases mx)
      case (Fin hi)
      then show ?thesis using assms x mn geographic_ratio_finite [of lo r hi] by simp
    next
      case PInf
      then show ?thesis using x mn
        by (simp add: sub64_def add64_def div64_def fsub_def overflow_def)
    qed (use assms x in simp_all)
  next
    case NInf
    note mn = this
    show ?thesis
    proof (cases mx)
      case (Fin hi)
      have "0 \<le> hi - r" using assms x Fin by simp
      from f64_nonneg [OF this] show ?thesis using x mn Fin
        by (auto simp: sub64_def add64_def div64_def fsub_def overflow_def f64_zero)
    next
      case PInf
      then show ?thesis using x mn
        by (simp add: sub64_def add64_def div64_def fsub_def overflow_def)
    qed (use assms x in simp_all)
  qed (use assms x in simp_all)
next
  case PInf
  then have "mx = PInf" using assms(3) by (cases mx) simp_all
  then show ?thesis using PInf by (simp add: sub64_def fsub_def overflow_def div64_NaN)
next
  case NInf
  then have mn: "mn = NInf" using assms(2) by (cases mn) simp_all
  show ?thesis using NInf mn assms(3)
    by (cases mx) (simp_all add: sub64_def add64_def div64_def fsub_def overflow_def)
qed (use assms in simp)

lemma geographic_float64_cell:
  assumes "i < length xs"
  shows "\<exists>g. geographic_float64 xs ! i = Fin g \<and> 0 \<le> g \<and> g \<le> 1"
proof (cases "xs ! i = NaN")
  case True
  then have "geographic_float64 xs ! i = Fin (1 / 2)" using assms
    by (simp add: geographic_float64_def fillna_def sub64_NaN div64_NaN)
  then show ?thesis by (intro exI [of _ "1 / 2"]) simp
next
  case False
  have m: "xs ! i \<in> set xs" using assms by simp
  let ?q = "div64 (sub64 (series_max xs) (xs ! i))
              (add64 (sub64 (series_max xs) (series_min xs)) (Fin eps))"
  have cell: "geographic_float64 xs ! i = (if ?q = NaN then Fin (1 / 2) else ?q)"
    using assms by (simp add: geographic_float64_def fillna_def)
  from geographic_ratio [OF False series_min_le_any [OF m False] series_max_ge_any [OF m False]]
  show ?thesis
  proof
    assume "?q = NaN"
    then have "geographic_float64 xs ! i = Fin (1 / 2)" using cell by simp
    then show ?thesis by (intro exI [of _ "1 / 2"]) simp
  next
    assume "\<exists>g. ?q = Fin g \<and> 0 \<le> g \<and> g \<le> 1"
    then obtain g where g: "?q = Fin g" "0 \<le> g" "g \<le> 1" by blast
    then have "geographic_float64 xs ! i = Fin g" using cell by simp
    then show ?thesis using g by blast
  qed
qed

text \<open>On \<open>int64\<close> the differences are exact, and the quotient in \<open>[0, 1]\<close>, when the
  spread of the column is below \<open>2^63\<close>.\<close>

lemma geographic_int64_cell:
  assumes "spread xs < 2 ^ 63" "i < length xs"
  shows "\<exists>g. geographic_int64 xs ! i = Fin g \<and> 0 \<le> g \<and> g \<le> 1"
proof -
  let ?mx = "Max (set xs)" and ?mn = "Min (set xs)" and ?x = "xs ! i"
  have m: "?x \<in> set xs" using assms(2) by simp
  then have ne: "xs \<noteq> []" by auto
  have le: "?mn \<le> ?x" "?x \<le> ?mx" using m by simp_all
  have sp: "?mx - ?mn < 2 ^ 63" using assms(1) ne by (simp add: spread_def)
  have a0: "0 \<le> ?mx - ?x" and ad: "?mx - ?x \<le> ?mx - ?mn" using le by simp_all
  have wa: "wrap64 (?mx - ?x) = ?mx - ?x" using a0 ad sp by (intro wrap64_id) linarith+
  have wd: "wrap64 (?mx - ?mn) = ?mx - ?mn" using a0 ad sp by (intro wrap64_id) linarith+
  define a where "a = real_of_int (?mx - ?x)"
  define d where "d = real_of_int (?mx - ?mn)"
  have ra: "0 \<le> a" "a \<le> d" using a0 ad by (simp_all add: a_def d_def)
  have "d < real_of_int (2 ^ 63)" unfolding d_def using sp by (simp only: of_int_less_iff)
  then have rd: "d < 2 ^ 63" by simp
  have e: "0 < eps" "eps < 1" by (simp_all add: eps_def)
  have pos: "0 < d + eps" using ra e by linarith
  have "(2 :: real) ^ 63 + 1 \<le> 2 ^ 64" by simp
  then have fs: "f64 (d + eps) = Fin (d + eps)" using ra rd e by (intro f64_small) linarith
  have q0: "0 \<le> a / (d + eps)" using ra pos by simp
  have q1: "a / (d + eps) \<le> 1" using ra e pos by simp
  have fq: "f64 (a / (d + eps)) = Fin (a / (d + eps))"
    using q0 q1 by (intro f64_le11) linarith
  have add: "add64 (Fin d) (Fin eps) = Fin (d + eps)"
    by (simp add: add64_def overflow_def fs)
  have dv: "div64 (Fin a) (Fin (d + eps)) = Fin (a / (d + eps))"
    using pos by (simp add: div64_def overflow_def fq)
  have "geographic_int64 xs ! i =
      fillna (Fin (1 / 2)) [div64 (Fin a) (add64 (Fin d) (Fin eps))] ! 0"
    using assms(2) unfolding a_def d_def
    by (simp add: geographic_int64_def fillna_def wa wd)
  then have "geographic_int64 xs ! i = Fin (a / (d + eps))"
    unfolding add dv by (simp add: fillna_def)
  then show ?thesis using q0 q1 by blast
qed

lemma spread_zeros: "spread (replicate n 0) = 0"
  by (cases n) (simp_all add: spread_def set_replicate_conv_if)

lemma geographic_cell:
  assumes "dt = Int64 \<longrightarrow> spread (map int_of cs) < 2 ^ 63" "i < length cs"
  shows "\<exists>g. geographic_vulnerability dt cs ! i = Fin g \<and> 0 \<le> g \<and> g \<le> 1"
  using assms geographic_int64_cell [of "map int_of cs" i]
    geographic_float64_cell [of i "map float64_of cs"]
  by (simp add: geographic_vulnerability_def)

text \<open>The quotient of the other two sub-scores, on values that are not negative.\<close>

lemma unit_ratio:
  assumes "x \<noteq> NaN" "x \<noteq> NInf" "\<forall>r. x = Fin r \<longrightarrow> 0 \<le> r" "fle x mx"
  shows "div64 x (add64 mx (Fin eps)) = NaN \<or>
         (\<exists>m. div64 x (add64 mx (Fin eps)) = Fin m \<and> 0 \<le> m \<and> m \<le> 1)"
proof (cases x)
  case (Fin r)
  note x = this
  then have r0: "0 \<le> r" using assms(3) by simp
  have e: "0 < eps" by (simp add: eps_def)
  show ?thesis
  proof (cases mx)
    case (Fin hi)
    then have rh: "r \<le> hi" using assms(4) x by simp
    have pos: "0 < hi + eps" using r0 rh e by linarith
    show ?thesis
    proof (cases "hi + eps < f64_threshold")
      case True
      have fs: "f64 (hi + eps) = Fin (hi + eps)" using True pos by (intro f64_in_range) linarith
      have q0: "0 \<le> r / (hi + eps)" using r0 pos by simp
      have q1: "r / (hi + eps) \<le> 1" using rh e pos by simp
      have fq: "f64 (r / (hi + eps)) = Fin (r / (hi + eps))"
        using q0 q1 by (intro f64_le11) linarith
      have "div64 x (add64 mx (Fin eps)) = Fin (r / (hi + eps))"
        using pos by (simp add: x Fin add64_def div64_def overflow_def fs fq)
      then show ?thesis using q0 q1 by blast
    next
      case False
      then have "add64 mx (Fin eps) = PInf" by (simp add: Fin add64_def overflow_def f64_def)
      then show ?thesis by (simp add: x div64_def overflow_def f64_zero)
    qed
  next
    case PInf
    then show ?thesis by (simp add: x add64_def div64_def overflow_def f64_zero)
  qed (use assms(4) x in simp_all)
next
  case PInf
  then have "mx = PInf" using assms(4) by (cases mx) simp_all
  then show ?thesis using PInf by (simp add: add64_def div64_def overflow_def)
qed (use assms in simp_all)

lemma nonneg_nth:
  assumes "nonneg xs" "i < length xs" "xs ! i \<noteq> NaN"
  shows "xs ! i \<noteq> NInf \<and> (\<forall>r. xs ! i = Fin r \<longrightarrow> 0 \<le> r) \<and> fle (xs ! i) (series_max xs)"
proof -
  have m: "xs ! i \<in> set xs" using assms(2) by simp
  have "xs ! i \<noteq> NInf" using assms(1) m unfolding nonneg_def by metis
  moreover have "\<forall>r. xs ! i = Fin r \<longrightarrow> 0 \<le> r" using assms(1) m unfolding nonneg_def by metis
  ultimately show ?thesis using series_max_ge_any [OF m assms(3)] by blast
qed

lemma migration_cell:
  assumes "nonneg xs" "i < length xs"
  shows "\<exists>m. migration_vulnerability xs ! i = Fin m \<and> 0 \<le> m \<and> m \<le> 1"
proof (cases "xs ! i = NaN")
  case True
  then have "migration_vulnerability xs ! i = Fin (1 / 2)" using assms(2)
    by (simp add: migration_vulnerability_def fillna_def div64_NaN)
  then show ?thesis by (intro exI [of _ "1 / 2"]) simp
next
  case False
  let ?q = "div64 (xs ! i) (add64 (series_max xs) (Fin eps))"
  have cell: "migration_vulnerability xs ! i = (if ?q = NaN then Fin (1 / 2) else ?q)"
    using assms(2) by (simp add: migration_vulnerability_def fillna_def)
  from nonneg_nth [OF assms False] have "?q = NaN \<or> (\<exists>m. ?q = Fin m \<and> 0 \<le> m \<and> m \<le> 1)"
    by (intro unit_ratio [OF False]) blast+
  then show ?thesis
  proof
    assume "?q = NaN"
    then have "migration_vulnerability xs ! i = Fin (1 / 2)" using cell by simp
    then show ?thesis by (intro exI [of _ "1 / 2"]) simp
  next
    assume "\<exists>m. ?q = Fin m \<and> 0 \<le> m \<and> m \<le> 1"
    then obtain m where m: "?q = Fin m" "0 \<le> m" "m \<le> 1" by blast
    then have "migration_vulnerability xs ! i = Fin m" using cell by simp
    then show ?thesis using m by blast
  qed
qed

lemma biometric_cell:
  assumes "nonneg xs" "i < length xs"
  shows "\<exists>b. biometric_vulnerability xs ! i = Fin b \<and> 0 \<le> b \<and> b \<le> 1"
proof (cases "xs ! i = NaN")
  case True
  then have "biometric_vulnerability xs ! i = Fin (1 / 2)" using assms(2)
    by (simp add: biometric_vulnerability_def fillna_def div64_NaN sub64_NaN)
  then show ?thesis by (intro exI [of _ "1 / 2"]) simp
next
  case False
  let ?q = "div64 (xs ! i) (add64 (series_max xs) (Fin eps))"
  have cell: "biometric_vulnerability xs ! i =
      (if sub64 (Fin 1) ?q = NaN then Fin (1 / 2) else sub64 (Fin 1) ?q)"
    using assms(2) by (simp add: biometric_vulnerability_def fillna_def)
  from nonneg_nth [OF assms False] have "?q = NaN \<or> (\<exists>m. ?q = Fin m \<and> 0 \<le> m \<and> m \<le> 1)"
    by (intro unit_ratio [OF False]) blast+
  then show ?thesis
  proof
    assume "?q = NaN"
    then have "biometric_vulnerability xs ! i = Fin (1 / 2)" using cell by (simp add: sub64_NaN)
    then show ?thesis by (intro exI [of _ "1 / 2"]) simp
  next
    assume "\<exists>m. ?q = Fin m \<and> 0 \<le> m \<and> m \<le> 1"
    then obtain m where m: "?q = Fin m" "0 \<le> m" "m \<le> 1" by blast
    have "f64 (1 - m) = Fin (1 - m)" using m by (intro f64_le11) linarith
    then have "sub64 (Fin 1) ?q = Fin (1 - m)"
      by (simp add: m(1) sub64_def fsub_def overflow_def)
    then have "biometric_vulnerability xs ! i = Fin (1 - m)" using cell by simp
    then show ?thesis using m by (intro exI [of _ "1 - m"]) simp
  qed
qed

lemma length_floats64: "length (floats64 df name) = length (rows df)"
  by (simp add: floats64_def column_def)

lemma length_column: "length (column df name) = length (rows df)"
  by (simp add: column_def)

lemma length_sub_scores:
  "length (geographic_vulnerability dt cs) = length cs"
  "length (biometric_vulnerability xs) = length xs"
  "length (migration_vulnerability xs) = length xs"
  by (simp_all add: geographic_vulnerability_def geographic_int64_def geographic_float64_def
      biometric_vulnerability_def migration_vulnerability_def fillna_def)

lemma accumulate_nth:
  assumes "length s = n" "length v = n" "i < n" "s ! i = Fin a" "v ! i = Fin b"
    and "\<bar>a\<bar> \<le> 10" "\<bar>b\<bar> \<le> 1" "\<bar>w\<bar> \<le> 1"
  shows "length (accumulate p s v w) = n \<and>
         accumulate p s v w ! i = Fin (a + (if p then w else 0) * b)"
proof -
  have "\<bar>b * w\<bar> \<le> 1 * 1" unfolding abs_mult using assms(7,8) by (intro mult_mono) simp_all
  then have wb: "\<bar>b * w\<bar> \<le> 1" by simp
  then have m: "f64 (b * w) = Fin (b * w)" by (intro f64_le11) linarith
  have "\<bar>a + b * w\<bar> \<le> 11" using wb assms(6) by linarith
  then have s: "f64 (a + b * w) = Fin (a + b * w)" by (intro f64_le11) linarith
  show ?thesis
    using assms(1-5) by (simp add: accumulate_def add_weighted_def add64_def mul64_def
        overflow_def m s mult.commute)
qed

lemma age_score_range: "0 \<le> age_vulnerability_score c \<and> age_vulnerability_score c \<le> 1"
  by (simp add: age_vulnerability_score_def vulnerability_map_def)

lemma calculate_vulnerability_score_Inr:
  assumes "calculate_vulnerability_score dtypes df = Inr scores"
  shows "scores =
     accumulate (''Demographic_Updates'' \<in> set (columns df))
       (accumulate (''Biometric_Updates'' \<in> set (columns df))
          (accumulate (''State'' \<in> set (columns df) \<and> ''Enrolment_Count'' \<in> set (columns df))
             (accumulate (''Age_Group'' \<in> set (columns df))
                (replicate (length (rows df)) (Fin 0))
                (map (\<lambda>c. Fin (age_vulnerability_score c)) (column df ''Age_Group'')) (4 / 10))
             (geographic_vulnerability (dtypes ''Enrolment_Count'')
                (column df ''Enrolment_Count'')) (3 / 10))
          (biometric_vulnerability (floats64 df ''Biometric_Updates'')) (2 / 10))
       (migration_vulnerability (floats64 df ''Demographic_Updates'')) (1 / 10)"
  using assms unfolding calculate_vulnerability_score_def Let_def accumulate_def
  by (auto split: if_splits)

lemma index_of_absent: "x \<notin> set ys \<Longrightarrow> index_of x ys = None"
  by (induction ys) auto

lemma column_absent:
  assumes "name \<notin> set (columns df)"
  shows "column df name = replicate (length (rows df)) Null"
proof -
  have "field df name = (\<lambda>r. Null)"
    by (rule ext) (simp add: field_def index_of_absent [OF assms])
  then show ?thesis by (simp add: column_def map_replicate_const)
qed

lemma spread_absent:
  assumes "name \<notin> set (columns df)"
  shows "spread (ints df name) < 2 ^ 63"
  using spread_zeros [of "length (rows df)"]
  by (simp add: ints_def column_absent [OF assms] int_of_def)

lemma weight_bound:
  fixes x w :: real
  assumes "0 \<le> x" "x \<le> 1" "0 \<le> w" "w \<le> 1"
  shows "0 \<le> (if p then w else 0) * x \<and> (if p then w else 0) * x \<le> 1"
  using assms by (cases p) (simp_all add: mult_le_one)

lemma score_row:
  assumes sc: "calculate_vulnerability_score dtypes df = Inr scores"
    and sp: "spread (ints df ''Enrolment_Count'') < 2 ^ 63 \<or> dtypes ''Enrolment_Count'' \<noteq> Int64"
    and nb: "nonneg (floats64 df ''Biometric_Updates'')"
    and nd: "nonneg (floats64 df ''Demographic_Updates'')"
    and i: "i < length (rows df)"
  shows "\<exists>g b m.
      geographic_vulnerability (dtypes ''Enrolment_Count'') (column df ''Enrolment_Count'') ! i
        = Fin g \<and> 0 \<le> g \<and> g \<le> 1 \<and>
      biometric_vulnerability (floats64 df ''Biometric_Updates'') ! i = Fin b \<and> 0 \<le> b \<and> b \<le> 1 \<and>
      migration_vulnerability (floats64 df ''Demographic_Updates'') ! i = Fin m \<and> 0 \<le> m \<and> m \<le> 1 \<and>
      length scores = length (rows df) \<and>
      scores ! i =
        Fin (present_weight df [''Age_Group''] (4 / 10) *
               age_vulnerability_score (column df ''Age_Group'' ! i) +
             present_weight df [''State'', ''Enrolment_Count''] (3 / 10) * g +
             present_weight df [''Biometric_Updates''] (2 / 10) * b +
             present_weight df [''Demographic_Updates''] (1 / 10) * m)"
proof -
  let ?n = "length (rows df)"
  let ?geo = "geographic_vulnerability (dtypes ''Enrolment_Count'') (column df ''Enrolment_Count'')"
  obtain g where g: "?geo ! i = Fin g" "0 \<le> g" "g \<le> 1"
    using geographic_cell [of "dtypes ''Enrolment_Count''" "column df ''Enrolment_Count''" i] sp i
    by (auto simp: length_column ints_def)
  obtain b where b: "biometric_vulnerability (floats64 df ''Biometric_Updates'') ! i = Fin b"
      "0 \<le> b" "b \<le> 1"
    using biometric_cell [OF nb, of i] i by (auto simp: length_floats64)
  obtain m where m: "migration_vulnerability (floats64 df ''Demographic_Updates'') ! i = Fin m"
      "0 \<le> m" "m \<le> 1"
    using migration_cell [OF nd, of i] i by (auto simp: length_floats64)
  let ?pa = "''Age_Group'' \<in> set (columns df)"
  let ?pg = "''State'' \<in> set (columns df) \<and> ''Enrolment_Count'' \<in> set (columns df)"
  let ?pb = "''Biometric_Updates'' \<in> set (columns df)"
  let ?pm = "''Demographic_Updates'' \<in> set (columns df)"
  let ?s0 = "replicate ?n (Fin 0)"
  let ?s1 = "accumulate ?pa ?s0
               (map (\<lambda>c. Fin (age_vulnerability_score c)) (column df ''Age_Group'')) (4 / 10)"
  let ?s2 = "accumulate ?pg ?s1 ?geo (3 / 10)"
  let ?s3 = "accumulate ?pb ?s2
               (biometric_vulnerability (floats64 df ''Biometric_Updates'')) (2 / 10)"
  let ?s4 = "accumulate ?pm ?s3
               (migration_vulnerability (floats64 df ''Demographic_Updates'')) (1 / 10)"
  let ?a = "age_vulnerability_score (column df ''Age_Group'' ! i)"
  let ?ta = "(if ?pa then 4 / 10 else 0) * ?a"
  let ?tg = "(if ?pg then 3 / 10 else 0) * g"
  let ?tb = "(if ?pb then 2 / 10 else 0) * b"
  let ?tm = "(if ?pm then 1 / 10 else 0) * m"
  have a: "0 \<le> ?a" "?a \<le> 1" using age_score_range by auto
  have ta: "0 \<le> ?ta \<and> ?ta \<le> 1" by (rule weight_bound) (use a in simp_all)
  have tg: "0 \<le> ?tg \<and> ?tg \<le> 1" by (rule weight_bound) (use g in simp_all)
  have tb: "0 \<le> ?tb \<and> ?tb \<le> 1" by (rule weight_bound) (use b in simp_all)
  have s1: "length ?s1 = ?n \<and> ?s1 ! i = Fin (0 + ?ta)"
    by (rule accumulate_nth) (use i a in \<open>simp_all add: length_column\<close>)
  have s2: "length ?s2 = ?n \<and> ?s2 ! i = Fin (0 + ?ta + ?tg)"
  proof (rule accumulate_nth)
    show "\<bar>0 + ?ta\<bar> \<le> 10" using ta by linarith
  qed (use i s1 g in \<open>simp_all add: length_column length_sub_scores\<close>)
  have s3: "length ?s3 = ?n \<and> ?s3 ! i = Fin (0 + ?ta + ?tg + ?tb)"
  proof (rule accumulate_nth)
    show "\<bar>0 + ?ta + ?tg\<bar> \<le> 10" using ta tg by linarith
  qed (use i s2 b in \<open>simp_all add: length_floats64 length_sub_scores\<close>)
  have s4: "length ?s4 = ?n \<and> ?s4 ! i = Fin (0 + ?ta + ?tg + ?tb + ?tm)"
  proof (rule accumulate_nth)
    show "\<bar>0 + ?ta + ?tg + ?tb\<bar> \<le> 10" using ta tg tb by linarith
  qed (use i s3 m in \<open>simp_all add: length_floats64 length_sub_scores\<close>)
  have "scores = ?s4" by (rule calculate_vulnerability_score_Inr [OF sc])
  then show ?thesis using s4 g b m by (simp add: present_weight_def)
qed

lemma weighted_sum_range:
  fixes a g b m :: real
  assumes "0 \<le> a" "a \<le> 1" "0 \<le> g" "g \<le> 1" "0 \<le> b" "b \<le> 1" "0 \<le> m" "m \<le> 1"
  shows "0 \<le> (if pa then 4 / 10 else 0) * a + (if pg then 3 / 10 else 0) * g +
              (if pb then 2 / 10 else 0) * b + (if pm then 1 / 10 else 0) * m \<and>
         (if pa then 4 / 10 else 0) * a + (if pg then 3 / 10 else 0) * g +
              (if pb then 2 / 10 else 0) * b + (if pm then 1 / 10 else 0) * m \<le> 1"
  using assms by (cases pa; cases pg; cases pb; cases pm) simp_all

text \<open>
  C2 (as amended). For every input whose \<open>Biometric_Updates\<close> and
  \<open>Demographic_Updates\<close> values are null or non-negative and whose \<open>Enrolment_Count\<close>
  column, when it is of dtype \<open>int64\<close>, has a spread \<open>max - min\<close> below \<open>2^63\<close>: the
  score is returned unless a present source column is not numeric; it has one entry per
  row; the entry of row \<open>i\<close> is the weighted sum (age 0.4, geographic 0.3, biometric 0.2,
  migration 0.1) of the sub-scores whose source columns are present, each sub-score
  lying in \<open>[0, 1]\<close>, so that the score lies in \<open>[0, 1]\<close> and hence in \<open>[0, 100]\<close>; and
  a row with \<open>Age_Group = "Child (0-5)"\<close>, when only the age column is present, scores
  \<open>1.0 * 0.4 = 0.4\<close>.
\<close>

theorem vulnerability_score_weighted_sum:
  assumes "nonneg (floats64 df ''Biometric_Updates'')"
    and "nonneg (floats64 df ''Demographic_Updates'')"
    and "''Enrolment_Count'' \<in> set (columns df) \<and> dtypes ''Enrolment_Count'' = Int64
           \<longrightarrow> int64_column df ''Enrolment_Count'' \<and>
               spread (ints df ''Enrolment_Count'') < 2 ^ 63"
  shows
   "((''State'' \<in> set (columns df) \<and> ''Enrolment_Count'' \<in> set (columns df)
        \<longrightarrow> numeric_column df ''Enrolment_Count'') \<and>
     (''Biometric_Updates'' \<in> set (columns df) \<longrightarrow> numeric_column df ''Biometric_Updates'') \<and>
     (''Demographic_Updates'' \<in> set (columns df) \<longrightarrow> numeric_column df ''Demographic_Updates'')
       \<longrightarrow> (\<exists>scores. calculate_vulnerability_score dtypes df = Inr scores)) \<and>
    (calculate_vulnerability_score dtypes df = Inr scores \<and> i < length (rows df) \<longrightarrow>
       length scores = length (rows df) \<and>
       (\<exists>g b m.
          geographic_vulnerability (dtypes ''Enrolment_Count'') (column df ''Enrolment_Count'') ! i
            = Fin g \<and> 0 \<le> g \<and> g \<le> 1 \<and>
          biometric_vulnerability (floats64 df ''Biometric_Updates'') ! i = Fin b \<and>
            0 \<le> b \<and> b \<le> 1 \<and>
          migration_vulnerability (floats64 df ''Demographic_Updates'') ! i = Fin m \<and>
            0 \<le> m \<and> m \<le> 1 \<and>
          0 \<le> age_vulnerability_score (column df ''Age_Group'' ! i) \<and>
          age_vulnerability_score (column df ''Age_Group'' ! i) \<le> 1 \<and>
          (\<exists>v. scores ! i = Fin v \<and> 0 \<le> v \<and> v \<le> 1 \<and> v \<le> 100 \<and>
             v = present_weight df [''Age_Group''] (4 / 10) *
                   age_vulnerability_score (column df ''Age_Group'' ! i) +
                 present_weight df [''State'', ''Enrolment_Count''] (3 / 10) * g +
                 present_weight df [''Biometric_Updates''] (2 / 10) * b +
                 present_weight df [''Demographic_Updates''] (1 / 10) * m)) \<and>
       (''Age_Group'' \<in> set (columns df) \<and>
        \<not> (''State'' \<in> set (columns df) \<and> ''Enrolment_Count'' \<in> set (columns df)) \<and>
        ''Biometric_Updates'' \<notin> set (columns df) \<and>
        ''Demographic_Updates'' \<notin> set (columns df) \<and>
        column df ''Age_Group'' ! i = Str ''Child (0-5)''
          \<longrightarrow> scores ! i = Fin (1 * (4 / 10)) \<and> scores ! i = Fin (4 / 10)))"
proof (intro conjI impI)
  assume "(''State'' \<in> set (columns df) \<and> ''Enrolment_Count'' \<in> set (columns df)
        \<longrightarrow> numeric_column df ''Enrolment_Count'') \<and>
     (''Biometric_Updates'' \<in> set (columns df) \<longrightarrow> numeric_column df ''Biometric_Updates'') \<and>
     (''Demographic_Updates'' \<in> set (columns df) \<longrightarrow> numeric_column df ''Demographic_Updates'')"
  then show "\<exists>scores. calculate_vulnerability_score dtypes df = Inr scores"
    by (simp add: calculate_vulnerability_score_def Let_def)
next
  have sp: "spread (ints df ''Enrolment_Count'') < 2 ^ 63 \<or> dtypes ''Enrolment_Count'' \<noteq> Int64"
    using assms(3) spread_absent [of "''Enrolment_Count''" df] by blast
  assume h: "calculate_vulnerability_score dtypes df = Inr scores \<and> i < length (rows df)"
  from score_row [of dtypes df scores i] sp assms(1,2) h
  show "length scores = length (rows df)" by blast
next
  have sp: "spread (ints df ''Enrolment_Count'') < 2 ^ 63 \<or> dtypes ''Enrolment_Count'' \<noteq> Int64"
    using assms(3) spread_absent [of "''Enrolment_Count''" df] by blast
  assume h: "calculate_vulnerability_score dtypes df = Inr scores \<and> i < length (rows df)"
  let ?geo = "geographic_vulnerability (dtypes ''Enrolment_Count'') (column df ''Enrolment_Count'')"
  from score_row [of dtypes df scores i] sp assms(1,2) h
  obtain g b m where
    g: "?geo ! i = Fin g" "0 \<le> g" "g \<le> 1" and
    b: "biometric_vulnerability (floats64 df ''Biometric_Updates'') ! i = Fin b" "0 \<le> b" "b \<le> 1" and
    m: "migration_vulnerability (floats64 df ''Demographic_Updates'') ! i = Fin m" "0 \<le> m" "m \<le> 1" and
    sc: "scores ! i =
        Fin (present_weight df [''Age_Group''] (4 / 10) *
               age_vulnerability_score (column df ''Age_Group'' ! i) +
             present_weight df [''State'', ''Enrolment_Count''] (3 / 10) * g +
             present_weight df [''Biometric_Updates''] (2 / 10) * b +
             present_weight df [''Demographic_Updates''] (1 / 10) * m)"
    by blast
  let ?a = "age_vulnerability_score (column df ''Age_Group'' ! i)"
  have a: "0 \<le> ?a" "?a \<le> 1" using age_score_range by auto
  let ?v = "present_weight df [''Age_Group''] (4 / 10) * ?a +
             present_weight df [''State'', ''Enrolment_Count''] (3 / 10) * g +
             present_weight df [''Biometric_Updates''] (2 / 10) * b +
             present_weight df [''Demographic_Updates''] (1 / 10) * m"
  have r: "0 \<le> ?v \<and> ?v \<le> 1"
    unfolding present_weight_def
    by (rule weighted_sum_range) (use a g b m in simp_all)
  then have "?v \<le> 100" by linarith
  then show "\<exists>g b m.
          ?geo ! i = Fin g \<and> 0 \<le> g \<and> g \<le> 1 \<and>
          biometric_vulnerability (floats64 df ''Biometric_Updates'') ! i = Fin b \<and>
            0 \<le> b \<and> b \<le> 1 \<and>
          migration_vulnerability (floats64 df ''Demographic_Updates'') ! i = Fin m \<and>
            0 \<le> m \<and> m \<le> 1 \<and>
          0 \<le> age_vulnerability_score (column df ''Age_Group'' ! i) \<and>
          age_vulnerability_score (column df ''Age_Group'' ! i) \<le> 1 \<and>
          (\<exists>v. scores ! i = Fin v \<and> 0 \<le> v \<and> v \<le> 1 \<and> v \<le> 100 \<and>
             v = present_weight df [''Age_Group''] (4 / 10) *
                   age_vulnerability_score (column df ''Age_Group'' ! i) +
                 present_weight df [''State'', ''Enrolment_Count''] (3 / 10) * g +
                 present_weight df [''Biometric_Updates''] (2 / 10) * b +
                 present_weight df [''Demographic_Updates''] (1 / 10) * m)"
    using g b m a sc r by blast
next
  have sp: "spread (ints df ''Enrolment_Count'') < 2 ^ 63 \<or> dtypes ''Enrolment_Count'' \<noteq> Int64"
    using assms(3) spread_absent [of "''Enrolment_Count''" df] by blast
  assume h: "calculate_vulnerability_score dtypes df = Inr scores \<and> i < length (rows df)"
  assume only: "''Age_Group'' \<in> set (columns df) \<and>
        \<not> (''State'' \<in> set (columns df) \<and> ''Enrolment_Count'' \<in> set (columns df)) \<and>
        ''Biometric_Updates'' \<notin> set (columns df) \<and>
        ''Demographic_Updates'' \<notin> set (columns df) \<and>
        column df ''Age_Group'' ! i = Str ''Child (0-5)''"
  from score_row [of dtypes df scores i] sp assms(1,2) h only
  have "scores ! i = Fin (4 / 10)"
    by (auto simp: present_weight_def age_vulnerability_score_def vulnerability_map_def)
  then show "scores ! i = Fin (1 * (4 / 10))" "scores ! i = Fin (4 / 10)" by simp_all
qed

text \<open>Two runs. The scenario of C2: the only column is \<open>Age_Group\<close>, the only row a
  child under six. And a frame with all the source columns, of dtype \<open>int64\<close>, all
  counts non-negative.\<close>

theorem vulnerability_score_weighted_sum_witness:
  "nonneg (floats64 \<lparr>columns = [''Age_Group''], rows = [[Str ''Child (0-5)'']]\<rparr> ''Biometric_Updates'') \<and>
   nonneg (floats64 \<lparr>columns = [''Age_Group''], rows = [[Str ''Child (0-5)'']]\<rparr> ''Demographic_Updates'') \<and>
   ''Enrolment_Count'' \<notin> set (columns \<lparr>columns = [''Age_Group''], rows = [[Str ''Child (0-5)'']]\<rparr>) \<and>
   calculate_vulnerability_score (\<lambda>c. Int64)
     \<lparr>columns = [''Age_Group''], rows = [[Str ''Child (0-5)'']]\<rparr>
     = Inr [Fin (4 / 10)] \<and>
   [Fin (4 / 10)] ! 0 = Fin (1 * (4 / 10)) \<and>
   nonneg (floats64 \<lparr>columns = [''Age_Group'', ''State'', ''Enrolment_Count'',
                                ''Biometric_Updates'', ''Demographic_Updates''],
                    rows = [[Str ''Elderly (60+)'', Str ''A'', Num 10, Num 0, Num 5],
                            [Null, Str ''B'', Num 30, Num 4, Num 0]]\<rparr>
             ''Biometric_Updates'') \<and>
   nonneg (floats64 \<lparr>columns = [''Age_Group'', ''State'', ''Enrolment_Count'',
                                ''Biometric_Updates'', ''Demographic_Updates''],
                    rows = [[Str ''Elderly (60+)'', Str ''A'', Num 10, Num 0, Num 5],
                            [Null, Str ''B'', Num 30, Num 4, Num 0]]\<rparr>
             ''Demographic_Updates'') \<and>
   int64_column \<lparr>columns = [''Age_Group'', ''State'', ''Enrolment_Count'',
                            ''Biometric_Updates'', ''Demographic_Updates''],
                rows = [[Str ''Elderly (60+)'', Str ''A'', Num 10, Num 0, Num 5],
                        [Null, Str ''B'', Num 30, Num 4, Num 0]]\<rparr> ''Enrolment_Count'' \<and>
   spread (ints \<lparr>columns = [''Age_Group'', ''State'', ''Enrolment_Count'',
                            ''Biometric_Updates'', ''Demographic_Updates''],
                rows = [[Str ''Elderly (60+)'', Str ''A'', Num 10, Num 0, Num 5],
                        [Null, Str ''B'', Num 30, Num 4, Num 0]]\<rparr> ''Enrolment_Count'') < 2 ^ 63 \<and>
   (\<exists>scores v.
      calculate_vulnerability_score (\<lambda>c. Int64)
        \<lparr>columns = [''Age_Group'', ''State'', ''Enrolment_Count'',
                    ''Biometric_Updates'', ''Demographic_Updates''],
         rows = [[Str ''Elderly (60+)'', Str ''A'', Num 10, Num 0, Num 5],
                 [Null, Str ''B'', Num 30, Num 4, Num 0]]\<rparr> = Inr scores \<and>
      scores ! 0 = Fin v \<and> 0 \<le> v \<and> v \<le> 1 \<and> v \<le> 100)"
proof -
  let ?df = "\<lparr>columns = [''Age_Group''], rows = [[Str ''Child (0-5)'']]\<rparr>"
  have nb: "nonneg (floats64 ?df ''Biometric_Updates'')"
    by (simp add: nonneg_def floats64_def column_def field_def float64_of_def)
  have nd: "nonneg (floats64 ?df ''Demographic_Updates'')"
    by (simp add: nonneg_def floats64_def column_def field_def float64_of_def)
  have ne: "''Enrolment_Count'' \<notin> set (columns ?df)" by simp
  then have sp: "''Enrolment_Count'' \<in> set (columns ?df) \<and> (\<lambda>c. Int64) ''Enrolment_Count'' = Int64
           \<longrightarrow> int64_column ?df ''Enrolment_Count'' \<and>
               spread (ints ?df ''Enrolment_Count'') < 2 ^ 63"
    by blast
  have run: "calculate_vulnerability_score (\<lambda>c. Int64) ?df = Inr [Fin (4 / 10)]"
    by (simp add: calculate_vulnerability_score_def add_weighted_def column_def field_def
        cell_at_def age_vulnerability_score_def vulnerability_map_def add64_def mul64_def
        overflow_def f64_def f64_threshold_def)
  have col: "column ?df ''Age_Group'' ! 0 = Str ''Child (0-5)''"
    by (simp add: column_def field_def cell_at_def)
  have first: "[Fin (4 / 10)] ! 0 = Fin (1 * (4 / 10))"
    using vulnerability_score_weighted_sum [OF nb nd sp, of "[Fin (4 / 10)]" 0] run col by simp
  let ?df2 = "\<lparr>columns = [''Age_Group'', ''State'', ''Enrolment_Count'',
                            ''Biometric_Updates'', ''Demographic_Updates''],
              rows = [[Str ''Elderly (60+)'', Str ''A'', Num 10, Num 0, Num 5],
                      [Null, Str ''B'', Num 30, Num 4, Num 0]]\<rparr>"
  have f: "f64 0 = Fin 0" "f64 4 = Fin 4" "f64 5 = Fin 5"
    by (simp_all add: f64_def f64_threshold_def)
  have nb2: "nonneg (floats64 ?df2 ''Biometric_Updates'')"
    by (simp add: nonneg_def floats64_def column_def field_def cell_at_def float64_of_def f)
  have nd2: "nonneg (floats64 ?df2 ''Demographic_Updates'')"
    by (simp add: nonneg_def floats64_def column_def field_def cell_at_def float64_of_def f)
  have ic: "int64_column ?df2 ''Enrolment_Count''"
    by (simp add: int64_column_def int64_cell_def column_def field_def cell_at_def)
  have sp2: "spread (ints ?df2 ''Enrolment_Count'') < 2 ^ 63"
    by (simp add: spread_def ints_def int_of_def column_def field_def cell_at_def)
  have num: "numeric_column ?df2 ''Enrolment_Count''" "numeric_column ?df2 ''Biometric_Updates''"
      "numeric_column ?df2 ''Demographic_Updates''"
    by (simp_all add: numeric_column_def column_def field_def cell_at_def is_numeric_def)
  have h3: "''Enrolment_Count'' \<in> set (columns ?df2) \<and> (\<lambda>c. Int64) ''Enrolment_Count'' = Int64
           \<longrightarrow> int64_column ?df2 ''Enrolment_Count'' \<and>
               spread (ints ?df2 ''Enrolment_Count'') < 2 ^ 63"
    using ic sp2 by blast
  obtain scores where run2: "calculate_vulnerability_score (\<lambda>c. Int64) ?df2 = Inr scores"
    using vulnerability_score_weighted_sum [OF nb2 nd2 h3] num by auto
  have "\<exists>v. scores ! 0 = Fin v \<and> 0 \<le> v \<and> v \<le> 1 \<and> v \<le> 100"
    using vulnerability_score_weighted_sum [OF nb2 nd2 h3, of scores 0] run2 by auto
  then have second: "\<exists>scores v. calculate_vulnerability_score (\<lambda>c. Int64) ?df2 = Inr scores \<and>
      scores ! 0 = Fin v \<and> 0 \<le> v \<and> v \<le> 1 \<and> v \<le> 100"
    using run2 by blast
  show ?thesis using nb nd ne run first nb2 nd2 ic sp2 second by blast
qed

text \<open>
  C2 as stated fails for inputs with negative values, which nothing in the code
  excludes or clamps: with \<open>Demographic_Updates = [-1, 1]\<close> the first score is negative,
  and with \<open>Biometric_Updates = [-2000000, 1]\<close> the first score exceeds 100. It also
  fails on an \<open>int64\<close> column \<open>Enrolment_Count = [9223372036854775807, 0, -2]\<close>, where
  the difference \<open>max - min\<close> wraps around to \<open>-9223372036854775807\<close>: the second score
  is negative (about \<open>-0.3\<close>).
\<close>

theorem vulnerability_score_range_counterexample:
  "calculate_vulnerability_score (\<lambda>c. Float64)
     \<lparr>columns = [''Demographic_Updates''], rows = [[Num (- 1)], [Num 1]]\<rparr>
     = Inr [Fin (- (100000 / 1000001)), Fin (100000 / 1000001)] \<and>
   \<not> (0 \<le> (- (100000 / 1000001) :: real)) \<and>
   calculate_vulnerability_score (\<lambda>c. Float64)
     \<lparr>columns = [''Biometric_Updates''], rows = [[Num (- 2000000)], [Num 1]]\<rparr>
     = Inr [Fin (2000001000001 / 5000005), Fin (1 / 5000005)] \<and>
   \<not> ((2000001000001 / 5000005 :: real) \<le> 100) \<and>
   calculate_vulnerability_score (\<lambda>c. Int64)
     \<lparr>columns = [''State'', ''Enrolment_Count''],
      rows = [[Str ''A'', Num 9223372036854775807], [Str ''B'', Num 0], [Str ''C'', Num (- 2)]]\<rparr>
     = Inr [Fin 0,
            Fin (- (922337203685477580700000 / 3074457345618258602333333)),
            Fin (922337203685477580700000 / 3074457345618258602333333)] \<and>
   \<not> (0 \<le> (- (922337203685477580700000 / 3074457345618258602333333) :: real))"
  by (simp add: calculate_vulnerability_score_def add_weighted_def column_def field_def
      cell_at_def numeric_column_def is_numeric_def floats64_def float64_of_def int_of_def
      geographic_vulnerability_def geographic_int64_def wrap64_def
      migration_vulnerability_def biometric_vulnerability_def series_max_def dropna_def
      fillna_def fmax_def fsub_def eps_def add64_def sub64_def mul64_def div64_def
      overflow_def f64_def f64_threshold_def)

section \<open>Claims about statistical anomalies\<close>

lemma foldl_fadd_Fin: "foldl fadd (Fin a) (map Fin xs) = Fin (a + sum_list xs)"
  by (induction xs arbitrary: a) (simp_all add: add.assoc)

lemma np_mean_Fin:
  "xs \<noteq> [] \<Longrightarrow> np_mean (map Fin xs) = Fin (population_mean xs)"
  by (simp add: np_mean_def foldl_fadd_Fin population_mean_def)

lemma np_std_Fin:
  assumes "xs \<noteq> []"
  shows "np_std (map Fin xs) = Fin (population_std xs)"
proof -
  have m: "map (\<lambda>x. fmul (fabs (fsub x (Fin (population_mean xs)))) (fabs (fsub x (Fin (population_mean xs))))) (map Fin xs)
     = map Fin (map (\<lambda>x. (x - population_mean xs)\<^sup>2) xs)"
    by (simp add: fsub_def power2_eq_square)
  have nn: "0 \<le> sum_list (map (\<lambda>x. (x - population_mean xs)\<^sup>2) xs) / real (length xs)"
    by (intro divide_nonneg_nonneg sum_list_nonneg) auto
  have ne: "map (\<lambda>x. (x - population_mean xs)\<^sup>2) xs \<noteq> []" using assms by simp
  show ?thesis
    unfolding np_std_def np_mean_Fin [OF assms] m np_mean_Fin [OF ne]
    using nn by (simp add: population_std_def population_mean_def)
qed

lemma std_zero_all_mean:
  assumes "population_std xs = 0" "x \<in> set xs"
  shows "x = population_mean xs"
proof -
  have n: "0 < real (length xs)" using assms(2) by (cases xs) auto
  have "sum_list (map (\<lambda>x. (x - population_mean xs)\<^sup>2) xs) / real (length xs) = 0"
    using assms(1) by (simp add: population_std_def)
  then have "sum_list (map (\<lambda>x. (x - population_mean xs)\<^sup>2) xs) = 0" using n by simp
  then have "\<forall>y \<in> set (map (\<lambda>x. (x - population_mean xs)\<^sup>2) xs). y = 0"
    by (subst (asm) sum_list_nonneg_eq_0_iff) auto
  then show ?thesis using assms(2) by auto
qed

lemma zscore_cell:
  assumes "x \<in> set xs"
  shows "fgt (fabs (fdiv (fsub (Fin x) (np_mean (map Fin xs))) (np_std (map Fin xs)))) (Fin t)
          = exceeds xs t x"
proof -
  have ne: "xs \<noteq> []" using assms by auto
  show ?thesis
  proof (cases "population_std xs = 0")
    case True
    then show ?thesis
      using std_zero_all_mean [OF True assms]
      by (simp add: np_mean_Fin [OF ne] np_std_Fin [OF ne] exceeds_def fsub_def fgt_def)
  next
    case False
    then show ?thesis
      by (simp add: np_mean_Fin [OF ne] np_std_Fin [OF ne] exceeds_def fsub_def fgt_def not_le)
  qed
qed

lemma fillna_floats: "fillna (Fin 0) (floats df col) = map Fin (zero_filled df col)"
  by (auto simp: fillna_def floats_def zero_filled_def float_of_def split: cell.splits)

lemma filter_zip_map:
  "map fst (filter (\<lambda>(r, z). P z) (zip rs (map f xs))) = map fst (filter (\<lambda>(r, x). P (f x)) (zip rs xs))"
  by (induction rs xs rule: list_induct2') auto

lemma identify_anomalies_rows:
  assumes "col \<in> set (columns df)" "numeric_column df col"
  shows "identify_anomalies df col t =
     Inr \<lparr>columns = columns df,
          rows = map fst (filter (\<lambda>(r, x). exceeds (zero_filled df col) t x)
                   (zip (rows df) (zero_filled df col)))\<rparr>"
proof -
  let ?xs = "zero_filled df col"
  have "filter (\<lambda>(r, z). fgt z (Fin t)) (zip (rows df) (map fabs (zscore (map Fin ?xs))))
      = filter (\<lambda>(r, z). fgt z (Fin t)) (zip (rows df) (map (\<lambda>x. fabs (fdiv (fsub (Fin x) (np_mean (map Fin ?xs))) (np_std (map Fin ?xs)))) ?xs))"
    by (simp add: zscore_def comp_def)
  have "map fst (filter (\<lambda>(r, z). fgt z (Fin t)) (zip (rows df) (map fabs (zscore (map Fin ?xs)))))
      = map fst (filter (\<lambda>(r, x). fgt (fabs (fdiv (fsub (Fin x) (np_mean (map Fin ?xs))) (np_std (map Fin ?xs)))) (Fin t)) (zip (rows df) ?xs))"
    unfolding zscore_def map_map comp_def
    by (rule filter_zip_map [of "\<lambda>z. fgt z (Fin t)" "rows df" "\<lambda>x. fabs (fdiv (fsub (Fin x) (np_mean (map Fin ?xs))) (np_std (map Fin ?xs)))" ?xs])
  also have "\<dots> = map fst (filter (\<lambda>(r, x). exceeds ?xs t x) (zip (rows df) ?xs))"
    by (intro arg_cong [of _ _ "map fst"] filter_cong refl) (auto simp: zscore_cell dest: set_zip_rightD)
  finally show ?thesis
    using assms by (simp add: identify_anomalies_def fillna_floats)
qed


lemma scenario_mean: "population_mean [1, 1, 1, 1, 100] = 104 / 5"
  by (simp add: population_mean_def)

lemma scenario_std: "population_std [1, 1, 1, 1, 100] = 198 / 5"
proof -
  have "sqrt (39204 / 25) = (198 / 5 :: real)"
    by (rule real_sqrt_unique) (simp_all add: power2_eq_square)
  then show ?thesis
    by (simp add: population_std_def scenario_mean power2_eq_square)
qed

lemma scenario_exceeds:
  "exceeds [1, 1, 1, 1, 100] t 100 = (t < 2)"
  "exceeds [1, 1, 1, 1, 100] t 1 = (t < 1 / 2)"
  by (simp_all add: exceeds_def scenario_mean scenario_std)

lemma length_zero_filled: "length (zero_filled df col) = length (rows df)"
  by (simp add: zero_filled_def column_def)

lemma anomalies_scenario:
  assumes "col \<in> set (columns df)" "numeric_column df col"
    and "zero_filled df col = [1, 1, 1, 1, 100]"
  shows "identify_anomalies df col t =
     Inr \<lparr>columns = columns df,
          rows = (if t < 1 / 2 then rows df else if t < 2 then [rows df ! 4] else [])\<rparr>"
proof -
  have "length (rows df) = 5" using length_zero_filled [of df col] assms(3) by simp
  then obtain r0 r1 r2 r3 r4 where r: "rows df = [r0, r1, r2, r3, r4]"
    by (auto simp: length_Suc_conv eval_nat_numeral)
  show ?thesis
    unfolding identify_anomalies_rows [OF assms(1,2)] assms(3) r
    by (simp add: scenario_exceeds)
qed

text \<open>
  C6 (as amended). On a present numeric column, \<open>identify_anomalies\<close> returns exactly
  the rows whose absolute standard score exceeds the threshold, the score being taken
  with the population mean and standard deviation of the column after nulls are
  replaced by 0 (no row when that deviation is 0); a missing column raises \<open>KeyError\<close>.
  On the values \<open>[1, 1, 1, 1, 100]\<close> the scores are \<open>0.5, 0.5, 0.5, 0.5, 2\<close>: with the
  threshold 2.5 no row is returned, and the row with value 100 is the only one returned
  exactly when the threshold is at least 0.5 and below 2.
\<close>

theorem identify_anomalies_zscore:
  "(col \<notin> set (columns df) \<longrightarrow> identify_anomalies df col t = Inl KeyError) \<and>
   (col \<in> set (columns df) \<and> numeric_column df col \<longrightarrow>
      identify_anomalies df col t =
        Inr \<lparr>columns = columns df,
             rows = map fst (filter (\<lambda>(r, x). exceeds (zero_filled df col) t x)
                      (zip (rows df) (zero_filled df col)))\<rparr>) \<and>
   (col \<in> set (columns df) \<and> numeric_column df col \<and>
    zero_filled df col = [1, 1, 1, 1, 100] \<longrightarrow>
      identify_anomalies df col (5 / 2) = Inr \<lparr>columns = columns df, rows = []\<rparr> \<and>
      (1 / 2 \<le> t \<and> t < 2 \<longrightarrow>
         identify_anomalies df col t = Inr \<lparr>columns = columns df, rows = [rows df ! 4]\<rparr>))"
proof (intro conjI impI)
  assume "col \<notin> set (columns df)"
  then show "identify_anomalies df col t = Inl KeyError"
    by (simp add: identify_anomalies_def)
next
  assume "col \<in> set (columns df) \<and> numeric_column df col"
  then show "identify_anomalies df col t =
        Inr \<lparr>columns = columns df,
             rows = map fst (filter (\<lambda>(r, x). exceeds (zero_filled df col) t x)
                      (zip (rows df) (zero_filled df col)))\<rparr>"
    using identify_anomalies_rows by blast
next
  assume "col \<in> set (columns df) \<and> numeric_column df col \<and>
    zero_filled df col = [1, 1, 1, 1, 100]"
  then show "identify_anomalies df col (5 / 2) = Inr \<lparr>columns = columns df, rows = []\<rparr>"
    using anomalies_scenario [of col df "5 / 2"] by simp
next
  assume "col \<in> set (columns df) \<and> numeric_column df col \<and>
    zero_filled df col = [1, 1, 1, 1, 100]"
    and "1 / 2 \<le> t \<and> t < 2"
  then show "identify_anomalies df col t = Inr \<lparr>columns = columns df, rows = [rows df ! 4]\<rparr>"
    using anomalies_scenario [of col df t] by simp
qed

theorem identify_anomalies_zscore_witness:
  "identify_anomalies
     \<lparr>columns = [''v''], rows = [[Num 1], [Num 1], [Num 1], [Num 1], [Num 100]]\<rparr> ''v'' (5 / 2)
     = Inr \<lparr>columns = [''v''], rows = []\<rparr> \<and>
   identify_anomalies
     \<lparr>columns = [''v''], rows = [[Num 1], [Num 1], [Num 1], [Num 1], [Num 100]]\<rparr> ''v'' (3 / 2)
     = Inr \<lparr>columns = [''v''], rows = [[Num 100]]\<rparr>"
proof -
  let ?df = "\<lparr>columns = [''v''], rows = [[Num 1], [Num 1], [Num 1], [Num 1], [Num 100]]\<rparr>"
  have c: "''v'' \<in> set (columns ?df)" by simp
  have n: "numeric_column ?df ''v''"
    by (simp add: numeric_column_def column_def field_def cell_at_def is_numeric_def)
  have z: "zero_filled ?df ''v'' = [1, 1, 1, 1, 100]"
    by (simp add: zero_filled_def column_def field_def cell_at_def)
  have t: "(1 / 2 :: real) \<le> 3 / 2 \<and> (3 / 2 :: real) < 2" by simp
  have a: "identify_anomalies ?df ''v'' (5 / 2) = Inr \<lparr>columns = columns ?df, rows = []\<rparr>"
    using identify_anomalies_zscore [of "''v''" ?df "5 / 2"] c n z by blast
  have b: "identify_anomalies ?df ''v'' (3 / 2) =
      Inr \<lparr>columns = columns ?df, rows = [rows ?df ! 4]\<rparr>"
    using identify_anomalies_zscore [of "''v''" ?df "3 / 2"] c n z t by blast
  show ?thesis
    unfolding a b by simp
qed

text \<open>
  C6 as stated fails in its scenario: on \<open>[1, 1, 1, 1, 100]\<close> with threshold 2.5 the
  result has no row, so the row with value 100 is not flagged (its score is exactly 2).
\<close>

theorem identify_anomalies_scenario_counterexample:
  "identify_anomalies
     \<lparr>columns = [''v''], rows = [[Num 1], [Num 1], [Num 1], [Num 1], [Num 100]]\<rparr> ''v'' (5 / 2)
     = Inr \<lparr>columns = [''v''], rows = []\<rparr> \<and>
   identify_anomalies
     \<lparr>columns = [''v''], rows = [[Num 1], [Num 1], [Num 1], [Num 1], [Num 100]]\<rparr> ''v'' (5 / 2)
     \<noteq> Inr \<lparr>columns = [''v''], rows = [[Num 100]]\<rparr>"
proof -
  let ?df = "\<lparr>columns = [''v''], rows = [[Num 1], [Num 1], [Num 1], [Num 1], [Num 100]]\<rparr>"
  have c: "''v'' \<in> set (columns ?df)" by simp
  have n: "numeric_column ?df ''v''"
    by (simp add: numeric_column_def column_def field_def cell_at_def is_numeric_def)
  have z: "zero_filled ?df ''v'' = [1, 1, 1, 1, 100]"
    by (simp add: zero_filled_def column_def field_def cell_at_def)
  show ?thesis
    using anomalies_scenario [OF c n z, of "5 / 2"] by simp
qed

section \<open>Claims about the adapters\<close>

text \<open>
  C9 (as amended). When the external model fails, neither adapter raises, and the
  detector and clusterer objects are left as they were. \<open>detect_isolation_forest\<close>
  returns the all-normal label vector: a 1 for every row of the input.
  \<open>cluster_regions\<close> returns the frame it was given, unchanged: no \<open>Cluster\<close> column
  is added, so no row is assigned to cluster 0 or to any other cluster. The same holds
  when a requested feature is not a column of the frame.
\<close>

theorem adapters_degrade:
  "(isolation_forest_fails sk X contamination \<longrightarrow>
      detect_isolation_forest sk det X contamination = (replicate (length (rows X)) 1, det)) \<and>
   (select_columns df features = Raises \<longrightarrow> cluster_regions sk clu df features = (df, clu)) \<and>
   (select_columns df features = Returns sel \<and> kmeans_fails sk (n_clusters clu) sel \<longrightarrow>
      cluster_regions sk clu df features = (df, clu))"
  by (auto simp: isolation_forest_fails_def kmeans_fails_def detect_isolation_forest_def
      cluster_regions_def split: outcome.splits prod.splits)

theorem adapters_degrade_witness:
  "isolation_forest_fails failing_sklearn \<lparr>columns = [''x''], rows = [[Num 1], [Num 2]]\<rparr> (1 / 20) \<and>
   detect_isolation_forest failing_sklearn \<lparr>isolation_forest = None, lof = None, scaler = None\<rparr>
     \<lparr>columns = [''x''], rows = [[Num 1], [Num 2]]\<rparr> (1 / 20)
     = ([1, 1], \<lparr>isolation_forest = None, lof = None, scaler = None\<rparr>) \<and>
   select_columns \<lparr>columns = [''x''], rows = [[Num 1], [Num 2]]\<rparr> [''x'']
     = Returns \<lparr>columns = [''x''], rows = [[Num 1], [Num 2]]\<rparr> \<and>
   kmeans_fails failing_sklearn 5 \<lparr>columns = [''x''], rows = [[Num 1], [Num 2]]\<rparr> \<and>
   cluster_regions failing_sklearn \<lparr>n_clusters = 5, kmeans_model = None, cluster_scaler = None\<rparr>
     \<lparr>columns = [''x''], rows = [[Num 1], [Num 2]]\<rparr> [''x'']
     = (\<lparr>columns = [''x''], rows = [[Num 1], [Num 2]]\<rparr>,
        \<lparr>n_clusters = 5, kmeans_model = None, cluster_scaler = None\<rparr>)"
proof -
  let ?df = "\<lparr>columns = [''x''], rows = [[Num 1], [Num 2]]\<rparr>"
  let ?det = "\<lparr>isolation_forest = None, lof = None, scaler = None\<rparr> :: (unit, unit) anomaly_detector"
  let ?clu = "\<lparr>n_clusters = 5, kmeans_model = None, cluster_scaler = None\<rparr> :: (unit, unit) population_clusterer"
  have f: "isolation_forest_fails failing_sklearn ?df (1 / 20)"
    by (simp add: isolation_forest_fails_def failing_sklearn_def)
  have s: "select_columns ?df [''x''] = Returns ?df"
    by (simp add: select_columns_def field_def cell_at_def)
  have k: "kmeans_fails failing_sklearn (n_clusters ?clu) ?df"
    by (simp add: kmeans_fails_def failing_sklearn_def)
  have a: "detect_isolation_forest failing_sklearn ?det ?df (1 / 20)
      = (replicate (length (rows ?df)) 1, ?det)"
    using adapters_degrade [of failing_sklearn ?df "1 / 20" ?det] f by blast
  have b: "cluster_regions failing_sklearn ?clu ?df [''x''] = (?df, ?clu)"
    using adapters_degrade [of failing_sklearn _ _ _ ?df "[''x'']" ?clu ?df] s k by blast
  show ?thesis using f s k a b by (simp add: numeral_2_eq_2)
qed

text \<open>
  C9 as stated fails for clustering: when K-means fails the result is the input frame,
  which has no \<open>Cluster\<close> column, and not the input with every row assigned to cluster 0.
\<close>

theorem cluster_regions_default_counterexample:
  "kmeans_fails failing_sklearn 5 \<lparr>columns = [''x''], rows = [[Num 1], [Num 2]]\<rparr> \<and>
   fst (cluster_regions failing_sklearn
          \<lparr>n_clusters = 5, kmeans_model = None, cluster_scaler = None\<rparr>
          \<lparr>columns = [''x''], rows = [[Num 1], [Num 2]]\<rparr> [''x''])
     = \<lparr>columns = [''x''], rows = [[Num 1], [Num 2]]\<rparr> \<and>
   fst (cluster_regions failing_sklearn
          \<lparr>n_clusters = 5, kmeans_model = None, cluster_scaler = None\<rparr>
          \<lparr>columns = [''x''], rows = [[Num 1], [Num 2]]\<rparr> [''x''])
     \<noteq> \<lparr>columns = [''x'', ''Cluster''], rows = [[Num 1, Num 0], [Num 2, Num 0]]\<rparr> \<and>
   ''Cluster'' \<notin> set (columns (fst (cluster_regions failing_sklearn
          \<lparr>n_clusters = 5, kmeans_model = None, cluster_scaler = None\<rparr>
          \<lparr>columns = [''x''], rows = [[Num 1], [Num 2]]\<rparr> [''x''])))"
  by (simp add: kmeans_fails_def failing_sklearn_def cluster_regions_def select_columns_def
      field_def cell_at_def fillna_frame_def)

section \<open>Claims about aggregation\<close>

lemma set_pair_keys: "set (pair_keys ks) = {k \<in> set ks. fst k \<noteq> Null \<and> snd k \<noteq> Null}"
  by (auto simp: pair_keys_def)

lemma distinct_pair_keys: "distinct (pair_keys ks)"
  by (simp add: pair_keys_def)

lemma collect_map_Inr:
  "\<forall>k \<in> set ks. \<exists>v. f k = Inr v \<Longrightarrow> collect (map f ks) = Inr (map (\<lambda>k. projr (f k)) ks)"
  by (induction ks) auto

lemma map2_keys_totals: "map2 h ks (map g ks) = map (\<lambda>k. h k (g k)) ks"
  by (induction ks) simp_all

lemma sum_abs_nonneg: "0 \<le> sum_list (map abs (xs :: real list))"
  by (induction xs) simp_all

lemma sum64_finite:
  "\<bar>a\<bar> + sum_list (map abs xs) < f64_threshold \<Longrightarrow>
     foldl add64 (Fin a) (map Fin xs) = Fin (a + sum_list xs)"
proof (induction xs arbitrary: a)
  case Nil
  then show ?case by simp
next
  case (Cons x xs)
  have nonneg: "0 \<le> sum_list (map abs xs)" by (rule sum_abs_nonneg)
  have "\<bar>a + x\<bar> \<le> \<bar>a\<bar> + \<bar>x\<bar>" by (rule abs_triangle_ineq)
  then have small: "\<bar>a + x\<bar> + sum_list (map abs xs) < f64_threshold"
    using Cons.prems by simp
  then have "\<bar>a + x\<bar> < f64_threshold" using nonneg by linarith
  then have step: "add64 (Fin a) (Fin x) = Fin (a + x)"
    by (simp add: add64_def overflow_def f64_in_range)
  show ?case using Cons.IH [OF small] by (simp add: step add.assoc)
qed

lemma abs_le_sum_list: "r \<in> set xs \<Longrightarrow> \<bar>r\<bar> \<le> sum_list (map abs (xs :: real list))"
proof (induction xs)
  case Nil
  then show ?case by simp
next
  case (Cons x xs)
  have "0 \<le> sum_list (map abs xs)" by (rule sum_abs_nonneg)
  then show ?case using Cons by auto
qed

lemma numbers_Cons:
  "numbers (c # cs) = (case c of Num r \<Rightarrow> [r] | _ \<Rightarrow> []) @ numbers cs"
  by (simp add: numbers_def)

lemma dropna_Cons: "dropna (x # xs) = (if x = NaN then dropna xs else x # dropna xs)"
  by (simp add: dropna_def)

lemma dropna_float64_of:
  assumes "\<forall>r \<in> set (numbers cs). \<bar>r\<bar> < f64_threshold"
  shows "dropna (map float64_of cs) = map Fin (numbers cs)"
  using assms
proof (induction cs)
  case Nil
  then show ?case by (simp add: dropna_def numbers_def)
next
  case (Cons c cs)
  then have ih: "dropna (map float64_of cs) = map Fin (numbers cs)"
    by (simp add: numbers_Cons)
  show ?case
  proof (cases c)
    case Null
    then have "float64_of c = NaN" by (simp add: float64_of_def)
    then show ?thesis using ih Null by (simp add: dropna_Cons numbers_Cons)
  next
    case (Str s)
    then have "float64_of c = NaN" by (simp add: float64_of_def)
    then show ?thesis using ih Str by (simp add: dropna_Cons numbers_Cons)
  next
    case (Num r)
    then have "\<bar>r\<bar> < f64_threshold" using Cons.prems by (simp add: numbers_Cons)
    then have "float64_of c = Fin r" by (simp add: Num float64_of_def f64_in_range)
    then show ?thesis using ih Num by (simp add: dropna_Cons numbers_Cons)
  next
    case (Date d)
    then have "float64_of c = NaN" by (simp add: float64_of_def)
    then show ?thesis using ih Date by (simp add: dropna_Cons numbers_Cons)
  qed
qed

lemma float_sum_exact:
  assumes "sum_list (map abs (numbers cs)) < f64_threshold"
  shows "cell64 (sum64 (map float64_of cs)) = Num (sum_list (numbers cs))"
proof -
  have "\<forall>r \<in> set (numbers cs). \<bar>r\<bar> < f64_threshold"
    using abs_le_sum_list [of _ "numbers cs"] assms by fastforce
  then have d: "dropna (map float64_of cs) = map Fin (numbers cs)"
    by (rule dropna_float64_of)
  have "foldl add64 (Fin 0) (map Fin (numbers cs)) = Fin (0 + sum_list (numbers cs))"
    by (rule sum64_finite) (use assms in simp)
  then show ?thesis by (simp add: sum64_def d cell64_def)
qed

lemma object_fold_texts: "object_fold (Str a) (map Str ss) = Inr (Str (a @ concat ss))"
  by (induction ss arbitrary: a) simp_all

lemma texts_are_Str: "list_all is_text cs \<Longrightarrow> cs = map Str (map text_of cs)"
proof (induction cs)
  case Nil
  then show ?case by simp
next
  case (Cons c cs)
  then show ?case by (cases c) (simp_all add: is_text_def text_of_def)
qed

lemma object_sum_texts:
  assumes "list_all is_text cs" "cs \<noteq> []"
  shows "object_sum cs = Inr (Str (concat (map text_of cs)))"
proof -
  obtain s ss where ss: "map text_of cs = s # ss" using assms(2) by (cases cs) auto
  have "cs = map Str (s # ss)" using texts_are_Str [OF assms(1)] ss by simp
  then have cs: "cs = Str s # map Str ss" by simp
  have "filter (\<lambda>c. c \<noteq> Null) (map Str ss) = map Str ss"
    by (induction ss) simp_all
  then have "object_sum cs = object_fold (Str s) (map Str ss)"
    by (subst cs) (simp add: object_sum_def)
  then show ?thesis by (simp add: object_fold_texts ss)
qed

lemma group_not_empty:
  assumes "k \<in> set (pair_keys (map (\<lambda>r. (field df ''State'' r, field df ''District'' r)) (rows df)))"
  shows "group_rows df k \<noteq> []"
proof -
  from assms obtain r where "r \<in> set (rows df)"
      "(field df ''State'' r, field df ''District'' r) = k"
    by (auto simp: set_pair_keys)
  then show ?thesis by (auto simp: group_rows_def filter_empty_conv)
qed

lemma group_texts:
  assumes "list_all is_text (column df value_col)"
  shows "list_all is_text (map (field df value_col) (group_rows df k))"
  using assms by (auto simp: list_all_iff column_def group_rows_def)

lemma sum_cells_returns:
  assumes "dt = Int64 \<or> dt = Float64 \<or> (dt = Object \<and> list_all is_text cs \<and> cs \<noteq> [])"
  shows "\<exists>v. sum_cells dt cs = Inr v"
  using assms object_sum_texts [of cs] by (auto simp: sum_cells_def)

lemma aggregate_run:
  assumes "''State'' \<in> set (columns df)" "''District'' \<in> set (columns df)"
    "value_col \<in> set (columns df)" "value_col \<noteq> ''State''" "value_col \<noteq> ''District''"
    "dtypes value_col = Int64 \<or> dtypes value_col = Float64 \<or>
     (dtypes value_col = Object \<and> list_all is_text (column df value_col))"
  shows "aggregate_by_state_district dtypes df value_col =
     Inr \<lparr>columns = [''State'', ''District'', value_col],
          rows = map (\<lambda>k. [fst k, snd k,
                    projr (sum_cells (dtypes value_col)
                             (map (field df value_col) (group_rows df k)))])
                   (pair_keys (map (\<lambda>r. (field df ''State'' r, field df ''District'' r))
                                 (rows df)))\<rparr>"
proof -
  let ?ks = "pair_keys (map (\<lambda>r. (field df ''State'' r, field df ''District'' r)) (rows df))"
  let ?f = "\<lambda>k. sum_cells (dtypes value_col) (map (field df value_col) (group_rows df k))"
  have "\<forall>k \<in> set ?ks. \<exists>v. ?f k = Inr v"
  proof
    fix k assume "k \<in> set ?ks"
    then have "map (field df value_col) (group_rows df k) \<noteq> []"
      using group_not_empty [of k df] by simp
    then show "\<exists>v. ?f k = Inr v"
      using assms(6) group_texts [of df value_col k] by (intro sum_cells_returns) blast
  qed
  then have c: "collect (map ?f ?ks) = Inr (map (\<lambda>k. projr (?f k)) ?ks)"
    by (rule collect_map_Inr)
  have nd: "dtypes value_col \<noteq> Datetime64" using assms(6) by auto
  show ?thesis
    using assms(1-5) nd
    by (simp add: aggregate_by_state_district_def Let_def c map2_keys_totals del: collect.simps)
qed

lemma aggregate_present:
  assumes "''State'' \<in> set (columns df)" "''District'' \<in> set (columns df)"
    "value_col \<in> set (columns df)" "value_col \<noteq> ''State''" "value_col \<noteq> ''District''"
    "dtypes value_col = Int64 \<or> dtypes value_col = Float64 \<or>
     (dtypes value_col = Object \<and> list_all is_text (column df value_col))"
  shows "\<exists>out. aggregate_by_state_district dtypes df value_col = Inr out \<and>
     columns out = [''State'', ''District'', value_col] \<and>
     distinct (map (\<lambda>r. (r ! 0, r ! 1)) (rows out)) \<and>
     set (map (\<lambda>r. (r ! 0, r ! 1)) (rows out)) =
       {k \<in> set (map (\<lambda>r. (field df ''State'' r, field df ''District'' r)) (rows df)).
          fst k \<noteq> Null \<and> snd k \<noteq> Null} \<and>
     (\<forall>r \<in> set (rows out).
        group_rows df (r ! 0, r ! 1) \<noteq> [] \<and>
        sum_cells (dtypes value_col) (map (field df value_col) (group_rows df (r ! 0, r ! 1)))
          = Inr (r ! 2) \<and>
        r = [r ! 0, r ! 1, r ! 2])"
proof -
  let ?ks = "pair_keys (map (\<lambda>r. (field df ''State'' r, field df ''District'' r)) (rows df))"
  let ?f = "\<lambda>k. sum_cells (dtypes value_col) (map (field df value_col) (group_rows df k))"
  let ?out = "\<lparr>columns = [''State'', ''District'', value_col],
                rows = map (\<lambda>k. [fst k, snd k, projr (?f k)]) ?ks\<rparr>"
  have run: "aggregate_by_state_district dtypes df value_col = Inr ?out"
    using aggregate_run [where df = df and value_col = value_col and dtypes = dtypes] assms
    by blast
  have keys: "map (\<lambda>r. (r ! 0, r ! 1)) (rows ?out) = ?ks"
    by (simp add: comp_def)
  have rows: "\<forall>r \<in> set (rows ?out).
        group_rows df (r ! 0, r ! 1) \<noteq> [] \<and> ?f (r ! 0, r ! 1) = Inr (r ! 2) \<and>
        r = [r ! 0, r ! 1, r ! 2]"
  proof
    fix r assume "r \<in> set (rows ?out)"
    then obtain k where k: "k \<in> set ?ks" "r = [fst k, snd k, projr (?f k)]" by auto
    have ne: "group_rows df k \<noteq> []" by (rule group_not_empty [OF k(1)])
    then have "map (field df value_col) (group_rows df k) \<noteq> []" by simp
    then have "\<exists>v. ?f k = Inr v"
      using assms(6) group_texts [of df value_col k] by (intro sum_cells_returns) blast
    then have "?f k = Inr (projr (?f k))" by auto
    then show "group_rows df (r ! 0, r ! 1) \<noteq> [] \<and> ?f (r ! 0, r ! 1) = Inr (r ! 2) \<and>
        r = [r ! 0, r ! 1, r ! 2]"
      using ne by (simp add: k(2))
  qed
  show ?thesis
    unfolding run
    apply (intro exI [of _ ?out] conjI)
        apply simp
       apply simp
      apply (simp only: keys distinct_pair_keys)
     apply (simp only: keys set_pair_keys)
    apply (rule rows)
    done
qed

lemma sum_cells_values:
  "sum_cells Int64 cs = Inr (Num (real_of_int (wrap64 (sum_list (map int_of cs)))))"
  "- (2 ^ 63) \<le> sum_list (map int_of cs) \<Longrightarrow> sum_list (map int_of cs) < 2 ^ 63 \<Longrightarrow>
     sum_cells Int64 cs = Inr (Num (real_of_int (sum_list (map int_of cs))))"
  "sum_cells Float64 cs = Inr (cell64 (sum64 (map float64_of cs)))"
  "sum_list (map abs (numbers cs)) < f64_threshold \<Longrightarrow>
     sum_cells Float64 cs = Inr (Num (sum_list (numbers cs)))"
  "list_all is_text cs \<Longrightarrow> cs \<noteq> [] \<Longrightarrow>
     sum_cells Object cs = Inr (Str (concat (map text_of cs)))"
  "sum_cells Datetime64 cs = Inl TypeError"
  by (simp_all add: sum_cells_def sum_int64_def wrap64_id float_sum_exact object_sum_texts)

text \<open>
  C8 (as amended). If the \<open>State\<close> or the \<open>District\<close> column is absent,
  \<open>aggregate_by_state_district\<close> returns its input unchanged and raises nothing. When
  both are present it raises \<open>KeyError\<close> if \<open>value_col\<close> is not a column and
  \<open>TypeError\<close> if \<open>value_col\<close> is a column of timestamps. When both are present and
  \<open>value_col\<close> is a column other than the two keys, of dtype \<open>int64\<close> or \<open>float64\<close>
  or holding only texts, it returns the columns \<open>State\<close>, \<open>District\<close>, \<open>value_col\<close>
  with one row per distinct pair of non-null \<open>State\<close> and \<open>District\<close> values of the
  input, holding the sum of \<open>value_col\<close> over the rows of that pair: on \<open>int64\<close> the
  sum modulo \<open>2^64\<close>, which is the sum when that lies in \<open>[-2^63, 2^63)\<close>; on
  \<open>float64\<close> the float sum with nulls skipped, which is the sum of the numbers when
  their magnitudes add up to less than the overflow bound; on texts their concatenation.
\<close>

theorem aggregate_passthrough_or_sum:
  "(''State'' \<notin> set (columns df) \<or> ''District'' \<notin> set (columns df)
      \<longrightarrow> aggregate_by_state_district dtypes df value_col = Inr df) \<and>
   (''State'' \<in> set (columns df) \<and> ''District'' \<in> set (columns df) \<and>
    value_col \<notin> set (columns df)
      \<longrightarrow> aggregate_by_state_district dtypes df value_col = Inl KeyError) \<and>
   (''State'' \<in> set (columns df) \<and> ''District'' \<in> set (columns df) \<and>
    value_col \<in> set (columns df) \<and> dtypes value_col = Datetime64
      \<longrightarrow> aggregate_by_state_district dtypes df value_col = Inl TypeError) \<and>
   (''State'' \<in> set (columns df) \<and> ''District'' \<in> set (columns df) \<and>
    value_col \<in> set (columns df) \<and> value_col \<noteq> ''State'' \<and> value_col \<noteq> ''District'' \<and>
    ((dtypes value_col = Int64 \<and> int64_column df value_col) \<or> dtypes value_col = Float64 \<or>
     (dtypes value_col = Object \<and> list_all is_text (column df value_col)))
      \<longrightarrow> (\<exists>out. aggregate_by_state_district dtypes df value_col = Inr out \<and>
             columns out = [''State'', ''District'', value_col] \<and>
             distinct (map (\<lambda>r. (r ! 0, r ! 1)) (rows out)) \<and>
             set (map (\<lambda>r. (r ! 0, r ! 1)) (rows out)) =
               {k \<in> set (map (\<lambda>r. (field df ''State'' r, field df ''District'' r)) (rows df)).
                  fst k \<noteq> Null \<and> snd k \<noteq> Null} \<and>
             (\<forall>r \<in> set (rows out).
                r = [r ! 0, r ! 1, r ! 2] \<and>
                (dtypes value_col = Int64 \<longrightarrow>
                   r ! 2 = Num (real_of_int (wrap64 (sum_list (map int_of
                              (map (field df value_col) (group_rows df (r ! 0, r ! 1))))))) \<and>
                   (- (2 ^ 63) \<le> sum_list (map int_of
                              (map (field df value_col) (group_rows df (r ! 0, r ! 1)))) \<and>
                    sum_list (map int_of
                              (map (field df value_col) (group_rows df (r ! 0, r ! 1)))) < 2 ^ 63
                      \<longrightarrow> r ! 2 = Num (real_of_int (sum_list (map int_of
                              (map (field df value_col) (group_rows df (r ! 0, r ! 1)))))))) \<and>
                (dtypes value_col = Float64 \<longrightarrow>
                   r ! 2 = cell64 (sum64 (map float64_of
                              (map (field df value_col) (group_rows df (r ! 0, r ! 1))))) \<and>
                   (sum_list (map abs (numbers
                              (map (field df value_col) (group_rows df (r ! 0, r ! 1)))))
                      < f64_threshold
                      \<longrightarrow> r ! 2 = Num (sum_list (numbers
                              (map (field df value_col) (group_rows df (r ! 0, r ! 1))))))) \<and>
                (dtypes value_col = Object \<longrightarrow>
                   r ! 2 = Str (concat (map text_of
                              (map (field df value_col) (group_rows df (r ! 0, r ! 1)))))))))"
proof (intro conjI impI)
  assume "''State'' \<notin> set (columns df) \<or> ''District'' \<notin> set (columns df)"
  then show "aggregate_by_state_district dtypes df value_col = Inr df"
    by (auto simp: aggregate_by_state_district_def)
next
  assume "''State'' \<in> set (columns df) \<and> ''District'' \<in> set (columns df) \<and>
    value_col \<notin> set (columns df)"
  then show "aggregate_by_state_district dtypes df value_col = Inl KeyError"
    by (simp add: aggregate_by_state_district_def)
next
  assume "''State'' \<in> set (columns df) \<and> ''District'' \<in> set (columns df) \<and>
    value_col \<in> set (columns df) \<and> dtypes value_col = Datetime64"
  then show "aggregate_by_state_district dtypes df value_col = Inl TypeError"
    by (simp add: aggregate_by_state_district_def)
next
  assume h: "''State'' \<in> set (columns df) \<and> ''District'' \<in> set (columns df) \<and>
    value_col \<in> set (columns df) \<and> value_col \<noteq> ''State'' \<and> value_col \<noteq> ''District'' \<and>
    ((dtypes value_col = Int64 \<and> int64_column df value_col) \<or> dtypes value_col = Float64 \<or>
     (dtypes value_col = Object \<and> list_all is_text (column df value_col)))"
  then have dt: "dtypes value_col = Int64 \<or> dtypes value_col = Float64 \<or>
     (dtypes value_col = Object \<and> list_all is_text (column df value_col))"
    by blast
  from aggregate_present [of df value_col dtypes] h dt
  obtain out where out: "aggregate_by_state_district dtypes df value_col = Inr out"
      "columns out = [''State'', ''District'', value_col]"
      "distinct (map (\<lambda>r. (r ! 0, r ! 1)) (rows out))"
      "set (map (\<lambda>r. (r ! 0, r ! 1)) (rows out)) =
         {k \<in> set (map (\<lambda>r. (field df ''State'' r, field df ''District'' r)) (rows df)).
            fst k \<noteq> Null \<and> snd k \<noteq> Null}"
      and rows: "\<forall>r \<in> set (rows out).
        group_rows df (r ! 0, r ! 1) \<noteq> [] \<and>
        sum_cells (dtypes value_col) (map (field df value_col) (group_rows df (r ! 0, r ! 1)))
          = Inr (r ! 2) \<and>
        r = [r ! 0, r ! 1, r ! 2]"
    by blast
  have "\<forall>r \<in> set (rows out).
                r = [r ! 0, r ! 1, r ! 2] \<and>
                (dtypes value_col = Int64 \<longrightarrow>
                   r ! 2 = Num (real_of_int (wrap64 (sum_list (map int_of
                              (map (field df value_col) (group_rows df (r ! 0, r ! 1))))))) \<and>
                   (- (2 ^ 63) \<le> sum_list (map int_of
                              (map (field df value_col) (group_rows df (r ! 0, r ! 1)))) \<and>
                    sum_list (map int_of
                              (map (field df value_col) (group_rows df (r ! 0, r ! 1)))) < 2 ^ 63
                      \<longrightarrow> r ! 2 = Num (real_of_int (sum_list (map int_of
                              (map (field df value_col) (group_rows df (r ! 0, r ! 1)))))))) \<and>
                (dtypes value_col = Float64 \<longrightarrow>
                   r ! 2 = cell64 (sum64 (map float64_of
                              (map (field df value_col) (group_rows df (r ! 0, r ! 1))))) \<and>
                   (sum_list (map abs (numbers
                              (map (field df value_col) (group_rows df (r ! 0, r ! 1)))))
                      < f64_threshold
                      \<longrightarrow> r ! 2 = Num (sum_list (numbers
                              (map (field df value_col) (group_rows df (r ! 0, r ! 1))))))) \<and>
                (dtypes value_col = Object \<longrightarrow>
                   r ! 2 = Str (concat (map text_of
                              (map (field df value_col) (group_rows df (r ! 0, r ! 1))))))"
  proof
    fix r assume r: "r \<in> set (rows out)"
    let ?grp = "map (field df value_col) (group_rows df (r ! 0, r ! 1))"
    have ne: "?grp \<noteq> []" using rows r by simp
    have s: "sum_cells (dtypes value_col) ?grp = Inr (r ! 2)" using rows r by blast
    have shape: "r = [r ! 0, r ! 1, r ! 2]" using rows r by blast
    have i1: "dtypes value_col = Int64 \<Longrightarrow>
        r ! 2 = Num (real_of_int (wrap64 (sum_list (map int_of ?grp))))"
      using s sum_cells_values(1) [of ?grp] by simp
    have i2: "dtypes value_col = Int64 \<Longrightarrow> - (2 ^ 63) \<le> sum_list (map int_of ?grp) \<Longrightarrow>
        sum_list (map int_of ?grp) < 2 ^ 63 \<Longrightarrow>
        r ! 2 = Num (real_of_int (sum_list (map int_of ?grp)))"
      using s sum_cells_values(2) [of ?grp] by simp
    have f1: "dtypes value_col = Float64 \<Longrightarrow>
        r ! 2 = cell64 (sum64 (map float64_of ?grp))"
      using s sum_cells_values(3) [of ?grp] by simp
    have f2: "dtypes value_col = Float64 \<Longrightarrow>
        sum_list (map abs (numbers ?grp)) < f64_threshold \<Longrightarrow>
        r ! 2 = Num (sum_list (numbers ?grp))"
      using s sum_cells_values(4) [of ?grp] by simp
    have o: "dtypes value_col = Object \<Longrightarrow> r ! 2 = Str (concat (map text_of ?grp))"
    proof -
      assume ob: "dtypes value_col = Object"
      then have "list_all is_text (column df value_col)" using h by auto
      then have "list_all is_text ?grp" by (rule group_texts)
      then show ?thesis using s ob ne sum_cells_values(5) [of ?grp] by simp
    qed
    show "r = [r ! 0, r ! 1, r ! 2] \<and>
                (dtypes value_col = Int64 \<longrightarrow>
                   r ! 2 = Num (real_of_int (wrap64 (sum_list (map int_of ?grp)))) \<and>
                   (- (2 ^ 63) \<le> sum_list (map int_of ?grp) \<and>
                    sum_list (map int_of ?grp) < 2 ^ 63
                      \<longrightarrow> r ! 2 = Num (real_of_int (sum_list (map int_of ?grp))))) \<and>
                (dtypes value_col = Float64 \<longrightarrow>
                   r ! 2 = cell64 (sum64 (map float64_of ?grp)) \<and>
                   (sum_list (map abs (numbers ?grp)) < f64_threshold
                      \<longrightarrow> r ! 2 = Num (sum_list (numbers ?grp)))) \<and>
                (dtypes value_col = Object \<longrightarrow>
                   r ! 2 = Str (concat (map text_of ?grp)))"
      using shape i1 i2 f1 f2 o by blast
  qed
  then show "\<exists>out. aggregate_by_state_district dtypes df value_col = Inr out \<and>
             columns out = [''State'', ''District'', value_col] \<and>
             distinct (map (\<lambda>r. (r ! 0, r ! 1)) (rows out)) \<and>
             set (map (\<lambda>r. (r ! 0, r ! 1)) (rows out)) =
               {k \<in> set (map (\<lambda>r. (field df ''State'' r, field df ''District'' r)) (rows df)).
                  fst k \<noteq> Null \<and> snd k \<noteq> Null} \<and>
             (\<forall>r \<in> set (rows out).
                r = [r ! 0, r ! 1, r ! 2] \<and>
                (dtypes value_col = Int64 \<longrightarrow>
                   r ! 2 = Num (real_of_int (wrap64 (sum_list (map int_of
                              (map (field df value_col) (group_rows df (r ! 0, r ! 1))))))) \<and>
                   (- (2 ^ 63) \<le> sum_list (map int_of
                              (map (field df value_col) (group_rows df (r ! 0, r ! 1)))) \<and>
                    sum_list (map int_of
                              (map (field df value_col) (group_rows df (r ! 0, r ! 1)))) < 2 ^ 63
                      \<longrightarrow> r ! 2 = Num (real_of_int (sum_list (map int_of
                              (map (field df value_col) (group_rows df (r ! 0, r ! 1)))))))) \<and>
                (dtypes value_col = Float64 \<longrightarrow>
                   r ! 2 = cell64 (sum64 (map float64_of
                              (map (field df value_col) (group_rows df (r ! 0, r ! 1))))) \<and>
                   (sum_list (map abs (numbers
                              (map (field df value_col) (group_rows df (r ! 0, r ! 1)))))
                      < f64_threshold
                      \<longrightarrow> r ! 2 = Num (sum_list (numbers
                              (map (field df value_col) (group_rows df (r ! 0, r ! 1))))))) \<and>
                (dtypes value_col = Object \<longrightarrow>
                   r ! 2 = Str (concat (map text_of
                              (map (field df value_col) (group_rows df (r ! 0, r ! 1)))))))"
    using out by blast
qed

text \<open>Three runs: a frame without \<open>District\<close> comes back as it is; a frame with three
  rows in two groups and an \<open>int64\<close> value column comes back as two rows, sorted, with
  the sums 6 and 2; with a text value column, the texts of a group are concatenated.\<close>

theorem aggregate_passthrough_or_sum_witness:
  "aggregate_by_state_district (\<lambda>c. Int64)
     \<lparr>columns = [''State'', ''n''], rows = [[Str ''B'', Num 1]]\<rparr> ''n''
     = Inr \<lparr>columns = [''State'', ''n''], rows = [[Str ''B'', Num 1]]\<rparr> \<and>
   aggregate_by_state_district (\<lambda>c. Int64)
     \<lparr>columns = [''State'', ''District''], rows = [[Str ''A'', Str ''X'']]\<rparr> ''n''
     = Inl KeyError \<and>
   int64_column \<lparr>columns = [''State'', ''District'', ''n''],
                rows = [[Str ''B'', Str ''X'', Num 1], [Str ''A'', Str ''Y'', Num 2],
                        [Str ''B'', Str ''X'', Num 5]]\<rparr> ''n'' \<and>
   (\<exists>out. aggregate_by_state_district (\<lambda>c. Int64)
           \<lparr>columns = [''State'', ''District'', ''n''],
            rows = [[Str ''B'', Str ''X'', Num 1], [Str ''A'', Str ''Y'', Num 2],
                    [Str ''B'', Str ''X'', Num 5]]\<rparr> ''n'' = Inr out \<and>
          out = \<lparr>columns = [''State'', ''District'', ''n''],
                 rows = [[Str ''A'', Str ''Y'', Num 2], [Str ''B'', Str ''X'', Num 6]]\<rparr> \<and>
          distinct (map (\<lambda>r. (r ! 0, r ! 1)) (rows out))) \<and>
   aggregate_by_state_district (\<lambda>c. Object)
     \<lparr>columns = [''State'', ''District'', ''t''],
      rows = [[Str ''B'', Str ''X'', Str ''ab''], [Str ''B'', Str ''X'', Str ''c'']]\<rparr> ''t''
     = Inr \<lparr>columns = [''State'', ''District'', ''t''],
            rows = [[Str ''B'', Str ''X'', Str ''abc'']]\<rparr>"
proof -
  let ?df1 = "\<lparr>columns = [''State'', ''n''], rows = [[Str ''B'', Num 1]]\<rparr>"
  let ?df0 = "\<lparr>columns = [''State'', ''District''], rows = [[Str ''A'', Str ''X'']]\<rparr>"
  let ?df2 = "\<lparr>columns = [''State'', ''District'', ''n''],
            rows = [[Str ''B'', Str ''X'', Num 1], [Str ''A'', Str ''Y'', Num 2],
                    [Str ''B'', Str ''X'', Num 5]]\<rparr>"
  let ?out = "\<lparr>columns = [''State'', ''District'', ''n''],
                 rows = [[Str ''A'', Str ''Y'', Num 2], [Str ''B'', Str ''X'', Num 6]]\<rparr>"
  have a: "aggregate_by_state_district (\<lambda>c. Int64) ?df1 ''n'' = Inr ?df1"
    using aggregate_passthrough_or_sum [of ?df1 "\<lambda>c. Int64" "''n''"] by simp
  have k: "aggregate_by_state_district (\<lambda>c. Int64) ?df0 ''n'' = Inl KeyError"
    using aggregate_passthrough_or_sum [of ?df0 "\<lambda>c. Int64" "''n''"] by simp
  have n: "int64_column ?df2 ''n''"
    by (simp add: int64_column_def int64_cell_def column_def field_def cell_at_def)
  have run: "aggregate_by_state_district (\<lambda>c. Int64) ?df2 ''n'' = Inr ?out"
    by (simp add: aggregate_by_state_district_def pair_keys_def group_rows_def
        field_def cell_at_def cell_key_def sum_cells_def sum_int64_def int_of_def wrap64_def)
  have "\<exists>out. aggregate_by_state_district (\<lambda>c. Int64) ?df2 ''n'' = Inr out \<and>
      distinct (map (\<lambda>r. (r ! 0, r ! 1)) (rows out))"
    using aggregate_passthrough_or_sum [of ?df2 "\<lambda>c. Int64" "''n''"] n by auto
  then have d: "distinct (map (\<lambda>r. (r ! 0, r ! 1)) (rows ?out))"
    unfolding run by blast
  have t: "aggregate_by_state_district (\<lambda>c. Object)
     \<lparr>columns = [''State'', ''District'', ''t''],
      rows = [[Str ''B'', Str ''X'', Str ''ab''], [Str ''B'', Str ''X'', Str ''c'']]\<rparr> ''t''
     = Inr \<lparr>columns = [''State'', ''District'', ''t''],
            rows = [[Str ''B'', Str ''X'', Str ''abc'']]\<rparr>"
    by (simp add: aggregate_by_state_district_def pair_keys_def group_rows_def
        field_def cell_at_def cell_key_def sum_cells_def object_sum_def)
  show ?thesis using a k n run d t by blast
qed

text \<open>
  C8 as stated fails in its second half: with both key columns present the call raises
  \<open>KeyError\<close> when \<open>value_col\<close> is not a column, a pair with a null \<open>State\<close> gets no
  row, and on an \<open>int64\<close> column the values \<open>9223372036854775807\<close> and \<open>1\<close> of one
  pair are summed to \<open>-9223372036854775808\<close>.
\<close>

theorem aggregate_present_counterexample:
  "aggregate_by_state_district (\<lambda>c. Int64)
     \<lparr>columns = [''State'', ''District''], rows = [[Str ''A'', Str ''X'']]\<rparr> ''Enrolment''
     = Inl KeyError \<and>
   aggregate_by_state_district (\<lambda>c. Int64)
     \<lparr>columns = [''State'', ''District'', ''n''], rows = [[Null, Str ''X'', Num 7]]\<rparr> ''n''
     = Inr \<lparr>columns = [''State'', ''District'', ''n''], rows = []\<rparr> \<and>
   aggregate_by_state_district (\<lambda>c. Int64)
     \<lparr>columns = [''State'', ''District'', ''n''],
      rows = [[Str ''A'', Str ''X'', Num 9223372036854775807], [Str ''A'', Str ''X'', Num 1]]\<rparr>
     ''n''
     = Inr \<lparr>columns = [''State'', ''District'', ''n''],
            rows = [[Str ''A'', Str ''X'', Num (- 9223372036854775808)]]\<rparr>"
  by (simp add: aggregate_by_state_district_def column_def field_def cell_at_def
      pair_keys_def group_rows_def cell_key_def sum_cells_def sum_int64_def int_of_def
      wrap64_def)

section \<open>Claims about the migration indicators\<close>









lemma enrol_suffix_last: "last (c @ ''_enrol'') = CHR ''l''"
  by simp


































text \<open>
  C10. With both datasets loaded and merged, if the merged frame lacks the column
  \<open>Aadhaar Generated_enrol\<close> or the column \<open>Update_count\<close>, then
  \<open>calculate_migration_indicators\<close> raises nothing and returns the empty table: no
  column (so neither \<open>Update_Rate\<close> nor \<open>Migration_Risk\<close>) and no row.
\<close>

theorem migration_indicators_empty:
  "enrolment_df p = Some e \<and> demographic_df p = Some d \<and>
   merge_left e d merge_keys ''_enrol'' ''_demo'' = Inr merged \<and>
   (''Aadhaar Generated_enrol'' \<notin> set (columns merged) \<or>
    ''Update_count'' \<notin> set (columns merged))
     \<longrightarrow> (\<exists>t. calculate_migration_indicators p = Inr t \<and> tcolumns t = [] \<and> trows t = [] \<and>
            ''Update_Rate'' \<notin> set (tcolumns t) \<and> ''Migration_Risk'' \<notin> set (tcolumns t))"
  by (auto simp: calculate_migration_indicators_def empty_table_def)

text \<open>A run: the demographic data names its count \<open>Update_Count\<close> and has no
  \<open>Aadhaar Generated\<close> column, so the merged frame has neither of the two columns.\<close>

theorem migration_indicators_empty_witness:
  "merge_left example_enrolment
     \<lparr>columns = [''State'', ''District'', ''Pin Code'', ''Update_Count''],
      rows = [[Str ''A'', Str ''X'', Num 1, Num 7]]\<rparr> merge_keys ''_enrol'' ''_demo''
     = Inr \<lparr>columns = [''State'', ''District'', ''Pin Code'', ''Aadhaar Generated'', ''Update_Count''],
            rows = [[Str ''A'', Str ''X'', Num 1, Num 100, Num 7]]\<rparr> \<and>
   (\<exists>t. calculate_migration_indicators
          \<lparr>enrolment_df = Some example_enrolment,
           demographic_df = Some \<lparr>columns = [''State'', ''District'', ''Pin Code'', ''Update_Count''],
                                   rows = [[Str ''A'', Str ''X'', Num 1, Num 7]]\<rparr>,
           biometric_df = None\<rparr> = Inr t \<and> tcolumns t = [] \<and> trows t = [])"
proof -
  let ?d = "\<lparr>columns = [''State'', ''District'', ''Pin Code'', ''Update_Count''],
             rows = [[Str ''A'', Str ''X'', Num 1, Num 7]]\<rparr>"
  let ?p = "\<lparr>enrolment_df = Some example_enrolment, demographic_df = Some ?d,
             biometric_df = None\<rparr>"
  let ?m = "\<lparr>columns = [''State'', ''District'', ''Pin Code'', ''Aadhaar Generated'', ''Update_Count''],
            rows = [[Str ''A'', Str ''X'', Num 1, Num 100, Num 7]]\<rparr>"
  have mg: "merge_left example_enrolment ?d merge_keys ''_enrol'' ''_demo'' = Inr ?m"
    by (simp add: merge_left_def merged_columns_def overlap_def right_columns_def
        merge_row_def key_of_def field_def cell_at_def merge_keys_def example_enrolment_def)
  have lacks: "''Aadhaar Generated_enrol'' \<notin> set (columns ?m) \<or>
      ''Update_count'' \<notin> set (columns ?m)" by simp
  have "\<exists>t. calculate_migration_indicators ?p = Inr t \<and> tcolumns t = [] \<and> trows t = []"
    using migration_indicators_empty [of ?p example_enrolment ?d ?m] mg lacks by auto
  then show ?thesis using mg by blast
qed

section \<open>Claims about cleaning\<close>

lemma length_fill_from: "length (fill_from prev r) = length r"
  by (induction prev r rule: fill_from.induct) auto

lemma cell_at_Cons_Suc: "cell_at (p # ps) (Suc j) = cell_at ps j"
  by (simp add: cell_at_def)

lemma cell_at_Nil: "cell_at [] j = Null"
  by (simp add: cell_at_def)

lemma fill_from_id:
  "(\<And>j. j < length r \<Longrightarrow> r ! j = Null \<Longrightarrow> cell_at prev j = Null) \<Longrightarrow> fill_from prev r = r"
proof (induction prev r rule: fill_from.induct)
  case (1 prev)
  then show ?case by simp
next
  case (2 c cs)
  then show ?case by simp
next
  case (3 p ps c cs)
  have head: "c = Null \<Longrightarrow> p = Null"
    using "3.prems" [of 0] by (simp add: cell_at_def)
  have "fill_from ps cs = cs"
  proof (rule "3.IH")
    fix j assume "j < length cs" "cs ! j = Null"
    then show "cell_at ps j = Null"
      using "3.prems" [of "Suc j"] by (simp add: cell_at_Cons_Suc)
  qed
  then show ?case using head by simp
qed

lemma ffill_rows_id:
  assumes "\<And>r j. r \<in> set rs \<Longrightarrow> j < length r \<Longrightarrow> r ! j = Null \<Longrightarrow>
            cell_at prev j = Null \<and> (\<forall>r' \<in> set rs. cell_at r' j = Null)"
  shows "ffill_rows prev rs = rs"
  using assms
proof (induction rs arbitrary: prev)
  case Nil
  then show ?case by simp
next
  case (Cons r rs)
  have r: "fill_from prev r = r"
    by (rule fill_from_id) (use Cons.prems [of r] in simp)
  have "ffill_rows r rs = rs"
  proof (rule Cons.IH)
    fix r' j assume h: "r' \<in> set rs" "j < length r'" "r' ! j = Null"
    then have "\<forall>r'' \<in> set (r # rs). cell_at r'' j = Null"
      using Cons.prems [of r' j] by simp
    then show "cell_at r j = Null \<and> (\<forall>r'' \<in> set rs. cell_at r'' j = Null)" by simp
  qed
  then show ?case using r by simp
qed

lemma gap_free_rows:
  assumes "gap_free df" "set rs = set (rows df)"
  shows "ffill_rows [] rs = rs"
proof (rule ffill_rows_id)
  fix r j assume "r \<in> set rs" "j < length r" "r ! j = Null"
  then show "cell_at [] j = Null \<and> (\<forall>r' \<in> set rs. cell_at r' j = Null)"
    using assms by (simp add: gap_free_def cell_at_Nil)
qed

lemma ffill_gap_free: "gap_free df \<Longrightarrow> ffill df = df"
  by (simp add: ffill_def gap_free_rows)

lemma bfill_gap_free: "gap_free df \<Longrightarrow> bfill df = df"
  by (simp add: bfill_def gap_free_rows [of df "rev (rows df)"])

lemma length_apply_flags:
  "length r = length flags \<Longrightarrow> length (apply_flags f flags r) = length r"
  by (simp add: apply_flags_def)

lemma nth_apply_flags:
  "length r = length flags \<Longrightarrow> j < length r \<Longrightarrow>
     apply_flags f flags r ! j = (if flags ! j then f (r ! j) else r ! j)"
  by (simp add: apply_flags_def)

lemma apply_flags_id:
  assumes "length r = length flags"
    and "\<And>j. j < length r \<Longrightarrow> flags ! j \<Longrightarrow> f (r ! j) = r ! j"
  shows "apply_flags f flags r = r"
proof (rule nth_equalityI)
  show "length (apply_flags f flags r) = length r"
    by (rule length_apply_flags [OF assms(1)])
next
  fix j assume "j < length (apply_flags f flags r)"
  then have j: "j < length r" by (simp add: length_apply_flags [OF assms(1)])
  show "apply_flags f flags r ! j = r ! j"
    using nth_apply_flags [OF assms(1) j, of f] assms(2) [OF j] by simp
qed

lemma dedup_set: "set (dedup seen rs) = set rs - set seen"
  by (induction rs arbitrary: seen) auto

lemma dedup_distinct: "distinct (dedup seen rs)"
  by (induction rs arbitrary: seen) (auto simp: dedup_set)

lemma dedup_id: "distinct rs \<Longrightarrow> set rs \<inter> set seen = {} \<Longrightarrow> dedup seen rs = rs"
  by (induction rs arbitrary: seen) auto

lemma drop_duplicates_id: "distinct (rows df) \<Longrightarrow> drop_duplicates df = df"
  by (simp add: drop_duplicates_def dedup_id)

lemma to_datetime_cell_fixed:
  "c = Null \<or> (\<exists>d. c = Date d) \<Longrightarrow> to_datetime_cell pd c = c"
  by (auto simp: to_datetime_cell_def)

lemma to_datetime_cell_range:
  "to_datetime_cell pd c = Null \<or> (\<exists>d. to_datetime_cell pd c = Date d)"
  by (simp add: to_datetime_cell_def split: cell.splits option.splits)

lemma to_numeric_cell_not_text: "\<not> is_text (to_numeric_cell pd c)"
  by (simp add: to_numeric_cell_def is_text_def split: cell.splits option.splits)

lemma to_datetime_columns_id:
  assumes "wf_frame df" "date_settled df"
  shows "to_datetime_columns pd df = df"
proof -
  have "map (apply_flags (to_datetime_cell pd) (map is_date_col (columns df))) (rows df) = rows df"
  proof (rule map_idI)
    fix r assume r: "r \<in> set (rows df)"
    show "apply_flags (to_datetime_cell pd) (map is_date_col (columns df)) r = r"
    proof (rule apply_flags_id)
      show "length r = length (map is_date_col (columns df))"
        using assms(1) r by (simp add: wf_frame_def)
    next
      fix j assume j: "j < length r" "map is_date_col (columns df) ! j"
      then have "is_date_col (columns df ! j)"
        using assms(1) r by (simp add: wf_frame_def)
      then show "to_datetime_cell pd (r ! j) = r ! j"
        using assms(2) r j(1) by (intro to_datetime_cell_fixed) (simp add: date_settled_def)
    qed
  qed
  then show ?thesis by (simp add: to_datetime_columns_def)
qed

lemma not_object_no_text:
  assumes "no_text df" "wf_frame df" "j < length (columns df)"
  shows "\<not> is_object df j"
  using assms
  by (auto simp: is_object_def list_ex_iff no_text_def wf_frame_def cell_at_def)

lemma to_numeric_columns_id:
  assumes "wf_frame df" "no_text df"
  shows "to_numeric_columns pd df = df"
proof -
  let ?flags = "map (is_object df) [0 ..< length (columns df)]"
  have "map (apply_flags (to_numeric_cell pd) ?flags) (rows df) = rows df"
  proof (rule map_idI)
    fix r assume r: "r \<in> set (rows df)"
    show "apply_flags (to_numeric_cell pd) ?flags r = r"
    proof (rule apply_flags_id)
      show "length r = length ?flags" using assms(1) r by (simp add: wf_frame_def)
    next
      fix j assume j: "j < length r" "?flags ! j"
      then have jc: "j < length (columns df)" using assms(1) r by (simp add: wf_frame_def)
      then have "is_object df j" using j(2) by simp
      then show "to_numeric_cell pd (r ! j) = r ! j"
        using not_object_no_text [OF assms(2,1) jc] by simp
    qed
  qed
  then show ?thesis by (simp add: to_numeric_columns_def)
qed


lemma lengths_ffill_rows: "map length (ffill_rows prev rs) = map length rs"
  by (induction rs arbitrary: prev) (simp_all add: length_fill_from)

lemma wf_frame_lengths: "wf_frame df = (\<forall>n \<in> set (map length (rows df)). n = length (columns df))"
  by (auto simp: wf_frame_def)

lemma wf_ffill: "wf_frame df \<Longrightarrow> wf_frame (ffill df)"
  unfolding wf_frame_lengths by (simp add: ffill_def lengths_ffill_rows)

lemma wf_bfill: "wf_frame df \<Longrightarrow> wf_frame (bfill df)"
proof -
  assume w: "wf_frame df"
  have "map length (rev (ffill_rows [] (rev (rows df)))) = map length (rows df)"
    by (simp add: rev_map [symmetric] lengths_ffill_rows)
  then have "map length (rows (bfill df)) = map length (rows df)" by (simp add: bfill_def)
  moreover have "columns (bfill df) = columns df" by (simp add: bfill_def)
  ultimately show ?thesis using w unfolding wf_frame_lengths by simp
qed

lemma wf_to_datetime_columns: "wf_frame df \<Longrightarrow> wf_frame (to_datetime_columns pd df)"
  by (auto simp: wf_frame_def to_datetime_columns_def length_apply_flags)

lemma wf_drop_duplicates: "wf_frame df \<Longrightarrow> wf_frame (drop_duplicates df)"
  by (auto simp: wf_frame_def drop_duplicates_def dedup_set)

lemma wf_to_numeric_columns: "wf_frame df \<Longrightarrow> wf_frame (to_numeric_columns pd df)"
  by (auto simp: wf_frame_def to_numeric_columns_def length_apply_flags)

lemma date_settled_to_datetime:
  assumes "wf_frame df"
  shows "date_settled (to_datetime_columns pd df)"
  unfolding date_settled_def
proof (intro ballI allI impI)
  fix r' j
  assume r': "r' \<in> set (rows (to_datetime_columns pd df))"
    and j: "j < length r'"
    and d: "is_date_col (columns (to_datetime_columns pd df) ! j)"
  from r' obtain r where r: "r \<in> set (rows df)"
    and e: "r' = apply_flags (to_datetime_cell pd) (map is_date_col (columns df)) r"
    by (auto simp: to_datetime_columns_def)
  have len: "length r = length (map is_date_col (columns df))"
    using assms r by (simp add: wf_frame_def)
  have jr: "j < length r" using j e length_apply_flags [OF len] by simp
  have "r' ! j = to_datetime_cell pd (r ! j)"
    unfolding e using nth_apply_flags [OF len jr] d jr len
    by (simp add: to_datetime_columns_def)
  then show "r' ! j = Null \<or> (\<exists>d. r' ! j = Date d)"
    using to_datetime_cell_range [of pd "r ! j"] by simp
qed

lemma date_settled_drop_duplicates:
  "date_settled df \<Longrightarrow> date_settled (drop_duplicates df)"
  by (auto simp: date_settled_def drop_duplicates_def dedup_set)

lemma to_numeric_cell_settled:
  "c = Null \<or> (\<exists>d. c = Date d) \<Longrightarrow> to_numeric_cell pd c = Null"
  by (auto simp: to_numeric_cell_def)

lemma date_settled_to_numeric:
  assumes "wf_frame df" "date_settled df"
  shows "date_settled (to_numeric_columns pd df)"
  unfolding date_settled_def
proof (intro ballI allI impI)
  let ?flags = "map (is_object df) [0 ..< length (columns df)]"
  fix r' j
  assume r': "r' \<in> set (rows (to_numeric_columns pd df))"
    and j: "j < length r'"
    and d: "is_date_col (columns (to_numeric_columns pd df) ! j)"
  from r' obtain r where r: "r \<in> set (rows df)"
    and e: "r' = apply_flags (to_numeric_cell pd) ?flags r"
    by (auto simp: to_numeric_columns_def)
  have len: "length r = length ?flags" using assms(1) r by (simp add: wf_frame_def)
  have jr: "j < length r" using j e length_apply_flags [OF len] by simp
  have old: "r ! j = Null \<or> (\<exists>d. r ! j = Date d)"
    using assms(2) r jr d by (simp add: date_settled_def to_numeric_columns_def)
  have "r' ! j = to_numeric_cell pd (r ! j) \<or> r' ! j = r ! j"
    unfolding e using nth_apply_flags [OF len jr, of "to_numeric_cell pd"] by presburger
  then show "r' ! j = Null \<or> (\<exists>d. r' ! j = Date d)"
    using old to_numeric_cell_settled [OF old, of pd] by auto
qed

lemma no_text_to_numeric:
  assumes "wf_frame df"
  shows "no_text (to_numeric_columns pd df)"
  unfolding no_text_def
proof (intro ballI allI impI)
  let ?flags = "map (is_object df) [0 ..< length (columns df)]"
  fix r' j
  assume r': "r' \<in> set (rows (to_numeric_columns pd df))" and j: "j < length r'"
  from r' obtain r where r: "r \<in> set (rows df)"
    and e: "r' = apply_flags (to_numeric_cell pd) ?flags r"
    by (auto simp: to_numeric_columns_def)
  have len: "length r = length ?flags" using assms(1) r by (simp add: wf_frame_def)
  have jr: "j < length r" using j e length_apply_flags [OF len] by simp
  have jc: "j < length (columns df)" using jr len by simp
  show "\<not> is_text (r' ! j)"
  proof (cases "is_object df j")
    case True
    then have "r' ! j = to_numeric_cell pd (r ! j)"
      unfolding e using nth_apply_flags [OF len jr] jc by simp
    then show ?thesis by (simp add: to_numeric_cell_not_text)
  next
    case False
    then have "r' ! j = r ! j"
      unfolding e using nth_apply_flags [OF len jr] jc by simp
    moreover have "\<not> is_text (cell_at r j)"
      using False r by (auto simp: is_object_def list_ex_iff)
    ultimately show ?thesis using jr by (simp add: cell_at_def)
  qed
qed

lemma distinct_drop_duplicates: "distinct (rows (drop_duplicates df))"
  by (simp add: drop_duplicates_def dedup_distinct)

lemma clean_demographic_eq:
  "demographic_df p = Some df0 \<Longrightarrow>
   clean_demographic_data pd p =
     Inr (cleaned_demographic pd df0, p\<lparr>demographic_df := Some (cleaned_demographic pd df0)\<rparr>)"
  by (simp add: clean_demographic_data_def cleaned_demographic_def Let_def)

lemma clean_enrolment_eq:
  "enrolment_df p = Some df0 \<Longrightarrow>
   clean_enrolment_data pd p =
     Inr (cleaned_enrolment pd df0, p\<lparr>enrolment_df := Some (cleaned_enrolment pd df0)\<rparr>)"
  by (simp add: clean_enrolment_data_def cleaned_enrolment_def cleaned_demographic_def Let_def)

lemma cleaned_demographic_props:
  assumes "wf_frame df0"
  shows "wf_frame (cleaned_demographic pd df0)" "date_settled (cleaned_demographic pd df0)"
    "distinct (rows (cleaned_demographic pd df0))"
proof -
  have w: "wf_frame (to_datetime_columns pd (bfill (ffill df0)))"
    by (intro wf_to_datetime_columns wf_bfill wf_ffill assms)
  show "wf_frame (cleaned_demographic pd df0)"
    unfolding cleaned_demographic_def by (rule wf_drop_duplicates [OF w])
  show "date_settled (cleaned_demographic pd df0)"
    unfolding cleaned_demographic_def
    by (intro date_settled_drop_duplicates date_settled_to_datetime wf_bfill wf_ffill assms)
  show "distinct (rows (cleaned_demographic pd df0))"
    unfolding cleaned_demographic_def by (rule distinct_drop_duplicates)
qed

lemma cleaned_enrolment_props:
  assumes "wf_frame df0"
  shows "wf_frame (cleaned_enrolment pd df0)" "date_settled (cleaned_enrolment pd df0)"
    "no_text (cleaned_enrolment pd df0)"
  unfolding cleaned_enrolment_def
  using cleaned_demographic_props [OF assms, of pd]
  by (simp_all add: wf_to_numeric_columns date_settled_to_numeric no_text_to_numeric)

lemma cleaned_demographic_fixed:
  assumes "wf_frame df" "date_settled df" "distinct (rows df)" "gap_free df"
  shows "cleaned_demographic pd df = df"
  unfolding cleaned_demographic_def
  by (simp add: ffill_gap_free [OF assms(4)] bfill_gap_free [OF assms(4)]
      to_datetime_columns_id [OF assms(1,2)] drop_duplicates_id [OF assms(3)])

lemma cleaned_enrolment_fixed:
  assumes "wf_frame df" "date_settled df" "distinct (rows df)" "gap_free df" "no_text df"
  shows "cleaned_enrolment pd df = df"
  unfolding cleaned_enrolment_def
  by (simp add: cleaned_demographic_fixed [OF assms(1-4)] to_numeric_columns_id [OF assms(1,5)])

lemma example_clean_text:
  "clean_enrolment_data example_pandas
     (loaded \<lparr>columns = [''x''], rows = [[Str ''1''], [Str ''abc''], [Str ''3'']]\<rparr>)
   = Inr (\<lparr>columns = [''x''], rows = [[Num 1], [Null], [Num 3]]\<rparr>,
          (loaded \<lparr>columns = [''x''], rows = [[Str ''1''], [Str ''abc''], [Str ''3'']]\<rparr>)
            \<lparr>enrolment_df := Some \<lparr>columns = [''x''], rows = [[Num 1], [Null], [Num 3]]\<rparr>\<rparr>)"
  by (simp add: clean_enrolment_data_def Let_def loaded_def ffill_def bfill_def to_datetime_columns_def
      drop_duplicates_def to_numeric_columns_def apply_flags_def is_date_col_def lower_def
      sublist_code is_object_def is_text_def cell_at_def to_numeric_cell_def example_pandas_def)

lemma example_clean_again:
  "clean_enrolment_data example_pandas
     ((loaded \<lparr>columns = [''x''], rows = [[Str ''1''], [Str ''abc''], [Str ''3'']]\<rparr>)
        \<lparr>enrolment_df := Some \<lparr>columns = [''x''], rows = [[Num 1], [Null], [Num 3]]\<rparr>\<rparr>)
   = Inr (\<lparr>columns = [''x''], rows = [[Num 1], [Num 3]]\<rparr>,
          (loaded \<lparr>columns = [''x''], rows = [[Str ''1''], [Str ''abc''], [Str ''3'']]\<rparr>)
            \<lparr>enrolment_df := Some \<lparr>columns = [''x''], rows = [[Num 1], [Num 3]]\<rparr>\<rparr>)"
  by (simp add: clean_enrolment_data_def Let_def loaded_def ffill_def bfill_def to_datetime_columns_def
      drop_duplicates_def to_numeric_columns_def apply_flags_def is_date_col_def lower_def
      sublist_code is_object_def is_text_def cell_at_def to_numeric_cell_def example_pandas_def)

lemma example_clean_dates:
  "clean_demographic_data example_pandas
     (loaded \<lparr>columns = [''date''], rows = [[Str ''2020-01-01''], [Str ''abc'']]\<rparr>)
   = Inr (\<lparr>columns = [''date''], rows = [[Date 18262], [Null]]\<rparr>,
          (loaded \<lparr>columns = [''date''], rows = [[Str ''2020-01-01''], [Str ''abc'']]\<rparr>)
            \<lparr>demographic_df := Some \<lparr>columns = [''date''], rows = [[Date 18262], [Null]]\<rparr>\<rparr>)"
  by (simp add: clean_demographic_data_def Let_def loaded_def ffill_def bfill_def to_datetime_columns_def
      drop_duplicates_def apply_flags_def is_date_col_def lower_def sublist_code
      to_datetime_cell_def example_pandas_def)

lemma example_clean_dates_again:
  "clean_demographic_data example_pandas
     ((loaded \<lparr>columns = [''date''], rows = [[Str ''2020-01-01''], [Str ''abc'']]\<rparr>)
        \<lparr>demographic_df := Some \<lparr>columns = [''date''], rows = [[Date 18262], [Null]]\<rparr>\<rparr>)
   = Inr (\<lparr>columns = [''date''], rows = [[Date 18262]]\<rparr>,
          (loaded \<lparr>columns = [''date''], rows = [[Str ''2020-01-01''], [Str ''abc'']]\<rparr>)
            \<lparr>demographic_df := Some \<lparr>columns = [''date''], rows = [[Date 18262]]\<rparr>\<rparr>)"
  by (simp add: clean_demographic_data_def Let_def loaded_def ffill_def bfill_def to_datetime_columns_def
      drop_duplicates_def apply_flags_def is_date_col_def lower_def sublist_code
      to_datetime_cell_def example_pandas_def)

text \<open>
  C5. The claim does not hold of the code, and the code is at fault. The enrolment
  cleaner calls \<open>pd.to_numeric(df[col], errors='coerce')\<close> on every object column; with
  \<open>errors='coerce'\<close> the call never raises, so the \<open>try/except: pass\<close> around it never
  leaves a column as text, and every text that is not a number becomes null. On the
  enrolment data \<open>State = ["Gujarat", "Bihar"]\<close>, \<open>x = ["1", "abc"]\<close> the cleaner returns
  \<open>State = [null, null]\<close>, \<open>x = [1, null]\<close>: the column \<open>x\<close>, whose value \<open>abc\<close> does not
  parse, is not left unchanged as text, and the \<open>State\<close> column is wiped. The
  demographic cleaner, which has no such step, returns the same data unchanged.
\<close>

theorem numeric_coercion_failing_input:
  "to_numeric_text example_pandas ''abc'' = None \<and>
   to_numeric_text example_pandas ''Gujarat'' = None \<and>
   to_numeric_text example_pandas ''Bihar'' = None \<and>
   clean_enrolment_data example_pandas
     (loaded \<lparr>columns = [''State'', ''x''],
              rows = [[Str ''Gujarat'', Str ''1''], [Str ''Bihar'', Str ''abc'']]\<rparr>)
   = Inr (\<lparr>columns = [''State'', ''x''], rows = [[Null, Num 1], [Null, Null]]\<rparr>,
          (loaded \<lparr>columns = [''State'', ''x''],
                   rows = [[Str ''Gujarat'', Str ''1''], [Str ''Bihar'', Str ''abc'']]\<rparr>)
            \<lparr>enrolment_df :=
               Some \<lparr>columns = [''State'', ''x''], rows = [[Null, Num 1], [Null, Null]]\<rparr>\<rparr>) \<and>
   clean_demographic_data example_pandas
     (loaded \<lparr>columns = [''State'', ''x''],
              rows = [[Str ''Gujarat'', Str ''1''], [Str ''Bihar'', Str ''abc'']]\<rparr>)
   = Inr (\<lparr>columns = [''State'', ''x''],
           rows = [[Str ''Gujarat'', Str ''1''], [Str ''Bihar'', Str ''abc'']]\<rparr>,
          (loaded \<lparr>columns = [''State'', ''x''],
                   rows = [[Str ''Gujarat'', Str ''1''], [Str ''Bihar'', Str ''abc'']]\<rparr>)
            \<lparr>demographic_df :=
               Some \<lparr>columns = [''State'', ''x''],
                     rows = [[Str ''Gujarat'', Str ''1''], [Str ''Bihar'', Str ''abc'']]\<rparr>\<rparr>)"
  by (simp add: clean_enrolment_data_def clean_demographic_data_def Let_def loaded_def
      ffill_def bfill_def to_datetime_columns_def drop_duplicates_def to_numeric_columns_def
      apply_flags_def is_date_col_def lower_def sublist_code is_object_def is_text_def
      cell_at_def to_numeric_cell_def example_pandas_def)

text \<open>
  C4 (as amended). Each cleaner returns a frame whenever its dataset is loaded. For a
  well-formed loaded dataset, running the cleaner again on the pipeline it has updated
  yields the identical frame and pipeline, provided the once-cleaned frame has no gap
  (no column that is null in some rows and not in others) and, for the enrolment
  cleaner, no two equal rows. Without the proviso the second run may differ: it fills
  the nulls that the coercion of the first run created, and drops the rows that became
  equal.
\<close>

theorem cleaner_fixed_point:
  "(enrolment_df p = Some df0 \<longrightarrow> (\<exists>d p'. clean_enrolment_data pd p = Inr (d, p'))) \<and>
   (demographic_df p = Some df0 \<longrightarrow> (\<exists>d p'. clean_demographic_data pd p = Inr (d, p'))) \<and>
   (enrolment_df p = Some df0 \<and> wf_frame df0 \<and>
    clean_enrolment_data pd p = Inr (d1, p1) \<and> gap_free d1 \<and> distinct (rows d1)
      \<longrightarrow> clean_enrolment_data pd p1 = Inr (d1, p1)) \<and>
   (demographic_df p = Some df0 \<and> wf_frame df0 \<and>
    clean_demographic_data pd p = Inr (d1, p1) \<and> gap_free d1
      \<longrightarrow> clean_demographic_data pd p1 = Inr (d1, p1))"
proof (intro conjI impI)
  assume "enrolment_df p = Some df0"
  then show "\<exists>d p'. clean_enrolment_data pd p = Inr (d, p')"
    using clean_enrolment_eq by blast
next
  assume "demographic_df p = Some df0"
  then show "\<exists>d p'. clean_demographic_data pd p = Inr (d, p')"
    using clean_demographic_eq by blast
next
  assume h: "enrolment_df p = Some df0 \<and> wf_frame df0 \<and>
    clean_enrolment_data pd p = Inr (d1, p1) \<and> gap_free d1 \<and> distinct (rows d1)"
  then have d1: "d1 = cleaned_enrolment pd df0" and p1: "p1 = p\<lparr>enrolment_df := Some d1\<rparr>"
    using clean_enrolment_eq [of p df0 pd] by auto
  have props: "wf_frame d1" "date_settled d1" "no_text d1"
    unfolding d1 using cleaned_enrolment_props [of df0 pd] h by blast+
  have fixed: "cleaned_enrolment pd d1 = d1"
    using cleaned_enrolment_fixed [OF props(1,2) _ _ props(3)] h by blast
  have "enrolment_df p1 = Some d1" by (simp add: p1)
  then show "clean_enrolment_data pd p1 = Inr (d1, p1)"
    using clean_enrolment_eq [of p1 d1 pd] fixed by (simp add: p1)
next
  assume h: "demographic_df p = Some df0 \<and> wf_frame df0 \<and>
    clean_demographic_data pd p = Inr (d1, p1) \<and> gap_free d1"
  then have d1: "d1 = cleaned_demographic pd df0" and p1: "p1 = p\<lparr>demographic_df := Some d1\<rparr>"
    using clean_demographic_eq [of p df0 pd] by auto
  have props: "wf_frame d1" "date_settled d1" "distinct (rows d1)"
    unfolding d1 using cleaned_demographic_props [of df0 pd] h by blast+
  have fixed: "cleaned_demographic pd d1 = d1"
    using cleaned_demographic_fixed [OF props] h by blast
  have "demographic_df p1 = Some d1" by (simp add: p1)
  then show "clean_demographic_data pd p1 = Inr (d1, p1)"
    using clean_demographic_eq [of p1 d1 pd] fixed by (simp add: p1)
qed

text \<open>A run: the column \<open>["1", "3"]\<close> is cleaned to \<open>[1, 3]\<close>, which has no gap and no
  equal rows, and cleaning the updated pipeline returns the same frame and pipeline.\<close>

theorem cleaner_fixed_point_witness:
  "clean_enrolment_data example_pandas
     (loaded \<lparr>columns = [''x''], rows = [[Str ''1''], [Str ''3'']]\<rparr>)
   = Inr (\<lparr>columns = [''x''], rows = [[Num 1], [Num 3]]\<rparr>,
          (loaded \<lparr>columns = [''x''], rows = [[Str ''1''], [Str ''3'']]\<rparr>)
            \<lparr>enrolment_df := Some \<lparr>columns = [''x''], rows = [[Num 1], [Num 3]]\<rparr>\<rparr>) \<and>
   gap_free \<lparr>columns = [''x''], rows = [[Num 1], [Num 3]]\<rparr> \<and>
   clean_enrolment_data example_pandas
     ((loaded \<lparr>columns = [''x''], rows = [[Str ''1''], [Str ''3'']]\<rparr>)
        \<lparr>enrolment_df := Some \<lparr>columns = [''x''], rows = [[Num 1], [Num 3]]\<rparr>\<rparr>)
   = Inr (\<lparr>columns = [''x''], rows = [[Num 1], [Num 3]]\<rparr>,
          (loaded \<lparr>columns = [''x''], rows = [[Str ''1''], [Str ''3'']]\<rparr>)
            \<lparr>enrolment_df := Some \<lparr>columns = [''x''], rows = [[Num 1], [Num 3]]\<rparr>\<rparr>)"
proof -
  let ?df0 = "\<lparr>columns = [''x''], rows = [[Str ''1''], [Str ''3'']]\<rparr>"
  let ?d1 = "\<lparr>columns = [''x''], rows = [[Num 1], [Num 3]]\<rparr>"
  let ?p1 = "(loaded ?df0)\<lparr>enrolment_df := Some ?d1\<rparr>"
  have l: "enrolment_df (loaded ?df0) = Some ?df0" by (simp add: loaded_def)
  have w: "wf_frame ?df0" by (simp add: wf_frame_def)
  have run: "clean_enrolment_data example_pandas (loaded ?df0) = Inr (?d1, ?p1)"
    by (simp add: clean_enrolment_data_def Let_def loaded_def ffill_def bfill_def
        to_datetime_columns_def drop_duplicates_def to_numeric_columns_def apply_flags_def
        is_date_col_def lower_def sublist_code is_object_def is_text_def cell_at_def
        to_numeric_cell_def example_pandas_def)
  have g: "gap_free ?d1" by (simp add: gap_free_def)
  have d: "distinct (rows ?d1)" by simp
  have "clean_enrolment_data example_pandas ?p1 = Inr (?d1, ?p1)"
    using cleaner_fixed_point [of "loaded ?df0" ?df0 example_pandas ?d1 ?p1] l w run g d
    by blast
  then show ?thesis using run g by blast
qed

text \<open>
  C4 as stated fails. Cleaning the enrolment column \<open>["1", "abc", "3"]\<close> gives
  \<open>[1, null, 3]\<close>, and cleaning that again gives \<open>[1, 3]\<close>: the null is filled with the 1
  above it and the row that became a duplicate is dropped. Cleaning the demographic
  column \<open>date = ["2020-01-01", "abc"]\<close> gives a timestamp and a null, and cleaning that
  again leaves a single row.
\<close>

theorem cleaner_idempotence_counterexample:
  "clean_enrolment_data example_pandas
     (loaded \<lparr>columns = [''x''], rows = [[Str ''1''], [Str ''abc''], [Str ''3'']]\<rparr>)
   = Inr (\<lparr>columns = [''x''], rows = [[Num 1], [Null], [Num 3]]\<rparr>,
          (loaded \<lparr>columns = [''x''], rows = [[Str ''1''], [Str ''abc''], [Str ''3'']]\<rparr>)
            \<lparr>enrolment_df := Some \<lparr>columns = [''x''], rows = [[Num 1], [Null], [Num 3]]\<rparr>\<rparr>) \<and>
   clean_enrolment_data example_pandas
     ((loaded \<lparr>columns = [''x''], rows = [[Str ''1''], [Str ''abc''], [Str ''3'']]\<rparr>)
        \<lparr>enrolment_df := Some \<lparr>columns = [''x''], rows = [[Num 1], [Null], [Num 3]]\<rparr>\<rparr>)
   = Inr (\<lparr>columns = [''x''], rows = [[Num 1], [Num 3]]\<rparr>,
          (loaded \<lparr>columns = [''x''], rows = [[Str ''1''], [Str ''abc''], [Str ''3'']]\<rparr>)
            \<lparr>enrolment_df := Some \<lparr>columns = [''x''], rows = [[Num 1], [Num 3]]\<rparr>\<rparr>) \<and>
   \<lparr>columns = [''x''], rows = [[Num 1], [Null], [Num 3]]\<rparr>
     \<noteq> \<lparr>columns = [''x''], rows = [[Num 1], [Num 3]]\<rparr> \<and>
   clean_demographic_data example_pandas
     (loaded \<lparr>columns = [''date''], rows = [[Str ''2020-01-01''], [Str ''abc'']]\<rparr>)
   = Inr (\<lparr>columns = [''date''], rows = [[Date 18262], [Null]]\<rparr>,
          (loaded \<lparr>columns = [''date''], rows = [[Str ''2020-01-01''], [Str ''abc'']]\<rparr>)
            \<lparr>demographic_df := Some \<lparr>columns = [''date''], rows = [[Date 18262], [Null]]\<rparr>\<rparr>) \<and>
   clean_demographic_data example_pandas
     ((loaded \<lparr>columns = [''date''], rows = [[Str ''2020-01-01''], [Str ''abc'']]\<rparr>)
        \<lparr>demographic_df := Some \<lparr>columns = [''date''], rows = [[Date 18262], [Null]]\<rparr>\<rparr>)
   = Inr (\<lparr>columns = [''date''], rows = [[Date 18262]]\<rparr>,
          (loaded \<lparr>columns = [''date''], rows = [[Str ''2020-01-01''], [Str ''abc'']]\<rparr>)
            \<lparr>demographic_df := Some \<lparr>columns = [''date''], rows = [[Date 18262]]\<rparr>\<rparr>) \<and>
   \<lparr>columns = [''date''], rows = [[Date 18262], [Null]]\<rparr>
     \<noteq> \<lparr>columns = [''date''], rows = [[Date 18262]]\<rparr>"
  using example_clean_text example_clean_again example_clean_dates example_clean_dates_again
  by simp

end
